(* ===== verification/Prelude.thy ===== *)
theory Prelude
  imports Main
begin

text \<open>
  Shared vocabulary of the development. A Python \<open>str\<close> is a sequence of Unicode code
  points, so it is modelled as a list of natural numbers (\<open>pystr\<close>); ASCII literals of
  the source are written \<open>u ''...''\<close>. The theory defines the few \<open>str\<close> methods and
  built-ins the repository calls (\<open>strip\<close>, \<open>startswith\<close>, slicing, \<open>partition\<close>,
  \<open>split('-')[-1]\<close>, \<open>str(int)\<close> and \<open>int(str)\<close>) and the lemmas on them that the
  component theories share, in particular the round trip \<open>int(str(i)) = i\<close>.
\<close>

named_theorems pystr_simps "evaluation and shape rules of the Python string model"

type_synonym pystr = "nat list"

definition u :: "string \<Rightarrow> pystr" where
  "u s = map of_char s"

declare u_def [pystr_simps]

subsection \<open>Character classes\<close>

text \<open>\<open>str.isspace\<close> / \<open>Py_UNICODE_ISSPACE\<close>, also the class of the regular expression \<open>\s\<close>.\<close>

definition py_isspace :: "nat \<Rightarrow> bool" where
  "py_isspace c \<longleftrightarrow>
     (9 \<le> c \<and> c \<le> 13) \<or> (28 \<le> c \<and> c \<le> 32) \<or> c = 133 \<or> c = 160 \<or> c = 5760 \<or>
     (8192 \<le> c \<and> c \<le> 8202) \<or> c = 8232 \<or> c = 8233 \<or> c = 8239 \<or> c = 8287 \<or> c = 12288"

definition is_digit :: "nat \<Rightarrow> bool" where
  "is_digit c \<longleftrightarrow> 48 \<le> c \<and> c \<le> 57"

subsection \<open>String methods\<close>

definition py_strip :: "pystr \<Rightarrow> pystr" where
  "py_strip s = rev (dropWhile py_isspace (rev (dropWhile py_isspace s)))"

definition py_startswith :: "pystr \<Rightarrow> pystr \<Rightarrow> bool" where
  "py_startswith s p \<longleftrightarrow> take (length p) s = p"

text \<open>\<open>s.find(sep)\<close>: the index of the first occurrence, \<open>None\<close> for Python's \<open>-1\<close>.\<close>

fun py_find :: "pystr \<Rightarrow> pystr \<Rightarrow> nat option" where
  "py_find sep [] = (if sep = [] then Some 0 else None)"
| "py_find sep (c # s) =
     (if take (length sep) (c # s) = sep then Some 0 else map_option Suc (py_find sep s))"

text \<open>\<open>s.partition(sep)\<close>: split at the first occurrence of \<open>sep\<close>.\<close>

definition py_partition :: "pystr \<Rightarrow> pystr \<Rightarrow> pystr \<times> pystr \<times> pystr" where
  "py_partition s sep =
     (case py_find sep s of
        None \<Rightarrow> (s, [], [])
      | Some i \<Rightarrow> (take i s, sep, drop (i + length sep) s))"

text \<open>\<open>s.split(c)[-1]\<close> for a one-character separator: the text after the last \<open>c\<close>.\<close>

definition split_last_field :: "nat \<Rightarrow> pystr \<Rightarrow> pystr" where
  "split_last_field c s = rev (takeWhile (\<lambda>x. x \<noteq> c) (rev s))"

subsection \<open>\<open>str(int)\<close> and \<open>int(str)\<close>\<close>

fun str_nat :: "nat \<Rightarrow> pystr" where
  "str_nat n = (if n < 10 then [48 + n] else str_nat (n div 10) @ [48 + n mod 10])"

declare str_nat.simps [simp del]

definition str_int :: "int \<Rightarrow> pystr" where
  "str_int i = (if i < 0 then 45 # str_nat (nat (- i)) else str_nat (nat i))"

text \<open>
  The body accepted by \<open>int()\<close> after the sign: ASCII digits, single underscores
  allowed between two digits (\<open>1_000\<close>).
\<close>

fun udigits :: "pystr \<Rightarrow> bool" where
  "udigits [] = False"
| "udigits (c # r) =
     (is_digit c \<and> (case r of [] \<Rightarrow> True | d # r' \<Rightarrow> (if d = 95 then udigits r' else udigits r)))"

definition digits_value :: "pystr \<Rightarrow> nat" where
  "digits_value r = foldl (\<lambda>acc c. acc * 10 + (c - 48)) 0 (filter (\<lambda>c. c \<noteq> 95) r)"

text \<open>\<open>int(s)\<close>: surrounding whitespace stripped, an optional sign, then the digits;
  \<open>None\<close> is the \<open>ValueError\<close> it raises.\<close>

definition py_int :: "pystr \<Rightarrow> int option" where
  "py_int s =
     (let t = py_strip s in
      if t \<noteq> [] \<and> (hd t = 43 \<or> hd t = 45) then
        (if udigits (tl t) then Some ((if hd t = 45 then -1 else 1) * int (digits_value (tl t)))
         else None)
      else if udigits t then Some (int (digits_value t)) else None)"

declare py_isspace_def [pystr_simps] is_digit_def [pystr_simps] py_strip_def [pystr_simps]
  py_startswith_def [pystr_simps] py_partition_def [pystr_simps]
  split_last_field_def [pystr_simps] str_int_def [pystr_simps] digits_value_def [pystr_simps]
  py_int_def [pystr_simps]

subsection \<open>Insertion-ordered dictionaries\<close>

text \<open>
  A Python \<open>dict\<close> keeps its keys in insertion order, so it is an association list;
  \<open>collections.defaultdict\<close> reads a missing key as its default (\<open>dd_get\<close>) and
  \<open>d[k] = f(d[k])\<close> on a defaultdict is \<open>dd_upd\<close>: a new key goes to the end.
  \<open>first_seen\<close> lists the distinct elements of a list in the order they first occur.
\<close>

definition first_seen :: "'a list \<Rightarrow> 'a list" where
  "first_seen xs = rev (remdups (rev xs))"

fun al_lookup :: "'k \<Rightarrow> ('k \<times> 'v) list \<Rightarrow> 'v option" where
  "al_lookup k [] = None"
| "al_lookup k ((k', v) # ps) = (if k = k' then Some v else al_lookup k ps)"

definition dd_get :: "'k \<Rightarrow> 'v \<Rightarrow> ('k \<times> 'v) list \<Rightarrow> 'v" where
  "dd_get k d ps = (case al_lookup k ps of None \<Rightarrow> d | Some v \<Rightarrow> v)"

fun dd_upd :: "'k \<Rightarrow> ('v \<Rightarrow> 'v) \<Rightarrow> 'v \<Rightarrow> ('k \<times> 'v) list \<Rightarrow> ('k \<times> 'v) list" where
  "dd_upd k f d [] = [(k, f d)]"
| "dd_upd k f d ((k', v) # ps) = (if k = k' then (k', f v) # ps else (k', v) # dd_upd k f d ps)"

subsection \<open>Shape of \<open>str_nat\<close>\<close>

lemma str_nat_digits: "c \<in> set (str_nat n) \<Longrightarrow> is_digit c"
proof (induction n rule: str_nat.induct)
  case (1 n)
  then show ?case
    by (cases "n < 10") (auto simp: is_digit_def str_nat.simps [of n])
qed

lemma str_nat_nonempty [simp]: "str_nat n \<noteq> []"
  by (subst str_nat.simps) simp

lemma digit_not_space: "is_digit c \<Longrightarrow> \<not> py_isspace c"
  by (simp add: is_digit_def py_isspace_def)

lemma str_nat_no_space: "c \<in> set (str_nat n) \<Longrightarrow> \<not> py_isspace c"
  using str_nat_digits digit_not_space by blast

lemma str_nat_no_dash [simp]: "45 \<notin> set (str_nat n)"
  using str_nat_digits [of 45 n] by (auto simp: is_digit_def)

lemma str_nat_no_underscore [simp]: "95 \<notin> set (str_nat n)"
  using str_nat_digits [of 95 n] by (auto simp: is_digit_def)

lemma udigits_all_digits: "xs \<noteq> [] \<Longrightarrow> \<forall>c \<in> set xs. is_digit c \<Longrightarrow> udigits xs"
proof (induction xs rule: udigits.induct)
  case 1
  then show ?case by simp
next
  case (2 c r)
  then show ?case by (cases r) (auto simp: is_digit_def)
qed

lemma digits_value_snoc:
  "95 \<notin> set xs \<Longrightarrow> d \<noteq> 95 \<Longrightarrow> digits_value (xs @ [d]) = digits_value xs * 10 + (d - 48)"
proof -
  assume "95 \<notin> set xs" "d \<noteq> 95"
  then have "filter (\<lambda>c. c \<noteq> 95) (xs @ [d]) = filter (\<lambda>c. c \<noteq> 95) xs @ [d]" by simp
  then show ?thesis by (simp add: digits_value_def)
qed

lemma digits_value_str_nat: "digits_value (str_nat n) = n"
proof (induction n rule: str_nat.induct)
  case (1 n)
  show ?case
  proof (cases "n < 10")
    case True
    then show ?thesis by (simp add: str_nat.simps [of n] digits_value_def)
  next
    case False
    then have "digits_value (str_nat n) = digits_value (str_nat (n div 10)) * 10 + n mod 10"
      by (simp add: str_nat.simps [of n] digits_value_snoc)
    with "1.IH" False show ?thesis by simp
  qed
qed

lemma hd_str_nat_digit: "is_digit (hd (str_nat n))"
  by (rule str_nat_digits [OF hd_in_set [OF str_nat_nonempty]])

lemma py_strip_str_nat: "py_strip (str_nat n) = str_nat n"
proof -
  have "dropWhile py_isspace (str_nat n) = str_nat n"
    using digit_not_space [OF hd_str_nat_digit [of n]] by (simp add: dropWhile_eq_self_iff)
  moreover have "dropWhile py_isspace (rev (str_nat n)) = rev (str_nat n)"
    using str_nat_no_space [OF last_in_set [OF str_nat_nonempty]]
    by (simp add: dropWhile_eq_self_iff hd_rev)
  ultimately show ?thesis by (simp add: py_strip_def)
qed

text \<open>Round trip of the decimal printer and parser of \<open>int\<close>.\<close>

lemma py_int_str_nat [simp]: "py_int (str_nat n) = Some (int n)"
proof -
  have "udigits (str_nat n)"
    by (rule udigits_all_digits) (auto simp: str_nat_digits)
  moreover have "hd (str_nat n) \<noteq> 43" "hd (str_nat n) \<noteq> 45"
    using hd_str_nat_digit [of n] by (auto simp: is_digit_def)
  ultimately show ?thesis
    by (simp add: py_int_def py_strip_str_nat digits_value_str_nat Let_def)
qed

lemma split_last_field_append:
  assumes "c \<notin> set ys"
  shows "split_last_field c (xs @ c # ys) = ys"
proof -
  from assms have "\<forall>x \<in> set (rev ys). x \<noteq> c" by auto
  then have "takeWhile (\<lambda>x. x \<noteq> c) (rev ys @ c # rev xs) = rev ys"
    by (subst takeWhile_append2) auto
  then show ?thesis by (simp add: split_last_field_def)
qed

subsection \<open>Dictionaries built by a loop\<close>

lemma first_seen_snoc:
  "first_seen (xs @ [y]) = (if y \<in> set xs then first_seen xs else first_seen xs @ [y])"
  by (simp add: first_seen_def)

lemma distinct_first_seen [simp]: "distinct (first_seen xs)"
  by (simp add: first_seen_def)

lemma set_first_seen [simp]: "set (first_seen xs) = set xs"
  by (simp add: first_seen_def)

lemma dd_upd_map_in:
  "distinct ks \<Longrightarrow> k \<in> set ks \<Longrightarrow>
   dd_upd k f d (map (\<lambda>k. (k, F k)) ks) = map (\<lambda>k'. (k', if k' = k then f (F k') else F k')) ks"
proof (induction ks)
  case Nil
  then show ?case by simp
next
  case (Cons k' ks)
  then show ?case by (auto intro: map_cong)
qed

lemma dd_upd_map_notin:
  "k \<notin> set ks \<Longrightarrow> dd_upd k f d (map (\<lambda>k. (k, F k)) ks) = map (\<lambda>k. (k, F k)) ks @ [(k, f d)]"
  by (induction ks) auto

lemma dd_upd_fold:
  "foldl (\<lambda>acc x. dd_upd (key x) (g x) d acc) [] xs =
   map (\<lambda>k. (k, foldl (\<lambda>v x. g x v) d (filter (\<lambda>x. key x = k) xs))) (first_seen (map key xs))"
proof (induction xs rule: rev_induct)
  case Nil
  then show ?case by (simp add: first_seen_def)
next
  case (snoc x xs)
  show ?case
  proof (cases "key x \<in> set (map key xs)")
    case True
    then show ?thesis
      by (simp add: snoc.IH dd_upd_map_in first_seen_snoc cong: map_cong)
  next
    case False
    then have "filter (\<lambda>y. key y = key x) xs = []"
      by (auto simp: filter_empty_conv image_iff)
    moreover have "\<forall>k \<in> set (first_seen (map key xs)). k \<noteq> key x"
      using False by (simp only: set_first_seen) blast
    ultimately show ?thesis
      using False by (simp add: snoc.IH dd_upd_map_notin first_seen_snoc) (metis (mono_tags))
  qed
qed

lemma al_lookup_map:
  "al_lookup k (map (\<lambda>k. (k, F k)) ks) = (if k \<in> set ks then Some (F k) else None)"
  by (induction ks) auto

lemma str_nat_inj: "str_nat m = str_nat n \<Longrightarrow> m = n"
  by (metis digits_value_str_nat)

lemma str_int_inj: "str_int p = str_int q \<Longrightarrow> p = q"
proof -
  assume eq: "str_int p = str_int q"
  have "hd (str_nat n) \<noteq> 45" for n using hd_str_nat_digit [of n] by (simp add: is_digit_def)
  then have ne: "str_nat n \<noteq> 45 # str_nat m" for m n by (metis list.sel(1))
  with eq show "p = q"
    by (auto simp: str_int_def split: if_splits dest!: str_nat_inj) (metis ne)+
qed

lemma py_startswith_iff: "py_startswith s p \<longleftrightarrow> (\<exists>t. s = p @ t)"
  by (auto simp: py_startswith_def) (metis append_take_drop_id)

end
