(* ===== verification/Launcher.thy ===== *)
theory Launcher
  imports Prelude "HOL-Library.Word"
begin

text \<open>
  The process launcher of \<open>src/pytest_html_validator/utils.py\<close>: \<open>get_an_unused_port\<close>,
  \<open>get_vnu_args\<close> (resolution of the Java runtime and of \<open>vnu.jar\<close>, with the
  existence check before launch), \<open>wait_for_vnu_to_start\<close> (the readiness probe loop) and
  \<open>_start_vnu_server\<close>, which composes them. Everything the operating system answers
  (the port \<open>bind(0)\<close> picks, \<open>os.environ\<close>, \<open>shutil.which\<close>, \<open>sys.prefix\<close>,
  \<open>Path.exists\<close>, whether \<open>Popen\<close> raises, what each \<open>urlopen\<close> probe returns) is a
  field of the record \<open>launch_env\<close>, so that the functions are total and executable.
  Paths follow \<open>PurePosixPath\<close>: a flag for a leading slash and the list of components,
  also when \<open>os.name\<close> is \<open>nt\<close> (only the default jar location depends on it).
\<close>

subsection \<open>Paths\<close>

datatype path = Path bool "pystr list"

fun split_on :: "nat \<Rightarrow> pystr \<Rightarrow> pystr list" where
  "split_on c [] = [[]]"
| "split_on c (x # xs) =
     (let ws = split_on c xs in if x = c then [] # ws else (x # hd ws) # tl ws)"

text \<open>\<open>Path(s)\<close>: empty and \<open>.\<close> components are dropped, as \<open>pathlib\<close> does.\<close>

definition path_of :: "pystr \<Rightarrow> path" where
  "path_of s = Path (s \<noteq> [] \<and> hd s = 47) (filter (\<lambda>w. w \<noteq> [] \<and> w \<noteq> u ''.'') (split_on 47 s))"

primrec path_abs :: "path \<Rightarrow> bool" where
  "path_abs (Path a cs) = a"

primrec path_parts :: "path \<Rightarrow> pystr list" where
  "path_parts (Path a cs) = cs"

text \<open>\<open>p / s\<close>: an absolute right operand replaces the left one.\<close>

definition path_div :: "path \<Rightarrow> pystr \<Rightarrow> path" where
  "path_div p s =
     (let q = path_of s in if path_abs q then q else Path (path_abs p) (path_parts p @ path_parts q))"

text \<open>\<open>str(p)\<close>: the components joined by slashes.\<close>

fun join_slash :: "pystr list \<Rightarrow> pystr" where
  "join_slash [] = []"
| "join_slash [w] = w"
| "join_slash (w # v # ws) = w @ [47] @ join_slash (v # ws)"

primrec path_str :: "path \<Rightarrow> pystr" where
  "path_str (Path a cs) =
     (if \<not> a \<and> cs = [] then u ''.'' else (if a then [47] else []) @ join_slash cs)"

subsection \<open>The environment of the launcher\<close>

datatype probe_result = ProbeOk | ProbeErr pystr

record launch_env =
  os_free_port :: "16 word option"
  os_nt :: bool
  environ :: "pystr \<Rightarrow> pystr option"
  which :: "pystr \<Rightarrow> pystr option"
  sys_prefix :: pystr
  exists :: "path \<Rightarrow> bool"
  popen_fails :: bool
  probe :: "pystr \<Rightarrow> nat \<Rightarrow> probe_result"

datatype launch_error =
    PortError
  | JavaNotFound
  | DependencyMissing bool path bool path
  | PopenError
  | NotReady pystr

definition ENV_JAVA_PATH :: pystr where
  "ENV_JAVA_PATH = u ''NBA11Y_JAVA_PATH''"

definition ENV_VNU_JAR_PATH :: pystr where
  "ENV_VNU_JAR_PATH = u ''NBA11Y_VNU_JAR_PATH''"

definition ENV_VNU_SERVER_URL :: pystr where
  "ENV_VNU_SERVER_URL = u ''NBA11Y_VNU_SERVER_URL''"

subsection \<open>Operations\<close>

text \<open>\<open>get_an_unused_port\<close>: bind a socket to port 0 and read back the port, a 16-bit
  unsigned TCP port number that \<open>getsockname()\<close> reports as a Python \<open>int\<close>.\<close>

definition get_an_unused_port :: "launch_env \<Rightarrow> launch_error + int" where
  "get_an_unused_port le = (case os_free_port le of None \<Rightarrow> Inl PortError | Some p \<Rightarrow> Inr (uint p))"

definition java_path :: "launch_env \<Rightarrow> pystr option" where
  "java_path le =
     (case environ le ENV_JAVA_PATH of
        Some v \<Rightarrow> Some v
      | None \<Rightarrow> (case which le (u ''java'') of Some p \<Rightarrow> Some p | None \<Rightarrow> which le (u ''java.exe'')))"

definition jar_path :: "launch_env \<Rightarrow> path" where
  "jar_path le =
     (case environ le ENV_JAVA_PATH of
        Some v \<Rightarrow> path_of v
      | None \<Rightarrow> path_div (path_div (path_of (sys_prefix le))
                  (if os_nt le then u ''Library/lib'' else u ''lib'')) (u ''vnu.jar''))"

definition get_vnu_args :: "launch_env \<Rightarrow> pystr \<Rightarrow> int \<Rightarrow> launch_error + pystr list" where
  "get_vnu_args le host port =
     (case java_path le of
        None \<Rightarrow> Inl JavaNotFound
      | Some js \<Rightarrow>
          (let java = path_of js; jar = jar_path le in
           if \<not> exists le java \<or> \<not> exists le jar
           then Inl (DependencyMissing (exists le java) java (exists le jar) jar)
           else Inr [path_str java, u ''-cp'', path_str jar,
                     u ''-Dnu.validator.servlet.bind-address='' @ host,
                     u ''nu.validator.servlet.Main'', str_int port]))"

definition vnu_url :: "pystr \<Rightarrow> pystr \<Rightarrow> int \<Rightarrow> pystr" where
  "vnu_url proto host port = proto @ u ''://'' @ host @ u '':'' @ str_int port"

text \<open>
  The loop of \<open>wait_for_vnu_to_start\<close>: \<open>k\<close> counts the probes made, \<open>retries\<close> is the
  Python integer the loop decrements, \<open>err\<close> the text of the last error. The loop runs
  \<open>while retries\<close>, i.e. while \<open>retries \<noteq> 0\<close>, so a negative count never stops it;
  \<open>None\<close> is that non-termination.
\<close>

partial_function (option) wait_loop ::
  "(nat \<Rightarrow> probe_result) \<Rightarrow> nat \<Rightarrow> int \<Rightarrow> pystr option \<Rightarrow> (launch_error + nat) option" where
  "wait_loop pr k retries err =
     (if retries = 0 then Some (Inl (NotReady (case err of None \<Rightarrow> u ''None'' | Some e \<Rightarrow> e)))
      else (case pr k of
              ProbeOk \<Rightarrow> Some (Inr k)
            | ProbeErr e \<Rightarrow> wait_loop pr (Suc k) (retries - 1) (Some e)))"

definition wait_for_vnu_to_start ::
  "launch_env \<Rightarrow> pystr \<Rightarrow> int \<Rightarrow> (launch_error + nat) option" where
  "wait_for_vnu_to_start le url retries = wait_loop (probe le url) 0 retries None"

definition start_vnu_server ::
  "launch_env \<Rightarrow> pystr \<Rightarrow> pystr \<Rightarrow> (launch_error + int \<times> pystr \<times> pystr list) option" where
  "start_vnu_server le proto host =
     (case get_an_unused_port le of
        Inl e \<Rightarrow> Some (Inl e)
      | Inr port \<Rightarrow>
          (case get_vnu_args le host port of
             Inl e \<Rightarrow> Some (Inl e)
           | Inr args \<Rightarrow>
               (let url = vnu_url proto host port in
                if popen_fails le then Some (Inl PopenError)
                else (case wait_for_vnu_to_start le url 10 of
                        None \<Rightarrow> None
                      | Some (Inl e) \<Rightarrow> Some (Inl e)
                      | Some (Inr _) \<Rightarrow> Some (Inr (port, url, args))))))"

text \<open>The text of the error \<open>wait_for_vnu_to_start\<close> raises after \<open>n\<close> failed probes from \<open>k\<close>.\<close>

definition last_error_text :: "(nat \<Rightarrow> probe_result) \<Rightarrow> nat \<Rightarrow> nat \<Rightarrow> pystr option \<Rightarrow> pystr" where
  "last_error_text pr k n err =
     (if n = 0 then (case err of None \<Rightarrow> u ''None'' | Some e \<Rightarrow> e)
      else (case pr (k + n - 1) of ProbeErr e \<Rightarrow> e | ProbeOk \<Rightarrow> []))"

subsection \<open>The readiness loop\<close>

lemma wait_loop_nat:
  "wait_loop pr k (int n) err =
     Some (case find (\<lambda>i. pr i = ProbeOk) [k..<k + n] of
             Some j \<Rightarrow> Inr j
           | None \<Rightarrow> Inl (NotReady (last_error_text pr k n err)))"
proof (induction n arbitrary: k err)
  case 0
  then show ?case by (simp add: wait_loop.simps last_error_text_def)
next
  case (Suc n)
  have split: "[k..<k + Suc n] = k # [Suc k..<Suc k + n]"
    by (simp add: upt_rec)
  show ?case
  proof (cases "pr k")
    case ProbeOk
    then show ?thesis unfolding split by (simp add: wait_loop.simps)
  next
    case (ProbeErr e)
    then have "wait_loop pr k (int (Suc n)) err = wait_loop pr (Suc k) (int n) (Some e)"
      by (simp add: wait_loop.simps [of pr k])
    moreover have "find (\<lambda>i. pr i = ProbeOk) [k..<k + Suc n] =
        find (\<lambda>i. pr i = ProbeOk) [Suc k..<Suc k + n]"
      using ProbeErr unfolding split by simp
    moreover have "last_error_text pr k (Suc n) err = last_error_text pr (Suc k) n (Some e)"
      using ProbeErr by (cases n) (simp_all add: last_error_text_def)
    ultimately show ?thesis by (simp only: Suc.IH)
  qed
qed

lemma wait_loop_terminates: "0 \<le> r \<Longrightarrow> \<exists>y. wait_loop pr k r err = Some y"
  using wait_loop_nat [of pr k "nat r" err] by simp

lemma wait_loop_diverges:
  assumes neg: "r < 0" and fails: "\<forall>i \<ge> k. pr i \<noteq> ProbeOk"
  shows "wait_loop pr k r err = None"
proof (rule ccontr)
  assume "wait_loop pr k r err \<noteq> None"
  then obtain y where ret: "wait_loop pr k r err = Some y" by blast
  have "(\<forall>i \<ge> k. pr i \<noteq> ProbeOk) \<longrightarrow> r < 0 \<longrightarrow> False"
  proof (rule wait_loop.raw_induct [where P = "\<lambda>pr k r err y. (\<forall>i \<ge> k. pr i \<noteq> ProbeOk) \<longrightarrow> r < 0 \<longrightarrow> False", OF _ ret])
    fix f :: "(nat \<Rightarrow> probe_result) \<Rightarrow> nat \<Rightarrow> int \<Rightarrow> pystr option \<Rightarrow> (launch_error + nat) option"
      and pr k and r :: int and err y
    assume IH: "\<And>pr k r err y. f pr k r err = Some y \<Longrightarrow> (\<forall>i \<ge> k. pr i \<noteq> ProbeOk) \<longrightarrow> r < 0 \<longrightarrow> False"
      and eq: "(if r = 0 then Some (Inl (NotReady (case err of None \<Rightarrow> u ''None'' | Some e \<Rightarrow> e)))
         else (case pr k of ProbeOk \<Rightarrow> Some (Inr k)
               | ProbeErr e \<Rightarrow> f pr (Suc k) (r - 1) (Some e))) = Some y"
    show "(\<forall>i \<ge> k. pr i \<noteq> ProbeOk) \<longrightarrow> r < 0 \<longrightarrow> False"
    proof (intro impI)
      assume fl: "\<forall>i \<ge> k. pr i \<noteq> ProbeOk" and r: "r < 0"
      then obtain e where e: "pr k = ProbeErr e" by (cases "pr k") auto
      with eq r have "f pr (Suc k) (r - 1) (Some e) = Some y" by simp
      from IH [OF this] fl r show False by auto
    qed
  qed
  with neg fails show False by blast
qed

lemma wait_for_vnu_to_start_returns: "\<exists>y. wait_for_vnu_to_start le url 10 = Some y"
  unfolding wait_for_vnu_to_start_def by (rule wait_loop_terminates) simp

lemma wait_for_vnu_to_start_not_None [simp]: "wait_for_vnu_to_start le url 10 \<noteq> None"
  using wait_for_vnu_to_start_returns [of le url] by auto

text \<open>C15: \<open>wait_for_vnu_to_start(url, retries=n)\<close> probes the URL
  at most \<open>n\<close> times; it returns at the first probe that succeeds, and when all \<open>n\<close>
  probes fail it raises \<open>RuntimeError\<close> carrying the text of the last probe error
  (\<open>None\<close> when \<open>n = 0\<close>).\<close>

theorem wait_for_vnu_to_start_result:
  "wait_for_vnu_to_start le url (int n) =
     Some (case find (\<lambda>i. probe le url i = ProbeOk) [0..<n] of
             Some j \<Rightarrow> Inr j
           | None \<Rightarrow> Inl (NotReady (last_error_text (probe le url) 0 n None)))"
  unfolding wait_for_vnu_to_start_def by (simp add: wait_loop_nat)

text \<open>C16: for a non-negative retry count the readiness loop always
  returns (success or \<open>RuntimeError\<close>), whatever the probes answer.\<close>

theorem wait_for_vnu_to_start_terminates:
  "0 \<le> r \<Longrightarrow> \<exists>y. wait_for_vnu_to_start le url r = Some y"
  unfolding wait_for_vnu_to_start_def by (rule wait_loop_terminates)

theorem wait_for_vnu_to_start_terminates_witness:
  "0 \<le> (3::int) \<and> (\<exists>y. wait_for_vnu_to_start \<lparr>os_free_port = Some 8888, os_nt = False, environ = (\<lambda>_. None),
      which = (\<lambda>_. Some (u ''/usr/bin/java'')), sys_prefix = u ''/opt/conda'', exists = (\<lambda>_. True),
      popen_fails = False, probe = (\<lambda>_ _. ProbeErr (u ''refused''))\<rparr>
      (u ''http://127.0.0.1:8888'') 3 = Some y)"
  using wait_for_vnu_to_start_terminates [of 3] by simp

text \<open>C18: the loop is \<open>while retries:\<close>, so a negative retry count
  against a server that never answers makes \<open>wait_for_vnu_to_start\<close> loop forever.\<close>

theorem wait_for_vnu_to_start_negative_diverges:
  "r < 0 \<Longrightarrow> \<forall>i. probe le url i \<noteq> ProbeOk \<Longrightarrow> wait_for_vnu_to_start le url r = None"
  unfolding wait_for_vnu_to_start_def by (rule wait_loop_diverges) auto

theorem wait_for_vnu_to_start_negative_diverges_witness:
  "(-1::int) < 0 \<and> (\<forall>i. probe \<lparr>os_free_port = Some 8888, os_nt = False, environ = (\<lambda>_. None),
      which = (\<lambda>_. Some (u ''/usr/bin/java'')), sys_prefix = u ''/opt/conda'', exists = (\<lambda>_. True),
      popen_fails = False, probe = (\<lambda>_ _. ProbeErr (u ''refused''))\<rparr> (u ''u'') i \<noteq> ProbeOk) \<and>
   wait_for_vnu_to_start \<lparr>os_free_port = Some 8888, os_nt = False, environ = (\<lambda>_. None),
      which = (\<lambda>_. Some (u ''/usr/bin/java'')), sys_prefix = u ''/opt/conda'', exists = (\<lambda>_. True),
      popen_fails = False, probe = (\<lambda>_ _. ProbeErr (u ''refused''))\<rparr> (u ''u'') (-1) = None"
  using wait_for_vnu_to_start_negative_diverges [of "-1"] by simp

subsection \<open>Launching the server\<close>

text \<open>C17: the location of \<open>vnu.jar\<close> is read from the Java variable
  \<open>NBA11Y_JAVA_PATH\<close>; setting \<open>NBA11Y_VNU_JAR_PATH\<close> has no effect on it.\<close>

theorem jar_path_ignores_jar_variable:
  "jar_path (le\<lparr>environ := (environ le)(ENV_VNU_JAR_PATH := v)\<rparr>) = jar_path le"
proof -
  have "ENV_JAVA_PATH \<noteq> ENV_VNU_JAR_PATH" by (simp add: ENV_JAVA_PATH_def ENV_VNU_JAR_PATH_def u_def)
  then show ?thesis by (simp add: jar_path_def split: option.splits)
qed

lemma start_vnu_server_Inr:
  assumes "start_vnu_server le proto host = Some (Inr (p, url, args))"
  shows "get_an_unused_port le = Inr p \<and> url = vnu_url proto host p \<and> get_vnu_args le host p = Inr args
         \<and> \<not> popen_fails le \<and> (\<exists>j < 10. probe le url j = ProbeOk)"
proof -
  from assms have port: "get_an_unused_port le = Inr p" and args: "get_vnu_args le host p = Inr args"
    and url: "url = vnu_url proto host p" and pop: "\<not> popen_fails le"
    and w: "\<exists>j. wait_for_vnu_to_start le url 10 = Some (Inr j)"
    by (auto simp: start_vnu_server_def Let_def
             split: option.splits sum.splits if_splits)
  from w obtain j where "wait_loop (probe le url) 0 (int 10) None = Some (Inr j)"
    by (auto simp: wait_for_vnu_to_start_def)
  then have "find (\<lambda>i. probe le url i = ProbeOk) [0..<10] = Some j"
    by (simp only: wait_loop_nat) (auto split: option.splits)
  then have "j < 10 \<and> probe le url j = ProbeOk"
    by (auto simp: find_Some_iff)
  with port args url pop show ?thesis by blast
qed

end
