(* ===== verification/Coordinator.thy ===== *)
theory Coordinator
  imports Launcher
begin

text \<open>
  The session fixture \<open>a_vnu_server_url\<close> of \<open>src/pytest_html_validator/pytest_plugin.py\<close>
  run by several pytest(-xdist) worker processes at once. Each worker is one copy of the
  fixture body; its program counter \<open>pc\<close> names the next source statement to run and
  its local variables (\<open>owns_lock\<close>, \<open>port\<close>, \<open>url\<close>, \<open>proc\<close>) are a \<open>worker\<close>
  record. The workers share the directory \<open>lock_dir\<close> (\<open>vnu_server\<close> under the pytest
  base temp), modelled by whether it exists and by the set of names in it, and the
  server processes, modelled by port. \<open>step\<close> lets one worker execute one atomic
  filesystem or process operation; any worker may move next, so the runs of \<open>step\<close>
  are all interleavings of the workers. Launching a server is the whole
  \<open>_start_vnu_server\<close> of theory \<open>Launcher\<close>, taken for an arbitrary operating
  system environment.
\<close>

subsection \<open>State\<close>

datatype srv_state = Running | Terminated

datatype fixture_error =
    DidNotYield pystr
  | LaunchFailed launch_error
  | LockDirMissing
  | EntryExists
  | NeverStarted

datatype pc =
    Absent
  | Start
  | MasterLaunch
  | Claim
  | Register
  | Launch
  | Publish
  | Poll nat
  | InUse
  | ReleaseCheck
  | ReleaseRm
  | Wait
  | Terminate
  | Destroy
  | Done
  | Failed fixture_error

record worker =
  worker_id :: pystr
  uuid :: pystr
  pc :: pc
  owns_lock :: bool
  port :: "int option"
  url :: "pystr option"
  proc :: "int option"

record cfg =
  env_url :: "pystr option"
  lock_dir :: bool
  entries :: "pystr set"
  servers :: "int \<Rightarrow> srv_state option"
  workers :: "nat \<Rightarrow> worker"

definition MASTER :: pystr where
  "MASTER = u ''master''"

definition PROTO :: pystr where
  "PROTO = u ''http''"

definition HOST :: pystr where
  "HOST = u ''127.0.0.1''"

text \<open>\<open>needs_lock = lock_dir / f"test-{uuid.uuid4()}"\<close>, the usage token of a worker.\<close>

definition needs_lock :: "worker \<Rightarrow> pystr" where
  "needs_lock W = u ''test-'' @ uuid W"

text \<open>\<open>lock_dir / f"port-{port}"\<close>, the address record the leader publishes.\<close>

definition port_record :: "int \<Rightarrow> pystr" where
  "port_record p = u ''port-'' @ str_int p"

text \<open>\<open>lock_dir.glob(pre + "*")\<close>.\<close>

definition glob :: "pystr \<Rightarrow> pystr set \<Rightarrow> pystr set" where
  "glob pre es = {n \<in> es. py_startswith n pre}"

text \<open>\<open>int(name.split("-")[-1])\<close>.\<close>

definition read_port :: "pystr \<Rightarrow> int option" where
  "read_port n = py_int (split_last_field 45 n)"

definition set_worker :: "cfg \<Rightarrow> nat \<Rightarrow> worker \<Rightarrow> cfg" where
  "set_worker c w W = c\<lparr>workers := (workers c)(w := W)\<rparr>"

text \<open>
  A run starts with no lock directory and no server; every worker that takes part is
  at \<open>Start\<close> with fresh locals and the others are \<open>Absent\<close>. The \<open>uuid4\<close> names of
  the participants differ, and a worker whose id is \<open>master\<close> (pytest without xdist)
  runs alone.
\<close>

definition initial :: "cfg \<Rightarrow> bool" where
  "initial c \<longleftrightarrow>
     \<not> lock_dir c \<and> entries c = {} \<and> servers c = Map.empty \<and>
     (\<forall>w. (pc (workers c w) = Absent \<or> pc (workers c w) = Start) \<and> \<not> owns_lock (workers c w) \<and>
          port (workers c w) = None \<and> url (workers c w) = None \<and> proc (workers c w) = None) \<and>
     (\<forall>v w. v \<noteq> w \<longrightarrow> pc (workers c v) \<noteq> Absent \<longrightarrow> pc (workers c w) \<noteq> Absent \<longrightarrow>
          uuid (workers c v) \<noteq> uuid (workers c w)) \<and>
     (\<forall>v w. worker_id (workers c v) = MASTER \<longrightarrow> pc (workers c v) \<noteq> Absent \<longrightarrow>
          pc (workers c w) \<noteq> Absent \<longrightarrow> v = w)"

subsection \<open>Steps\<close>

text \<open>
  One rule per atomic operation of the fixture body, in source order; \<open>W\<close> is the
  moving worker \<open>w\<close>. Lines 54--57: the override variable; 67--69: the master branch;
  74--78: \<open>lock_dir.mkdir()\<close>, whose failure is swallowed; 80: \<open>needs_lock.mkdir()\<close>;
  83--84: launch and publication by the owner; 86--94: the follower's polling loop,
  which makes all ten iterations (there is no \<open>break\<close>); 96: \<open>yield\<close>; 98--99: release
  of the usage token; 101--107: the owner's unbounded wait for no token; 110--112:
  \<open>proc.terminate()\<close> and \<open>shutil.rmtree(lock_dir)\<close>.
\<close>

inductive step :: "cfg \<Rightarrow> cfg \<Rightarrow> bool" where
  env_override:
    "workers c w = W \<Longrightarrow> pc W = Start \<Longrightarrow> env_url c = Some v \<Longrightarrow>
     step c (set_worker c w (W\<lparr>pc := Failed (DidNotYield v)\<rparr>))"
| master_begin:
    "workers c w = W \<Longrightarrow> pc W = Start \<Longrightarrow> env_url c = None \<Longrightarrow> worker_id W = MASTER \<Longrightarrow>
     step c (set_worker c w (W\<lparr>pc := MasterLaunch\<rparr>))"
| xdist_begin:
    "workers c w = W \<Longrightarrow> pc W = Start \<Longrightarrow> env_url c = None \<Longrightarrow> worker_id W \<noteq> MASTER \<Longrightarrow>
     step c (set_worker c w (W\<lparr>pc := Claim\<rparr>))"
| claim:
    "workers c w = W \<Longrightarrow> pc W = Claim \<Longrightarrow>
     step c ((set_worker c w (W\<lparr>pc := Register, owns_lock := \<not> lock_dir c\<rparr>))\<lparr>lock_dir := True\<rparr>)"
| register:
    "workers c w = W \<Longrightarrow> pc W = Register \<Longrightarrow> lock_dir c \<Longrightarrow> needs_lock W \<notin> entries c \<Longrightarrow>
     step c ((set_worker c w (W\<lparr>pc := (if owns_lock W then Launch else Poll 10)\<rparr>))
               \<lparr>entries := insert (needs_lock W) (entries c)\<rparr>)"
| register_missing:
    "workers c w = W \<Longrightarrow> pc W = Register \<Longrightarrow> \<not> lock_dir c \<Longrightarrow>
     step c (set_worker c w (W\<lparr>pc := Failed LockDirMissing\<rparr>))"
| register_exists:
    "workers c w = W \<Longrightarrow> pc W = Register \<Longrightarrow> lock_dir c \<Longrightarrow> needs_lock W \<in> entries c \<Longrightarrow>
     step c (set_worker c w (W\<lparr>pc := Failed EntryExists\<rparr>))"
| launch:
    "workers c w = W \<Longrightarrow> pc W = Launch \<Longrightarrow>
     start_vnu_server le PROTO HOST = Some (Inr (p, v, args)) \<Longrightarrow> servers c p \<noteq> Some Running \<Longrightarrow>
     step c ((set_worker c w (W\<lparr>pc := Publish, port := Some p, url := Some v, proc := Some p\<rparr>))
               \<lparr>servers := (servers c)(p \<mapsto> Running)\<rparr>)"
| master_launch:
    "workers c w = W \<Longrightarrow> pc W = MasterLaunch \<Longrightarrow>
     start_vnu_server le PROTO HOST = Some (Inr (p, v, args)) \<Longrightarrow> servers c p \<noteq> Some Running \<Longrightarrow>
     step c ((set_worker c w (W\<lparr>pc := InUse, owns_lock := True, port := Some p, url := Some v,
                                 proc := Some p\<rparr>))
               \<lparr>servers := (servers c)(p \<mapsto> Running)\<rparr>)"
| launch_failed:
    "workers c w = W \<Longrightarrow> pc W = Launch \<or> pc W = MasterLaunch \<Longrightarrow>
     start_vnu_server le PROTO HOST = Some (Inl e) \<Longrightarrow>
     step c (set_worker c w (W\<lparr>pc := Failed (LaunchFailed e)\<rparr>))"
| publish:
    "workers c w = W \<Longrightarrow> pc W = Publish \<Longrightarrow> port W = Some p \<Longrightarrow> lock_dir c \<Longrightarrow>
     port_record p \<notin> entries c \<Longrightarrow>
     step c ((set_worker c w (W\<lparr>pc := InUse\<rparr>))\<lparr>entries := insert (port_record p) (entries c)\<rparr>)"
| publish_failed:
    "workers c w = W \<Longrightarrow> pc W = Publish \<Longrightarrow> port W = Some p \<Longrightarrow>
     \<not> lock_dir c \<or> port_record p \<in> entries c \<Longrightarrow>
     step c (set_worker c w (W\<lparr>pc := Failed (if lock_dir c then EntryExists else LockDirMissing)\<rparr>))"
| poll_read:
    "workers c w = W \<Longrightarrow> pc W = Poll (Suc r) \<Longrightarrow> n \<in> glob (u ''port-'') (entries c) \<Longrightarrow>
     read_port n = Some q \<Longrightarrow>
     step c (set_worker c w (W\<lparr>pc := Poll r, port := Some q, url := Some (vnu_url PROTO HOST q)\<rparr>))"
| poll_empty:
    "workers c w = W \<Longrightarrow> pc W = Poll (Suc r) \<Longrightarrow> glob (u ''port-'') (entries c) = {} \<Longrightarrow>
     step c (set_worker c w (W\<lparr>pc := Poll r\<rparr>))"
| poll_unreadable:
    "workers c w = W \<Longrightarrow> pc W = Poll (Suc r) \<Longrightarrow> n \<in> glob (u ''port-'') (entries c) \<Longrightarrow>
     read_port n = None \<Longrightarrow>
     step c (set_worker c w (W\<lparr>pc := Poll r\<rparr>))"
| poll_done:
    "workers c w = W \<Longrightarrow> pc W = Poll 0 \<Longrightarrow> port W \<noteq> None \<Longrightarrow>
     step c (set_worker c w (W\<lparr>pc := InUse\<rparr>))"
| poll_timeout:
    "workers c w = W \<Longrightarrow> pc W = Poll 0 \<Longrightarrow> port W = None \<Longrightarrow>
     step c (set_worker c w (W\<lparr>pc := Failed NeverStarted\<rparr>))"
| tests_done:
    "workers c w = W \<Longrightarrow> pc W = InUse \<Longrightarrow>
     step c (set_worker c w (W\<lparr>pc := ReleaseCheck\<rparr>))"
| release_check:
    "workers c w = W \<Longrightarrow> pc W = ReleaseCheck \<Longrightarrow>
     step c (set_worker c w (W\<lparr>pc := (if needs_lock W \<in> entries c then ReleaseRm
                                       else if owns_lock W then Wait else Done)\<rparr>))"
| release_rm:
    "workers c w = W \<Longrightarrow> pc W = ReleaseRm \<Longrightarrow> needs_lock W \<in> entries c \<Longrightarrow>
     step c ((set_worker c w (W\<lparr>pc := (if owns_lock W then Wait else Done)\<rparr>))
               \<lparr>entries := entries c - {needs_lock W}\<rparr>)"
| release_rm_missing:
    "workers c w = W \<Longrightarrow> pc W = ReleaseRm \<Longrightarrow> needs_lock W \<notin> entries c \<Longrightarrow>
     step c (set_worker c w (W\<lparr>pc := Failed LockDirMissing\<rparr>))"
| wait_busy:
    "workers c w = W \<Longrightarrow> pc W = Wait \<Longrightarrow> glob (u ''test-'') (entries c) \<noteq> {} \<Longrightarrow>
     step c c"
| wait_clear:
    "workers c w = W \<Longrightarrow> pc W = Wait \<Longrightarrow> glob (u ''test-'') (entries c) = {} \<Longrightarrow>
     step c (set_worker c w (W\<lparr>pc := Terminate\<rparr>))"
| terminate:
    "workers c w = W \<Longrightarrow> pc W = Terminate \<Longrightarrow> proc W = Some p \<Longrightarrow>
     step c ((set_worker c w (W\<lparr>pc := Destroy\<rparr>))\<lparr>servers := (servers c)(p \<mapsto> Terminated)\<rparr>)"
| destroy:
    "workers c w = W \<Longrightarrow> pc W = Destroy \<Longrightarrow>
     step c ((set_worker c w (W\<lparr>pc := Done\<rparr>))
               \<lparr>lock_dir := False, entries := (if lock_dir c then {} else entries c)\<rparr>)"

inductive reach :: "cfg \<Rightarrow> bool" where
  init: "initial c \<Longrightarrow> reach c"
| advance: "reach c \<Longrightarrow> step c c' \<Longrightarrow> reach c'"

end
