(* ===== verification/Coordinator_Inv.thy ===== *)
theory Coordinator_Inv
  imports Coordinator
begin

text \<open>
  Invariants of the coordinator of \<open>pytest_plugin.py\<close>, each proved for every reachable
  configuration by rule induction over \<open>step\<close>: the static facts of a run
  (\<open>inv_static\<close>), the shape of each worker's locals at each program counter
  (\<open>inv_pc\<close>), mutual exclusion of the lock holders (\<open>inv_lock\<close>), publication safety
  (\<open>inv_pub\<close>, with every port a TCP port, \<open>tcp_port\<close>), the effect of the URL override (\<open>env_quiet\<close>), and the deadlock a failed
  worker's token causes (\<open>blocked\<close>).
\<close>

subsection \<open>Invariants\<close>

definition holder :: "cfg \<Rightarrow> nat \<Rightarrow> bool" where
  "holder c w \<longleftrightarrow> owns_lock (workers c w) \<and> worker_id (workers c w) \<noteq> MASTER \<and> pc (workers c w) \<noteq> Done"

definition inv_static :: "cfg \<Rightarrow> bool" where
  "inv_static c \<longleftrightarrow>
     (\<forall>v w. v \<noteq> w \<longrightarrow> pc (workers c v) \<noteq> Absent \<longrightarrow> pc (workers c w) \<noteq> Absent \<longrightarrow>
        uuid (workers c v) \<noteq> uuid (workers c w)) \<and>
     (\<forall>v w. worker_id (workers c v) = MASTER \<longrightarrow> pc (workers c v) \<noteq> Absent \<longrightarrow>
        pc (workers c w) \<noteq> Absent \<longrightarrow> v = w)"

fun unclaimed_pc :: "pc \<Rightarrow> bool" where
  "unclaimed_pc Absent = True" | "unclaimed_pc Start = True" | "unclaimed_pc Claim = True"
| "unclaimed_pc MasterLaunch = True" | "unclaimed_pc _ = False"

fun fresh_pc :: "pc \<Rightarrow> bool" where
  "fresh_pc Register = True" | "fresh_pc Launch = True" | "fresh_pc p = unclaimed_pc p"

fun leader_pc :: "pc \<Rightarrow> bool" where
  "leader_pc Launch = True" | "leader_pc Publish = True" | "leader_pc Wait = True"
| "leader_pc Terminate = True" | "leader_pc Destroy = True" | "leader_pc _ = False"

fun serving_pc :: "pc \<Rightarrow> bool" where
  "serving_pc Publish = True" | "serving_pc InUse = True" | "serving_pc ReleaseCheck = True"
| "serving_pc ReleaseRm = True" | "serving_pc Wait = True" | "serving_pc Terminate = True"
| "serving_pc Destroy = True" | "serving_pc _ = False"

fun xdist_pc :: "pc \<Rightarrow> bool" where
  "xdist_pc Claim = True" | "xdist_pc Register = True" | "xdist_pc Launch = True"
| "xdist_pc Publish = True" | "xdist_pc (Poll r) = True" | "xdist_pc _ = False"

fun polling_pc :: "pc \<Rightarrow> bool" where
  "polling_pc (Poll r) = True" | "polling_pc _ = False"

fun launch_failed_pc :: "pc \<Rightarrow> bool" where
  "launch_failed_pc (Failed (LaunchFailed e)) = True" | "launch_failed_pc _ = False"

definition wk_ok :: "worker \<Rightarrow> bool" where
  "wk_ok W \<longleftrightarrow>
     (unclaimed_pc (pc W) \<longrightarrow> \<not> owns_lock W) \<and>
     (fresh_pc (pc W) \<longrightarrow> port W = None \<and> proc W = None) \<and>
     (leader_pc (pc W) \<longrightarrow> owns_lock W) \<and>
     (polling_pc (pc W) \<longrightarrow> \<not> owns_lock W) \<and>
     (worker_id W = MASTER \<longrightarrow> \<not> xdist_pc (pc W)) \<and>
     (worker_id W = MASTER \<and> serving_pc (pc W) \<longrightarrow> owns_lock W) \<and>
     (worker_id W \<noteq> MASTER \<longrightarrow> pc W \<noteq> MasterLaunch) \<and>
     (owns_lock W \<and> serving_pc (pc W) \<longrightarrow> proc W \<noteq> None \<and> port W = proc W) \<and>
     (pc W = InUse \<or> pc W = ReleaseCheck \<or> pc W = ReleaseRm \<longrightarrow> port W \<noteq> None) \<and>
     (launch_failed_pc (pc W) \<longrightarrow> owns_lock W \<or> worker_id W = MASTER)"

definition inv_pc :: "cfg \<Rightarrow> bool" where
  "inv_pc c \<longleftrightarrow> (\<forall>w. wk_ok (workers c w))"


definition inv_lock :: "cfg \<Rightarrow> bool" where
  "inv_lock c \<longleftrightarrow>
     (\<forall>v w. holder c v \<longrightarrow> holder c w \<longrightarrow> v = w) \<and>
     (lock_dir c \<longleftrightarrow> (\<exists>w. holder c w)) \<and>
     (\<not> lock_dir c \<longrightarrow> entries c = {})"

definition tcp_port :: "int \<Rightarrow> bool" where
  "tcp_port q \<longleftrightarrow> 0 \<le> q \<and> q < 65536"

definition inv_pub :: "cfg \<Rightarrow> bool" where
  "inv_pub c \<longleftrightarrow>
     (\<forall>w q. port (workers c w) = Some q \<longrightarrow>
        servers c q \<noteq> None \<and> url (workers c w) = Some (vnu_url PROTO HOST q) \<and> tcp_port q) \<and>
     (\<forall>n \<in> glob (u ''port-'') (entries c). \<exists>p. n = port_record p \<and> tcp_port p \<and> servers c p \<noteq> None)"

text \<open>With \<open>NBA11Y_VNU_SERVER_URL\<close> set, every worker stays before its first statement or
  ends with the fixture error.\<close>

fun quiet_pc :: "pc \<Rightarrow> bool" where
  "quiet_pc Absent = True" | "quiet_pc Start = True" | "quiet_pc (Failed (DidNotYield v)) = True"
| "quiet_pc _ = False"

definition env_quiet :: "cfg \<Rightarrow> bool" where
  "env_quiet c \<longleftrightarrow> (env_url c \<noteq> None \<longrightarrow> (\<forall>w. quiet_pc (pc (workers c w)) \<and> url (workers c w) = None))"

text \<open>A worker \<open>f\<close> has failed while its usage token is in the lock directory, and no
  worker is past the owner's wait.\<close>

definition blocked :: "cfg \<Rightarrow> nat \<Rightarrow> bool" where
  "blocked c f \<longleftrightarrow>
     (\<exists>e. pc (workers c f) = Failed e) \<and> needs_lock (workers c f) \<in> entries c \<and>
     (\<forall>w. pc (workers c w) \<noteq> Terminate \<and> pc (workers c w) \<noteq> Destroy)"

subsection \<open>Preservation\<close>

lemma set_worker_sel [simp]:
  "workers (set_worker c w W) = (workers c)(w := W)" "lock_dir (set_worker c w W) = lock_dir c"
  "entries (set_worker c w W) = entries c" "servers (set_worker c w W) = servers c"
  "env_url (set_worker c w W) = env_url c"
  by (simp_all add: set_worker_def)

lemma step_static:
  "step c c' \<Longrightarrow> uuid (workers c' v) = uuid (workers c v) \<and> worker_id (workers c' v) = worker_id (workers c v)
    \<and> (pc (workers c' v) = Absent \<longleftrightarrow> pc (workers c v) = Absent)"
  by (induction rule: step.induct) (auto simp: set_worker_def)

lemma step_inv_static: "step c c' \<Longrightarrow> inv_static c \<Longrightarrow> inv_static c'"
  unfolding inv_static_def using step_static [of c c'] by metis

lemma step_wk_ok: "step c c' \<Longrightarrow> inv_pc c \<Longrightarrow> wk_ok (workers c' v)"
  unfolding inv_pc_def
  by (induction rule: step.induct) (auto simp: set_worker_def wk_ok_def)

lemma step_inv_pc: "step c c' \<Longrightarrow> inv_pc c \<Longrightarrow> inv_pc c'"
  using step_wk_ok inv_pc_def by blast


lemma holder_set_worker [simp]:
  "holder (set_worker c w W) v =
     (if v = w then owns_lock W \<and> worker_id W \<noteq> MASTER \<and> pc W \<noteq> Done else holder c v)"
  by (simp add: holder_def set_worker_def)

lemma holder_cfg_upd [simp]:
  "holder (c\<lparr>lock_dir := b\<rparr>) = holder c" "holder (c\<lparr>entries := es\<rparr>) = holder c"
  "holder (c\<lparr>servers := sv\<rparr>) = holder c"
  by (simp_all add: holder_def fun_eq_iff)

lemma wk_ok_of: "inv_pc c \<Longrightarrow> wk_ok (workers c w)"
  by (simp add: inv_pc_def)

lemma holder_present: "inv_pc c \<Longrightarrow> holder c v \<Longrightarrow> pc (workers c v) \<noteq> Absent"
  using wk_ok_of [of c v] by (auto simp: wk_ok_def holder_def)

lemma master_no_holder:
  "inv_static c \<Longrightarrow> inv_pc c \<Longrightarrow> worker_id (workers c w) = MASTER \<Longrightarrow>
   pc (workers c w) \<noteq> Absent \<Longrightarrow> \<not> holder c v"
  using holder_present [of c v] by (auto simp: inv_static_def holder_def)

lemma destroy_inv_lock:
  assumes hyp: "workers c w = W" "pc W = Destroy"
    and inv: "inv_static c" "inv_pc c" "inv_lock c"
  shows "inv_lock ((set_worker c w (W\<lparr>pc := Done\<rparr>))
           \<lparr>lock_dir := False, entries := (if lock_dir c then {} else entries c)\<rparr>)"
proof -
  have own: "owns_lock W" using wk_ok_of [OF inv(2), of w] hyp by (simp add: wk_ok_def)
  have none: "\<not> holder c v" if "v \<noteq> w" for v
  proof (cases "worker_id W = MASTER")
    case True
    then show ?thesis using master_no_holder [OF inv(1,2), of w v] hyp by simp
  next
    case False
    with own hyp have "holder c w" by (simp add: holder_def)
    moreover have "holder c v \<Longrightarrow> holder c w \<Longrightarrow> v = w"
      using inv(3) unfolding inv_lock_def by blast
    ultimately show ?thesis using that by blast
  qed
  have ent: "\<not> lock_dir c \<Longrightarrow> entries c = {}"
    using inv(3) unfolding inv_lock_def by blast
  show ?thesis using none ent by (simp add: inv_lock_def)
qed

lemma inv_lock_step_frame:
  assumes wk: "workers c' = (workers c)(w := W')" and W: "workers c w = W"
    and hold: "(owns_lock W' \<and> worker_id W' \<noteq> MASTER \<and> pc W' \<noteq> Done) =
               (owns_lock W \<and> worker_id W \<noteq> MASTER \<and> pc W \<noteq> Done)"
    and lock: "lock_dir c' = lock_dir c" and ent: "lock_dir c \<or> entries c' \<subseteq> entries c"
    and inv: "inv_lock c"
  shows "inv_lock c'"
proof -
  have "holder c' v = holder c v" for v
    using wk W hold by (simp add: holder_def)
  then show ?thesis using inv lock ent unfolding inv_lock_def by auto
qed

lemma step_inv_lock:
  "step c c' \<Longrightarrow> inv_static c \<Longrightarrow> inv_pc c \<Longrightarrow> inv_lock c \<Longrightarrow> inv_lock c'"
proof (induction rule: step.induct)
  case (claim c w W)
  then have nh: "\<not> holder c w" and xd: "worker_id W \<noteq> MASTER"
    using wk_ok_of [of c w] by (auto simp: wk_ok_def holder_def)
  show ?case
  proof (cases "lock_dir c")
    case True
    with claim nh show ?thesis by (auto simp: inv_lock_def)
  next
    case False
    with claim nh xd show ?thesis by (auto simp: inv_lock_def)
  qed
next
  case (destroy c w W)
  then show ?case by (rule destroy_inv_lock)
next
  case (master_launch c w W le p v args)
  then have wid: "worker_id W = MASTER"
    using wk_ok_of [of c w] by (auto simp: wk_ok_def)
  show ?case
    by (rule inv_lock_step_frame [where w = w and W = W])
       (use master_launch wid in \<open>auto simp: set_worker_def\<close>)
next
  case (env_override c w W)
  show ?case
    by (rule inv_lock_step_frame [where w = w and W = W]) (use env_override in \<open>auto simp: set_worker_def\<close>)
next
  case (master_begin c w W)
  show ?case
    by (rule inv_lock_step_frame [where w = w and W = W]) (use master_begin in \<open>auto simp: set_worker_def\<close>)
next
  case (xdist_begin c w W)
  show ?case
    by (rule inv_lock_step_frame [where w = w and W = W]) (use xdist_begin in \<open>auto simp: set_worker_def\<close>)
next
  case (register c w W)
  show ?case
    by (rule inv_lock_step_frame [where w = w and W = W]) (use register in \<open>auto simp: set_worker_def\<close>)
next
  case (register_missing c w W)
  show ?case
    by (rule inv_lock_step_frame [where w = w and W = W]) (use register_missing in \<open>auto simp: set_worker_def\<close>)
next
  case (register_exists c w W)
  show ?case
    by (rule inv_lock_step_frame [where w = w and W = W]) (use register_exists in \<open>auto simp: set_worker_def\<close>)
next
  case (launch c w W)
  show ?case
    by (rule inv_lock_step_frame [where w = w and W = W]) (use launch in \<open>auto simp: set_worker_def\<close>)
next
  case (launch_failed c w W le e)
  show ?case
    by (rule inv_lock_step_frame [where w = w and W = W and W' = "W\<lparr>pc := Failed (LaunchFailed e)\<rparr>"]) (use launch_failed in \<open>auto simp: set_worker_def\<close>)
next
  case (publish c w W)
  show ?case
    by (rule inv_lock_step_frame [where w = w and W = W]) (use publish in \<open>auto simp: set_worker_def\<close>)
next
  case (publish_failed c w W)
  show ?case
    by (rule inv_lock_step_frame [where w = w and W = W]) (use publish_failed in \<open>auto simp: set_worker_def\<close>)
next
  case (poll_read c w W)
  show ?case
    by (rule inv_lock_step_frame [where w = w and W = W]) (use poll_read in \<open>auto simp: set_worker_def\<close>)
next
  case (poll_empty c w W)
  show ?case
    by (rule inv_lock_step_frame [where w = w and W = W]) (use poll_empty in \<open>auto simp: set_worker_def\<close>)
next
  case (poll_unreadable c w W)
  show ?case
    by (rule inv_lock_step_frame [where w = w and W = W]) (use poll_unreadable in \<open>auto simp: set_worker_def\<close>)
next
  case (poll_done c w W)
  show ?case
    by (rule inv_lock_step_frame [where w = w and W = W]) (use poll_done in \<open>auto simp: set_worker_def\<close>)
next
  case (poll_timeout c w W)
  show ?case
    by (rule inv_lock_step_frame [where w = w and W = W]) (use poll_timeout in \<open>auto simp: set_worker_def\<close>)
next
  case (tests_done c w W)
  show ?case
    by (rule inv_lock_step_frame [where w = w and W = W]) (use tests_done in \<open>auto simp: set_worker_def\<close>)
next
  case (release_check c w W)
  show ?case
    by (rule inv_lock_step_frame [where w = w and W = W and W' = "W\<lparr>pc := (if needs_lock W \<in> entries c
         then ReleaseRm else if owns_lock W then Wait else Done)\<rparr>"]) (use release_check in \<open>auto simp: set_worker_def\<close>)
next
  case (release_rm c w W)
  show ?case
    by (rule inv_lock_step_frame [where w = w and W = W]) (use release_rm in \<open>auto simp: set_worker_def\<close>)
next
  case (release_rm_missing c w W)
  show ?case
    by (rule inv_lock_step_frame [where w = w and W = W]) (use release_rm_missing in \<open>auto simp: set_worker_def\<close>)
next
  case (wait_clear c w W)
  show ?case
    by (rule inv_lock_step_frame [where w = w and W = W]) (use wait_clear in \<open>auto simp: set_worker_def\<close>)
next
  case (terminate c w W)
  show ?case
    by (rule inv_lock_step_frame [where w = w and W = W]) (use terminate in \<open>auto simp: set_worker_def\<close>)
next
  case (wait_busy c w W)
  then show ?case by simp
qed


lemma needs_lock_not_port [simp]: "needs_lock W \<notin> glob (u ''port-'') es"
  by (simp add: needs_lock_def glob_def py_startswith_def u_def)

lemma port_record_glob [simp]: "port_record p \<in> glob (u ''port-'') es \<longleftrightarrow> port_record p \<in> es"
  by (simp add: port_record_def glob_def py_startswith_def u_def)

lemma glob_insert_token [simp]:
  "glob (u ''port-'') (insert (needs_lock W) es) = glob (u ''port-'') es"
  "glob (u ''port-'') (es - {needs_lock W}) = glob (u ''port-'') es"
  by (auto simp: glob_def needs_lock_def py_startswith_def u_def)

lemma needs_lock_neq_port_record [simp]: "needs_lock W \<noteq> port_record p"
  by (simp add: needs_lock_def port_record_def u_def)

lemma read_port_port_record: "0 \<le> p \<Longrightarrow> read_port (port_record p) = Some p"
proof -
  assume "0 \<le> p"
  then have "split_last_field 45 (port_record p) = str_nat (nat p)"
    using split_last_field_append [of 45 "str_nat (nat p)" "u ''port''"]
    by (simp add: port_record_def str_int_def u_def)
  with \<open>0 \<le> p\<close> show ?thesis by (simp add: read_port_def)
qed

lemma port_record_inj: "port_record p = port_record q \<longleftrightarrow> p = q"
  by (auto simp: port_record_def dest: str_int_inj)

lemma holder_unique: "inv_lock c \<Longrightarrow> holder c v \<Longrightarrow> holder c w \<Longrightarrow> v = w"
  by (simp add: inv_lock_def)

lemma no_lock_no_entries: "inv_lock c \<Longrightarrow> \<not> lock_dir c \<Longrightarrow> entries c = {}"
  by (simp add: inv_lock_def)

lemma get_an_unused_port_tcp: "get_an_unused_port le = Inr p \<Longrightarrow> tcp_port p"
  using uint_lt2p [where 'a = 16] by (auto simp: get_an_unused_port_def tcp_port_def split: option.splits)

lemma glob_port_insert [simp]:
  "glob (u ''port-'') (insert (port_record p) es) = insert (port_record p) (glob (u ''port-'') es)"
  by (auto simp: glob_def port_record_def py_startswith_def u_def)

lemma glob_empty [simp]: "glob pre {} = {}"
  by (simp add: glob_def)

lemma glob_mono: "es' \<subseteq> es \<Longrightarrow> glob pre es' \<subseteq> glob pre es"
  by (auto simp: glob_def)

lemma inv_pub_mono:
  assumes inv: "inv_pub c"
    and srv: "\<And>q. servers c q \<noteq> None \<Longrightarrow> servers c' q \<noteq> None"
    and ent: "glob (u ''port-'') (entries c') \<subseteq> glob (u ''port-'') (entries c)"
    and loc: "\<And>v. port (workers c' v) = port (workers c v) \<and> url (workers c' v) = url (workers c v)"
  shows "inv_pub c'"
proof -
  have "servers c' q \<noteq> None \<and> url (workers c' v) = Some (vnu_url PROTO HOST q) \<and> tcp_port q"
    if "port (workers c' v) = Some q" for v q
    using that inv srv loc [of v] unfolding inv_pub_def by auto
  moreover have "\<exists>p. n = port_record p \<and> tcp_port p \<and> servers c' p \<noteq> None"
    if "n \<in> glob (u ''port-'') (entries c')" for n
    using that inv srv ent unfolding inv_pub_def by blast
  ultimately show ?thesis unfolding inv_pub_def by blast
qed

lemma inv_pub_set_port:
  assumes inv: "inv_pub c"
    and srv: "\<And>q. servers c q \<noteq> None \<Longrightarrow> servers c' q \<noteq> None"
    and ent: "glob (u ''port-'') (entries c') \<subseteq> glob (u ''port-'') (entries c)"
    and wk: "workers c' = (workers c)(w := W)"
    and new: "port W = Some q" "url W = Some (vnu_url PROTO HOST q)" "servers c' q \<noteq> None" "tcp_port q"
  shows "inv_pub c'"
proof -
  have "servers c' q' \<noteq> None \<and> url (workers c' v) = Some (vnu_url PROTO HOST q') \<and> tcp_port q'"
    if "port (workers c' v) = Some q'" for v q'
    using that inv srv wk new unfolding inv_pub_def by (cases "v = w") auto
  moreover have "\<exists>p. n = port_record p \<and> tcp_port p \<and> servers c' p \<noteq> None"
    if "n \<in> glob (u ''port-'') (entries c')" for n
    using that inv srv ent unfolding inv_pub_def by blast
  ultimately show ?thesis unfolding inv_pub_def by blast
qed

lemma inv_pub_launch:
  assumes st: "start_vnu_server le PROTO HOST = Some (Inr (p, v, args))" and inv: "inv_pub c"
    and wk: "workers c' = (workers c)(w := W)" and new: "port W = Some p" "url W = Some v"
    and sh: "servers c' = (servers c)(p \<mapsto> Running)" "entries c' = entries c"
  shows "inv_pub c'"
proof -
  have "get_an_unused_port le = Inr p" "v = vnu_url PROTO HOST p"
    using start_vnu_server_Inr [OF st] by simp_all
  then have "tcp_port p" "v = vnu_url PROTO HOST p" by (simp_all add: get_an_unused_port_tcp)
  then show ?thesis
    by (rule_tac inv_pub_set_port [OF inv _ _ wk, where q = p]) (simp_all add: sh new)
qed

lemma inv_pub_publish:
  assumes inv: "inv_pub c" and p: "servers c p \<noteq> None" "tcp_port p"
    and sh: "entries c' = insert (port_record p) (entries c)" "servers c' = servers c"
    and loc: "\<And>v. port (workers c' v) = port (workers c v) \<and> url (workers c' v) = url (workers c v)"
  shows "inv_pub c'"
proof -
  have "servers c' q \<noteq> None \<and> url (workers c' v) = Some (vnu_url PROTO HOST q) \<and> tcp_port q"
    if "port (workers c' v) = Some q" for v q
    using that inv sh loc [of v] unfolding inv_pub_def by auto
  moreover have "\<exists>p. n = port_record p \<and> tcp_port p \<and> servers c' p \<noteq> None"
    if "n \<in> glob (u ''port-'') (entries c')" for n
    using that inv sh p unfolding inv_pub_def by auto
  ultimately show ?thesis unfolding inv_pub_def by blast
qed

lemma inv_pub_port: "inv_pub c \<Longrightarrow> port (workers c w) = Some p \<Longrightarrow> servers c p \<noteq> None \<and> tcp_port p"
  by (simp add: inv_pub_def)

lemma inv_pub_record:
  "inv_pub c \<Longrightarrow> n \<in> glob (u ''port-'') (entries c) \<Longrightarrow>
   \<exists>p. n = port_record p \<and> tcp_port p \<and> servers c p \<noteq> None"
  by (simp add: inv_pub_def)

lemma step_inv_pub: "step c c' \<Longrightarrow> inv_pub c \<Longrightarrow> inv_pub c'"
proof (induction rule: step.induct)
  case (launch c w W le p v args)
  show ?case
    by (rule inv_pub_launch [OF launch.hyps(3) launch.prems, where w = w and W = "W\<lparr>pc := Publish, port := Some p, url := Some v, proc := Some p\<rparr>"])
       (simp_all add: set_worker_def)
next
  case (master_launch c w W le p v args)
  show ?case
    by (rule inv_pub_launch [OF master_launch.hyps(3) master_launch.prems, where w = w and
        W = "W\<lparr>pc := InUse, owns_lock := True, port := Some p, url := Some v, proc := Some p\<rparr>"])
       (simp_all add: set_worker_def)
next
  case (publish c w W p)
  have p: "servers c p \<noteq> None" "tcp_port p"
    using inv_pub_port [OF publish.prems, of w] publish.hyps by simp_all
  show ?case
    by (rule inv_pub_publish [OF publish.prems p]) (use publish.hyps in \<open>simp_all add: set_worker_def\<close>)
next
  case (poll_read c w W r n q)
  obtain p where p: "n = port_record p" "tcp_port p" "servers c p \<noteq> None"
    using inv_pub_record [OF poll_read.prems poll_read.hyps(3)] by blast
  with poll_read.hyps have "q = p" by (simp add: read_port_port_record tcp_port_def)
  with p show ?case
    by (rule_tac inv_pub_set_port [OF poll_read.prems, where w = w and q = q and
          W = "W\<lparr>pc := Poll r, port := Some q, url := Some (vnu_url PROTO HOST q)\<rparr>"])
       (simp_all add: set_worker_def)
next
  case (release_rm c w W)
  show ?case by (rule inv_pub_mono [OF release_rm.prems]) (use release_rm.hyps in \<open>auto simp: set_worker_def glob_def\<close>)
next
  case (terminate c w W p)
  show ?case by (rule inv_pub_mono [OF terminate.prems]) (use terminate.hyps in \<open>simp_all add: set_worker_def\<close>)
next
  case (destroy c w W)
  show ?case by (rule inv_pub_mono [OF destroy.prems]) (use destroy.hyps in \<open>simp_all add: set_worker_def\<close>)
next
  case (env_override c w W)
  show ?case by (rule inv_pub_mono [OF env_override.prems]) (use env_override.hyps in \<open>simp_all add: set_worker_def\<close>)
next
  case (master_begin c w W)
  show ?case by (rule inv_pub_mono [OF master_begin.prems]) (use master_begin.hyps in \<open>simp_all add: set_worker_def\<close>)
next
  case (xdist_begin c w W)
  show ?case by (rule inv_pub_mono [OF xdist_begin.prems]) (use xdist_begin.hyps in \<open>simp_all add: set_worker_def\<close>)
next
  case (claim c w W)
  show ?case by (rule inv_pub_mono [OF claim.prems]) (use claim.hyps in \<open>simp_all add: set_worker_def\<close>)
next
  case (register c w W)
  show ?case by (rule inv_pub_mono [OF register.prems]) (use register.hyps in \<open>simp_all add: set_worker_def\<close>)
next
  case (register_missing c w W)
  show ?case by (rule inv_pub_mono [OF register_missing.prems]) (use register_missing.hyps in \<open>simp_all add: set_worker_def\<close>)
next
  case (register_exists c w W)
  show ?case by (rule inv_pub_mono [OF register_exists.prems]) (use register_exists.hyps in \<open>simp_all add: set_worker_def\<close>)
next
  case (launch_failed c w W)
  show ?case by (rule inv_pub_mono [OF launch_failed.prems]) (use launch_failed.hyps in \<open>simp_all add: set_worker_def\<close>)
next
  case (publish_failed c w W)
  show ?case by (rule inv_pub_mono [OF publish_failed.prems]) (use publish_failed.hyps in \<open>simp_all add: set_worker_def\<close>)
next
  case (poll_empty c w W)
  show ?case by (rule inv_pub_mono [OF poll_empty.prems]) (use poll_empty.hyps in \<open>simp_all add: set_worker_def\<close>)
next
  case (poll_unreadable c w W)
  show ?case by (rule inv_pub_mono [OF poll_unreadable.prems]) (use poll_unreadable.hyps in \<open>simp_all add: set_worker_def\<close>)
next
  case (poll_done c w W)
  show ?case by (rule inv_pub_mono [OF poll_done.prems]) (use poll_done.hyps in \<open>simp_all add: set_worker_def\<close>)
next
  case (poll_timeout c w W)
  show ?case by (rule inv_pub_mono [OF poll_timeout.prems]) (use poll_timeout.hyps in \<open>simp_all add: set_worker_def\<close>)
next
  case (tests_done c w W)
  show ?case by (rule inv_pub_mono [OF tests_done.prems]) (use tests_done.hyps in \<open>simp_all add: set_worker_def\<close>)
next
  case (release_check c w W)
  show ?case by (rule inv_pub_mono [OF release_check.prems]) (use release_check.hyps in \<open>simp_all add: set_worker_def\<close>)
next
  case (release_rm_missing c w W)
  show ?case by (rule inv_pub_mono [OF release_rm_missing.prems]) (use release_rm_missing.hyps in \<open>simp_all add: set_worker_def\<close>)
next
  case (wait_clear c w W)
  show ?case by (rule inv_pub_mono [OF wait_clear.prems]) (use wait_clear.hyps in \<open>simp_all add: set_worker_def\<close>)
next
  case (wait_busy c w W)
  then show ?case by simp
qed

lemma initial_inv: "initial c \<Longrightarrow> inv_static c \<and> inv_pc c \<and> inv_lock c \<and> inv_pub c \<and> env_quiet c"
proof -
  assume init: "initial c"
  have "inv_static c" using init by (simp add: initial_def inv_static_def)
  moreover have "wk_ok (workers c w)" for w
    using init unfolding initial_def wk_ok_def by (cases "pc (workers c w) = Absent") auto
  moreover have "\<not> holder c w" for w using init by (simp add: initial_def holder_def)
  moreover have "quiet_pc (pc (workers c w))" for w
    using init unfolding initial_def by (cases "pc (workers c w) = Absent") auto
  ultimately show ?thesis
    using init by (auto simp: initial_def inv_pc_def inv_lock_def inv_pub_def env_quiet_def)
qed

lemma step_env_url: "step c c' \<Longrightarrow> env_url c' = env_url c"
  by (induction rule: step.induct) (simp_all add: set_worker_def)

lemma env_quiet_frame:
  "env_quiet c \<Longrightarrow> workers c w = W \<Longrightarrow> \<not> quiet_pc (pc W) \<Longrightarrow> env_url c' = env_url c \<Longrightarrow> env_quiet c'"
  by (auto simp: env_quiet_def)

lemma step_env_quiet: "step c c' \<Longrightarrow> env_quiet c \<Longrightarrow> env_quiet c'"
proof (induction rule: step.induct)
  case (env_override c w W v)
  then show ?case by (auto simp: env_quiet_def set_worker_def)
next
  case (master_begin c w W)
  then show ?case by (simp add: env_quiet_def set_worker_def)
next
  case (xdist_begin c w W)
  then show ?case by (simp add: env_quiet_def set_worker_def)
next
  case (claim c w W)
  show ?case by (rule env_quiet_frame [OF claim.prems claim.hyps(1)]) (use claim.hyps in \<open>simp_all add: set_worker_def\<close>)
next
  case (register c w W)
  show ?case by (rule env_quiet_frame [OF register.prems register.hyps(1)]) (use register.hyps in \<open>simp_all add: set_worker_def\<close>)
next
  case (register_missing c w W)
  show ?case by (rule env_quiet_frame [OF register_missing.prems register_missing.hyps(1)]) (use register_missing.hyps in \<open>simp_all add: set_worker_def\<close>)
next
  case (register_exists c w W)
  show ?case by (rule env_quiet_frame [OF register_exists.prems register_exists.hyps(1)]) (use register_exists.hyps in \<open>simp_all add: set_worker_def\<close>)
next
  case (launch c w W)
  show ?case by (rule env_quiet_frame [OF launch.prems launch.hyps(1)]) (use launch.hyps in \<open>simp_all add: set_worker_def\<close>)
next
  case (master_launch c w W)
  show ?case by (rule env_quiet_frame [OF master_launch.prems master_launch.hyps(1)]) (use master_launch.hyps in \<open>simp_all add: set_worker_def\<close>)
next
  case (launch_failed c w W)
  show ?case by (rule env_quiet_frame [OF launch_failed.prems launch_failed.hyps(1)]) (use launch_failed.hyps in \<open>auto simp: set_worker_def\<close>)
next
  case (publish c w W)
  show ?case by (rule env_quiet_frame [OF publish.prems publish.hyps(1)]) (use publish.hyps in \<open>simp_all add: set_worker_def\<close>)
next
  case (publish_failed c w W)
  show ?case by (rule env_quiet_frame [OF publish_failed.prems publish_failed.hyps(1)]) (use publish_failed.hyps in \<open>simp_all add: set_worker_def\<close>)
next
  case (poll_read c w W)
  show ?case by (rule env_quiet_frame [OF poll_read.prems poll_read.hyps(1)]) (use poll_read.hyps in \<open>simp_all add: set_worker_def\<close>)
next
  case (poll_empty c w W)
  show ?case by (rule env_quiet_frame [OF poll_empty.prems poll_empty.hyps(1)]) (use poll_empty.hyps in \<open>simp_all add: set_worker_def\<close>)
next
  case (poll_unreadable c w W)
  show ?case by (rule env_quiet_frame [OF poll_unreadable.prems poll_unreadable.hyps(1)]) (use poll_unreadable.hyps in \<open>simp_all add: set_worker_def\<close>)
next
  case (poll_done c w W)
  show ?case by (rule env_quiet_frame [OF poll_done.prems poll_done.hyps(1)]) (use poll_done.hyps in \<open>simp_all add: set_worker_def\<close>)
next
  case (poll_timeout c w W)
  show ?case by (rule env_quiet_frame [OF poll_timeout.prems poll_timeout.hyps(1)]) (use poll_timeout.hyps in \<open>simp_all add: set_worker_def\<close>)
next
  case (tests_done c w W)
  show ?case by (rule env_quiet_frame [OF tests_done.prems tests_done.hyps(1)]) (use tests_done.hyps in \<open>simp_all add: set_worker_def\<close>)
next
  case (release_check c w W)
  show ?case by (rule env_quiet_frame [OF release_check.prems release_check.hyps(1)]) (use release_check.hyps in \<open>simp_all add: set_worker_def\<close>)
next
  case (release_rm c w W)
  show ?case by (rule env_quiet_frame [OF release_rm.prems release_rm.hyps(1)]) (use release_rm.hyps in \<open>simp_all add: set_worker_def\<close>)
next
  case (release_rm_missing c w W)
  show ?case by (rule env_quiet_frame [OF release_rm_missing.prems release_rm_missing.hyps(1)]) (use release_rm_missing.hyps in \<open>simp_all add: set_worker_def\<close>)
next
  case (wait_clear c w W)
  show ?case by (rule env_quiet_frame [OF wait_clear.prems wait_clear.hyps(1)]) (use wait_clear.hyps in \<open>simp_all add: set_worker_def\<close>)
next
  case (terminate c w W)
  show ?case by (rule env_quiet_frame [OF terminate.prems terminate.hyps(1)]) (use terminate.hyps in \<open>simp_all add: set_worker_def\<close>)
next
  case (destroy c w W)
  show ?case by (rule env_quiet_frame [OF destroy.prems destroy.hyps(1)]) (use destroy.hyps in \<open>simp_all add: set_worker_def\<close>)
next
  case (wait_busy c w W)
  then show ?case by simp
qed

lemma reach_inv: "reach c \<Longrightarrow> inv_static c \<and> inv_pc c \<and> inv_lock c \<and> inv_pub c \<and> env_quiet c"
proof (induction rule: reach.induct)
  case (init c)
  then show ?case by (rule initial_inv)
next
  case (advance c c')
  then show ?case
    using step_inv_static step_inv_pc step_inv_lock step_inv_pub step_env_quiet by blast
qed

lemma needs_lock_inj: "needs_lock V = needs_lock W \<longleftrightarrow> uuid V = uuid W"
  by (simp add: needs_lock_def)

lemma token_glob: "needs_lock W \<in> es \<Longrightarrow> glob (u ''test-'') es \<noteq> {}"
  by (auto simp: glob_def needs_lock_def py_startswith_def)

lemma blocked_frame:
  assumes b: "blocked c f" and W: "workers c w = W" and nf: "\<And>e. pc W \<noteq> Failed e"
    and wk: "workers c' = (workers c)(w := W')" and np: "pc W' \<noteq> Terminate" "pc W' \<noteq> Destroy"
    and tok: "needs_lock (workers c f) \<in> entries c'"
  shows "blocked c' f"
proof -
  have "w \<noteq> f" using b W nf by (auto simp: blocked_def)
  then show ?thesis using b wk np tok by (auto simp: blocked_def)
qed

lemma step_blocked: "step c c' \<Longrightarrow> inv_static c \<Longrightarrow> blocked c f \<Longrightarrow> blocked c' f"
proof (induction rule: step.induct)
  case (release_rm c w W)
  have "w \<noteq> f" using release_rm by (auto simp: blocked_def)
  with release_rm have "uuid W \<noteq> uuid (workers c f)"
    unfolding inv_static_def blocked_def by fastforce
  then have "needs_lock (workers c f) \<noteq> needs_lock W" by (simp add: needs_lock_inj)
  then show ?case
    by (rule_tac blocked_frame [OF release_rm.prems(2) release_rm.hyps(1)]) (use release_rm.hyps release_rm.prems in \<open>auto simp: set_worker_def blocked_def split: if_splits\<close>)
next
  case (wait_clear c w W)
  then show ?case using token_glob [of "workers c f" "entries c"] by (simp add: blocked_def)
next
  case (terminate c w W)
  then show ?case unfolding blocked_def by blast
next
  case (destroy c w W)
  then show ?case unfolding blocked_def by blast
next
  case (env_override c w W)
  show ?case by (rule blocked_frame [OF env_override.prems(2) env_override.hyps(1)]) (use env_override.hyps env_override.prems in \<open>auto simp: set_worker_def blocked_def split: if_splits\<close>)
next
  case (master_begin c w W)
  show ?case by (rule blocked_frame [OF master_begin.prems(2) master_begin.hyps(1)]) (use master_begin.hyps master_begin.prems in \<open>auto simp: set_worker_def blocked_def split: if_splits\<close>)
next
  case (xdist_begin c w W)
  show ?case by (rule blocked_frame [OF xdist_begin.prems(2) xdist_begin.hyps(1)]) (use xdist_begin.hyps xdist_begin.prems in \<open>auto simp: set_worker_def blocked_def split: if_splits\<close>)
next
  case (claim c w W)
  show ?case by (rule blocked_frame [OF claim.prems(2) claim.hyps(1)]) (use claim.hyps claim.prems in \<open>auto simp: set_worker_def blocked_def split: if_splits\<close>)
next
  case (register c w W)
  show ?case by (rule blocked_frame [OF register.prems(2) register.hyps(1)]) (use register.hyps register.prems in \<open>auto simp: set_worker_def blocked_def split: if_splits\<close>)
next
  case (register_missing c w W)
  show ?case by (rule blocked_frame [OF register_missing.prems(2) register_missing.hyps(1)]) (use register_missing.hyps register_missing.prems in \<open>auto simp: set_worker_def blocked_def split: if_splits\<close>)
next
  case (register_exists c w W)
  show ?case by (rule blocked_frame [OF register_exists.prems(2) register_exists.hyps(1)]) (use register_exists.hyps register_exists.prems in \<open>auto simp: set_worker_def blocked_def split: if_splits\<close>)
next
  case (launch c w W)
  show ?case by (rule blocked_frame [OF launch.prems(2) launch.hyps(1)]) (use launch.hyps launch.prems in \<open>auto simp: set_worker_def blocked_def split: if_splits\<close>)
next
  case (master_launch c w W)
  show ?case by (rule blocked_frame [OF master_launch.prems(2) master_launch.hyps(1)]) (use master_launch.hyps master_launch.prems in \<open>auto simp: set_worker_def blocked_def split: if_splits\<close>)
next
  case (launch_failed c w W)
  show ?case by (rule blocked_frame [OF launch_failed.prems(2) launch_failed.hyps(1)]) (use launch_failed.hyps launch_failed.prems in \<open>auto simp: set_worker_def blocked_def split: if_splits\<close>)
next
  case (publish c w W)
  show ?case by (rule blocked_frame [OF publish.prems(2) publish.hyps(1)]) (use publish.hyps publish.prems in \<open>auto simp: set_worker_def blocked_def split: if_splits\<close>)
next
  case (publish_failed c w W)
  show ?case by (rule blocked_frame [OF publish_failed.prems(2) publish_failed.hyps(1)]) (use publish_failed.hyps publish_failed.prems in \<open>auto simp: set_worker_def blocked_def split: if_splits\<close>)
next
  case (poll_read c w W)
  show ?case by (rule blocked_frame [OF poll_read.prems(2) poll_read.hyps(1)]) (use poll_read.hyps poll_read.prems in \<open>auto simp: set_worker_def blocked_def split: if_splits\<close>)
next
  case (poll_empty c w W)
  show ?case by (rule blocked_frame [OF poll_empty.prems(2) poll_empty.hyps(1)]) (use poll_empty.hyps poll_empty.prems in \<open>auto simp: set_worker_def blocked_def split: if_splits\<close>)
next
  case (poll_unreadable c w W)
  show ?case by (rule blocked_frame [OF poll_unreadable.prems(2) poll_unreadable.hyps(1)]) (use poll_unreadable.hyps poll_unreadable.prems in \<open>auto simp: set_worker_def blocked_def split: if_splits\<close>)
next
  case (poll_done c w W)
  show ?case by (rule blocked_frame [OF poll_done.prems(2) poll_done.hyps(1)]) (use poll_done.hyps poll_done.prems in \<open>auto simp: set_worker_def blocked_def split: if_splits\<close>)
next
  case (poll_timeout c w W)
  show ?case by (rule blocked_frame [OF poll_timeout.prems(2) poll_timeout.hyps(1)]) (use poll_timeout.hyps poll_timeout.prems in \<open>auto simp: set_worker_def blocked_def split: if_splits\<close>)
next
  case (tests_done c w W)
  show ?case by (rule blocked_frame [OF tests_done.prems(2) tests_done.hyps(1)]) (use tests_done.hyps tests_done.prems in \<open>auto simp: set_worker_def blocked_def split: if_splits\<close>)
next
  case (release_check c w W)
  show ?case by (rule blocked_frame [OF release_check.prems(2) release_check.hyps(1)]) (use release_check.hyps release_check.prems in \<open>auto simp: set_worker_def blocked_def split: if_splits\<close>)
next
  case (release_rm_missing c w W)
  show ?case by (rule blocked_frame [OF release_rm_missing.prems(2) release_rm_missing.hyps(1)]) (use release_rm_missing.hyps release_rm_missing.prems in \<open>auto simp: set_worker_def blocked_def split: if_splits\<close>)
next
  case (wait_busy c w W)
  then show ?case by simp
qed

lemma wait_frame:
  "workers c w = W \<Longrightarrow> pc W \<noteq> Wait \<Longrightarrow> workers c' = (workers c)(w := W') \<Longrightarrow>
   pc (workers c l) = Wait \<Longrightarrow> pc (workers c' l) = Wait"
  by auto

lemma step_wait_stays:
  "step c c' \<Longrightarrow> blocked c f \<Longrightarrow> pc (workers c l) = Wait \<Longrightarrow> pc (workers c' l) = Wait"
proof (induction rule: step.induct)
  case (wait_clear c w W)
  then show ?case using token_glob [of "workers c f" "entries c"] by (simp add: blocked_def)
next
  case (wait_busy c w W)
  then show ?case by simp
next
  case (env_override c w W)
  show ?case by (rule wait_frame [OF env_override.hyps(1) _ _ env_override.prems(2)]) (use env_override.hyps in \<open>simp_all add: set_worker_def\<close>)
next
  case (master_begin c w W)
  show ?case by (rule wait_frame [OF master_begin.hyps(1) _ _ master_begin.prems(2)]) (use master_begin.hyps in \<open>simp_all add: set_worker_def\<close>)
next
  case (xdist_begin c w W)
  show ?case by (rule wait_frame [OF xdist_begin.hyps(1) _ _ xdist_begin.prems(2)]) (use xdist_begin.hyps in \<open>simp_all add: set_worker_def\<close>)
next
  case (claim c w W)
  show ?case by (rule wait_frame [OF claim.hyps(1) _ _ claim.prems(2)]) (use claim.hyps in \<open>simp_all add: set_worker_def\<close>)
next
  case (register c w W)
  show ?case by (rule wait_frame [OF register.hyps(1) _ _ register.prems(2)]) (use register.hyps in \<open>simp_all add: set_worker_def\<close>)
next
  case (register_missing c w W)
  show ?case by (rule wait_frame [OF register_missing.hyps(1) _ _ register_missing.prems(2)]) (use register_missing.hyps in \<open>simp_all add: set_worker_def\<close>)
next
  case (register_exists c w W)
  show ?case by (rule wait_frame [OF register_exists.hyps(1) _ _ register_exists.prems(2)]) (use register_exists.hyps in \<open>simp_all add: set_worker_def\<close>)
next
  case (launch c w W)
  show ?case by (rule wait_frame [OF launch.hyps(1) _ _ launch.prems(2)]) (use launch.hyps in \<open>simp_all add: set_worker_def\<close>)
next
  case (master_launch c w W)
  show ?case by (rule wait_frame [OF master_launch.hyps(1) _ _ master_launch.prems(2)]) (use master_launch.hyps in \<open>simp_all add: set_worker_def\<close>)
next
  case (launch_failed c w W)
  show ?case by (rule wait_frame [OF launch_failed.hyps(1) _ _ launch_failed.prems(2)]) (use launch_failed.hyps in \<open>auto simp: set_worker_def\<close>)
next
  case (publish c w W)
  show ?case by (rule wait_frame [OF publish.hyps(1) _ _ publish.prems(2)]) (use publish.hyps in \<open>simp_all add: set_worker_def\<close>)
next
  case (publish_failed c w W)
  show ?case by (rule wait_frame [OF publish_failed.hyps(1) _ _ publish_failed.prems(2)]) (use publish_failed.hyps in \<open>simp_all add: set_worker_def\<close>)
next
  case (poll_read c w W)
  show ?case by (rule wait_frame [OF poll_read.hyps(1) _ _ poll_read.prems(2)]) (use poll_read.hyps in \<open>simp_all add: set_worker_def\<close>)
next
  case (poll_empty c w W)
  show ?case by (rule wait_frame [OF poll_empty.hyps(1) _ _ poll_empty.prems(2)]) (use poll_empty.hyps in \<open>simp_all add: set_worker_def\<close>)
next
  case (poll_unreadable c w W)
  show ?case by (rule wait_frame [OF poll_unreadable.hyps(1) _ _ poll_unreadable.prems(2)]) (use poll_unreadable.hyps in \<open>simp_all add: set_worker_def\<close>)
next
  case (poll_done c w W)
  show ?case by (rule wait_frame [OF poll_done.hyps(1) _ _ poll_done.prems(2)]) (use poll_done.hyps in \<open>simp_all add: set_worker_def\<close>)
next
  case (poll_timeout c w W)
  show ?case by (rule wait_frame [OF poll_timeout.hyps(1) _ _ poll_timeout.prems(2)]) (use poll_timeout.hyps in \<open>simp_all add: set_worker_def\<close>)
next
  case (tests_done c w W)
  show ?case by (rule wait_frame [OF tests_done.hyps(1) _ _ tests_done.prems(2)]) (use tests_done.hyps in \<open>simp_all add: set_worker_def\<close>)
next
  case (release_check c w W)
  show ?case by (rule wait_frame [OF release_check.hyps(1) _ _ release_check.prems(2)]) (use release_check.hyps in \<open>simp_all add: set_worker_def\<close>)
next
  case (release_rm c w W)
  show ?case by (rule wait_frame [OF release_rm.hyps(1) _ _ release_rm.prems(2)]) (use release_rm.hyps in \<open>simp_all add: set_worker_def\<close>)
next
  case (release_rm_missing c w W)
  show ?case by (rule wait_frame [OF release_rm_missing.hyps(1) _ _ release_rm_missing.prems(2)]) (use release_rm_missing.hyps in \<open>simp_all add: set_worker_def\<close>)
next
  case (terminate c w W)
  show ?case by (rule wait_frame [OF terminate.hyps(1) _ _ terminate.prems(2)]) (use terminate.hyps in \<open>simp_all add: set_worker_def\<close>)
next
  case (destroy c w W)
  show ?case by (rule wait_frame [OF destroy.hyps(1) _ _ destroy.prems(2)]) (use destroy.hyps in \<open>simp_all add: set_worker_def\<close>)
qed

lemma reach_steps: "step\<^sup>*\<^sup>* c c' \<Longrightarrow> reach c \<Longrightarrow> reach c'"
  by (induction rule: rtranclp_induct) (auto intro: reach.advance)

text \<open>C1: mutual exclusion of leaders: in every reachable state at most one xdist worker holds the
  lock directory (owns it and has not finished its teardown).\<close>

theorem leader_mutual_exclusion:
  "reach c \<Longrightarrow> holder c v \<Longrightarrow> holder c w \<Longrightarrow> v = w"
  using reach_inv holder_unique by blast

text \<open>C7: the lock directory exists exactly while some worker holds it, and it is empty when it
  does not exist.\<close>

theorem lock_dir_held:
  "reach c \<Longrightarrow> (lock_dir c \<longleftrightarrow> (\<exists>w. holder c w)) \<and> (\<not> lock_dir c \<longrightarrow> entries c = {})"
  using reach_inv unfolding inv_lock_def by blast

text \<open>C2: publication safety: whenever a worker knows a port, a server was launched on that port
  and the URL it yields is \<open>http://127.0.0.1:port\<close>; a follower only reads ports its leader
  published.\<close>

theorem publication_safety:
  "reach c \<Longrightarrow> port (workers c w) = Some q \<Longrightarrow>
   servers c q \<noteq> None \<and> url (workers c w) = Some (vnu_url PROTO HOST q)"
  using reach_inv unfolding inv_pub_def by blast

text \<open>C8: with \<open>NBA11Y_VNU_SERVER_URL\<close> set, no worker ever yields a URL: the fixture body
  \<open>return\<close>s from a generator, so every worker that runs it ends with pytest's
  did-not-yield error.\<close>

theorem env_override_never_yields:
  "reach c \<Longrightarrow> env_url c = Some v \<Longrightarrow>
   url (workers c w) = None \<and> (pc (workers c w) = Absent \<or> pc (workers c w) = Start \<or>
     (\<exists>v'. pc (workers c w) = Failed (DidNotYield v')))"
proof -
  assume "reach c" "env_url c = Some v"
  then have "quiet_pc (pc (workers c w)) \<and> url (workers c w) = None"
    using reach_inv unfolding env_quiet_def by blast
  then show ?thesis by (cases "pc (workers c w)" rule: quiet_pc.cases) auto
qed

text \<open>C3: deadlock: once a worker has failed while its usage token is in the lock directory (for
  example a follower that never saw the port), an owner waiting for the tokens to disappear
  waits forever, whatever the other workers do.\<close>

theorem failed_token_blocks_owner:
  assumes "reach c" "blocked c f" "pc (workers c l) = Wait" "step\<^sup>*\<^sup>* c c'"
  shows "pc (workers c' l) = Wait \<and> blocked c' f"
  using assms(4,1-3)
proof (induction rule: rtranclp_induct)
  case (step y z)
  then have "reach y" "pc (workers y l) = Wait" "blocked y f"
    using reach_steps by blast+
  moreover have "inv_static y" using reach_inv [OF \<open>reach y\<close>] by blast
  ultimately show ?case using step.hyps(2) step_blocked step_wait_stays by blast
qed simp

lemma master_alone_no_lock:
  assumes "reach c" "worker_id (workers c w) = MASTER" "pc (workers c w) \<noteq> Absent"
  shows "\<not> lock_dir c \<and> entries c = {}"
proof -
  have inv: "inv_static c" "inv_pc c" "inv_lock c" using reach_inv [OF assms(1)] by blast+
  have "\<not> holder c v" for v using master_no_holder [OF inv(1,2) assms(2,3)] .
  then have "\<not> lock_dir c" using inv(3) unfolding inv_lock_def by blast
  with inv(3) show ?thesis by (simp add: no_lock_no_entries)
qed

text \<open>C9: liveness of the teardown without xdist: a \<open>master\<close> worker that has yielded its URL
  can always finish its session, terminating its server and leaving no lock directory.\<close>

theorem master_teardown_completes:
  assumes r: "reach c" and W: "workers c w = W" and m: "worker_id W = MASTER" and u: "pc W = InUse"
  shows "\<exists>c' p. step\<^sup>*\<^sup>* c c' \<and> pc (workers c' w) = Done \<and> proc W = Some p \<and>
           servers c' p = Some Terminated \<and> \<not> lock_dir c'"
proof -
  have ok: "wk_ok W" using reach_inv [OF r] W by (auto simp: inv_pc_def)
  then have own: "owns_lock W" using m u by (simp add: wk_ok_def)
  with ok u obtain p where p: "proc W = Some p" by (auto simp: wk_ok_def)
  have "worker_id (workers c w) = MASTER" "pc (workers c w) \<noteq> Absent" using W m u by simp_all
  then have alone: "\<not> lock_dir c" "entries c = {}" using master_alone_no_lock [OF r] by blast+
  define c1 where "c1 = set_worker c w (W\<lparr>pc := ReleaseCheck\<rparr>)"
  define c2 where "c2 = set_worker c1 w (W\<lparr>pc := Wait\<rparr>)"
  define c3 where "c3 = set_worker c2 w (W\<lparr>pc := Terminate\<rparr>)"
  define c4 where "c4 = (set_worker c3 w (W\<lparr>pc := Destroy\<rparr>))\<lparr>servers := (servers c3)(p \<mapsto> Terminated)\<rparr>"
  define c5 where "c5 = (set_worker c4 w (W\<lparr>pc := Done\<rparr>))\<lparr>lock_dir := False, entries := entries c4\<rparr>"
  have s1: "step c c1" unfolding c1_def using W u by (rule step.tests_done)
  have s2: "step c1 c2"
    using step.release_check [of c1 w "W\<lparr>pc := ReleaseCheck\<rparr>"] alone own
    by (simp add: c1_def c2_def set_worker_def)
  have s3: "step c2 c3"
    using step.wait_clear [of c2 w "W\<lparr>pc := Wait\<rparr>"] alone
    by (simp add: c1_def c2_def c3_def set_worker_def glob_def)
  have s4: "step c3 c4"
    using step.terminate [of c3 w "W\<lparr>pc := Terminate\<rparr>" p] p
    by (simp add: c1_def c2_def c3_def c4_def set_worker_def)
  have s5: "step c4 c5"
    using step.destroy [of c4 w "W\<lparr>pc := Destroy\<rparr>"] alone
    by (simp add: c1_def c2_def c3_def c4_def c5_def set_worker_def)
  have "step\<^sup>*\<^sup>* c c5" using s1 s2 s3 s4 s5 by (meson rtranclp.rtrancl_into_rtrancl rtranclp.rtrancl_refl)
  moreover have "pc (workers c5 w) = Done \<and> servers c5 p = Some Terminated \<and> \<not> lock_dir c5"
    by (simp add: c1_def c2_def c3_def c4_def c5_def set_worker_def)
  ultimately show ?thesis using p by blast
qed

text \<open>C10: a failure to launch the server is never reported to the followers: the only
  workers that ever end with a launch error are the one that created the lock directory
  and the master; every other worker can only fail with its own errors (the lock
  directory or the port record missing, or the generic \<open>Never started vnu server\<close>).\<close>

theorem leader_failure_not_surfaced:
  "reach c \<Longrightarrow> pc (workers c w) = Failed (LaunchFailed e) \<Longrightarrow>
   owns_lock (workers c w) \<or> worker_id (workers c w) = MASTER"
proof -
  assume "reach c" "pc (workers c w) = Failed (LaunchFailed e)"
  moreover have "wk_ok (workers c w)" using reach_inv [OF \<open>reach c\<close>] by (simp add: inv_pc_def)
  ultimately show ?thesis by (simp add: wk_ok_def)
qed

end
