(* ===== verification/Coordinator_Runs.thy ===== *)
theory Coordinator_Runs
  imports Coordinator_Inv
begin

text \<open>
  Concrete interleavings of two xdist workers \<open>gw0\<close> and \<open>gw1\<close> in the coordinator model,
  each a proof that a configuration is reachable. They witness the invariants of
  \<open>Coordinator_Inv\<close> and show the races and the deadlock that the fixture allows.
\<close>

subsection \<open>Two workers and a launcher that succeeds\<close>

definition absent_worker :: worker where
  "absent_worker = \<lparr>worker_id = u ''gw9'', uuid = u ''z'', pc = Absent, owns_lock = False, port = None,
     url = None, proc = None\<rparr>"

definition mk :: "bool \<Rightarrow> pystr set \<Rightarrow> (int \<Rightarrow> srv_state option) \<Rightarrow> worker \<Rightarrow> worker \<Rightarrow> cfg" where
  "mk ld es sv A B = \<lparr>env_url = None, lock_dir = ld, entries = es, servers = sv,
     workers = (\<lambda>_. absent_worker)(0 := A, 1 := B)\<rparr>"

abbreviation wA :: "pc \<Rightarrow> bool \<Rightarrow> int option \<Rightarrow> worker" where
  "wA p own q \<equiv> \<lparr>worker_id = u ''gw0'', uuid = u ''a'', pc = p, owns_lock = own, port = q,
     url = map_option (vnu_url PROTO HOST) q, proc = (if own then q else None)\<rparr>"

abbreviation wB :: "pc \<Rightarrow> bool \<Rightarrow> int option \<Rightarrow> worker" where
  "wB p own q \<equiv> \<lparr>worker_id = u ''gw1'', uuid = u ''b'', pc = p, owns_lock = own, port = q,
     url = map_option (vnu_url PROTO HOST) q, proc = (if own then q else None)\<rparr>"

abbreviation wM :: "pc \<Rightarrow> bool \<Rightarrow> int option \<Rightarrow> worker" where
  "wM p own q \<equiv> \<lparr>worker_id = u ''master'', uuid = u ''a'', pc = p, owns_lock = own, port = q,
     url = map_option (vnu_url PROTO HOST) q, proc = (if own then q else None)\<rparr>"

text \<open>An operating system where port 8888 is free, Java and the jar exist and the server
  answers at once.\<close>

definition le_up :: launch_env where
  "le_up = \<lparr>os_free_port = Some 8888, os_nt = False, environ = (\<lambda>_. None),
     which = (\<lambda>_. Some (u ''/usr/bin/java'')), sys_prefix = u ''/opt/conda'', exists = (\<lambda>_. True),
     popen_fails = False, probe = (\<lambda>_ _. ProbeOk)\<rparr>"

text \<open>The same system with no free port.\<close>

definition le_down :: launch_env where
  "le_down = le_up\<lparr>os_free_port := None\<rparr>"

definition up_args :: "pystr list" where
  "up_args = (case get_vnu_args le_up HOST 8888 of Inr a \<Rightarrow> a | Inl _ \<Rightarrow> [])"

subsection \<open>Configurations\<close>

text \<open>gw0 leads and waits for the tokens to go; gw1 has registered and read the port.\<close>

definition pub_cfg :: cfg where
  "pub_cfg = (mk True {u ''test-'' @ u ''b'', port_record 8888} (Map.empty(8888 \<mapsto> Running)) (wA (Terminate) True (Some 8888)) (wB (Poll 9) False (Some 8888)))"

text \<open>gw0 has terminated the server and is about to remove the lock directory.\<close>

definition term_cfg :: cfg where
  "term_cfg = (mk True {u ''test-'' @ u ''b'', port_record 8888} (Map.empty(8888 \<mapsto> Terminated)) (wA (Destroy) True (Some 8888)) (wB (Poll 9) False (Some 8888)))"

text \<open>gw0 has removed the lock directory with the token of gw1 in it.\<close>

definition destroyed_cfg :: cfg where
  "destroyed_cfg = (mk False {} (Map.empty(8888 \<mapsto> Terminated)) (wA (Done) True (Some 8888)) (wB (Poll 9) False (Some 8888)))"

text \<open>gw1 yields the URL of the server gw0 has terminated.\<close>

definition race_cfg :: cfg where
  "race_cfg = (mk False {} (Map.empty(8888 \<mapsto> Terminated)) (wA (Done) True (Some 8888)) (wB (InUse) False (Some 8888)))"

text \<open>gw0 has finished its whole session; gw1 starts later and claims the lock directory again.\<close>

definition two_leaders_cfg :: cfg where
  "two_leaders_cfg = (mk True {} (Map.empty(8888 \<mapsto> Terminated)) (wA (Done) True (Some 8888)) (wB (Register) True None))"

text \<open>gw1 polled ten times before gw0 published and failed with its token left behind; gw0 waits.\<close>

definition deadlock_cfg :: cfg where
  "deadlock_cfg = (mk True {port_record 8888, u ''test-'' @ u ''b''} (Map.empty(8888 \<mapsto> Running)) (wA (Wait) True (Some 8888)) (wB (Failed NeverStarted) False None))"

text \<open>\<open>NBA11Y_VNU_SERVER_URL\<close> is set before the session starts.\<close>

definition env_cfg :: cfg where
  "env_cfg = (mk False {} Map.empty (wA Start False None) (wB Start False None))\<lparr>env_url := Some (u ''http://127.0.0.1:8888'')\<rparr>"

text \<open>pytest without xdist: the master worker has launched the server and yields its URL.\<close>

definition master_cfg :: cfg where
  "master_cfg = (mk False {} (Map.empty(8888 \<mapsto> Running)) (wM (InUse) True (Some 8888)) (absent_worker))"

text \<open>gw0 won the election but could not allocate a port; gw1 polled ten times and gave up.\<close>

definition leader_failed_cfg :: cfg where
  "leader_failed_cfg = (mk True {u ''test-'' @ u ''b'', u ''test-'' @ u ''a''} Map.empty (wA (Failed (LaunchFailed PortError)) True None) (wB (Failed NeverStarted) False None))"

subsection \<open>Evaluation lemmas\<close>

lemma mk_sel [simp]:
  "workers (mk ld es sv A B) 0 = A" "workers (mk ld es sv A B) (Suc 0) = B" "workers (mk ld es sv A B) 1 = B"
  "lock_dir (mk ld es sv A B) = ld" "entries (mk ld es sv A B) = es" "servers (mk ld es sv A B) = sv"
  "env_url (mk ld es sv A B) = None"
  by (simp_all add: mk_def)

lemma mk_upd [simp]:
  "set_worker (mk ld es sv A B) 0 A' = mk ld es sv A' B"
  "set_worker (mk ld es sv A B) (Suc 0) B' = mk ld es sv A B'"
  "set_worker (mk ld es sv A B) 1 B' = mk ld es sv A B'"
  "(mk ld es sv A B)\<lparr>lock_dir := ld'\<rparr> = mk ld' es sv A B"
  "(mk ld es sv A B)\<lparr>entries := es'\<rparr> = mk ld es' sv A B"
  "(mk ld es sv A B)\<lparr>servers := sv'\<rparr> = mk ld es sv' A B"
  by (simp_all add: mk_def set_worker_def fun_upd_twist)

lemma run_strings [simp]:
  "u ''gw0'' \<noteq> MASTER" "u ''gw1'' \<noteq> MASTER" "u ''a'' \<noteq> u ''b''" "u ''b'' \<noteq> u ''a''"
  "py_startswith (u ''test-'' @ x) (u ''port-'') = False" "py_startswith (u ''test-'' @ x) (u ''test-'') = True"
  "py_startswith (port_record p) (u ''port-'') = True" "py_startswith (port_record p) (u ''test-'') = False"
  "u ''test-'' @ x \<noteq> port_record p" "port_record p \<noteq> u ''test-'' @ x"
  by (simp_all add: MASTER_def u_def py_startswith_def port_record_def)

lemma master_str [simp]: "u ''master'' = MASTER"
  by (simp add: MASTER_def)

lemma glob_insert: "glob pre (insert x es) = (if py_startswith x pre then insert x (glob pre es) else glob pre es)"
  by (auto simp: glob_def)

lemma start_up: "start_vnu_server le_up PROTO HOST = Some (Inr (8888, vnu_url PROTO HOST 8888, up_args))"
proof -
  have "get_vnu_args le_up HOST 8888 = Inr up_args"
    by (simp add: up_args_def get_vnu_args_def java_path_def le_up_def)
  moreover have "wait_for_vnu_to_start le_up (vnu_url PROTO HOST 8888) 10 = Some (Inr 0)"
    by (simp add: wait_for_vnu_to_start_def wait_loop.simps le_up_def)
  ultimately show ?thesis
    by (simp add: start_vnu_server_def get_an_unused_port_def le_up_def)
qed

lemma reach_init_mk: "reach (mk False {} Map.empty (wA Start False None) (wB Start False None))"
proof (rule reach.init)
  show "initial (mk False {} Map.empty (wA Start False None) (wB Start False None))"
    unfolding initial_def by (auto simp: mk_def absent_worker_def MASTER_def u_def)
qed

lemma start_down: "start_vnu_server le_down PROTO HOST = Some (Inl PortError)"
  by (simp add: start_vnu_server_def get_an_unused_port_def le_down_def le_up_def)

lemma reach_init_master: "reach (mk False {} Map.empty (wM Start False None) absent_worker)"
proof (rule reach.init)
  show "initial (mk False {} Map.empty (wM Start False None) absent_worker)"
    unfolding initial_def by (auto simp: mk_def absent_worker_def)
qed

lemmas run_simps = needs_lock_def glob_insert start_up start_down read_port_port_record insert_Diff_if

subsection \<open>Runs\<close>

lemma reach_pub_cfg: "reach pub_cfg"
proof -
  have t1: "step (mk False {} Map.empty (wA (Start) False None) (wB (Start) False None)) (mk False {} Map.empty (wA (Claim) False None) (wB (Start) False None))"
    using step.xdist_begin [of "(mk False {} Map.empty (wA (Start) False None) (wB (Start) False None))" 0 "wA (Start) False None"] by (simp add: run_simps)
  have r1: "reach (mk False {} Map.empty (wA (Claim) False None) (wB (Start) False None))" by (rule reach.advance [OF reach_init_mk t1])
  have t2: "step (mk False {} Map.empty (wA (Claim) False None) (wB (Start) False None)) (mk True {} Map.empty (wA (Register) True None) (wB (Start) False None))"
    using step.claim [of "(mk False {} Map.empty (wA (Claim) False None) (wB (Start) False None))" 0 "wA (Claim) False None"] by (simp add: run_simps)
  have r2: "reach (mk True {} Map.empty (wA (Register) True None) (wB (Start) False None))" by (rule reach.advance [OF r1 t2])
  have t3: "step (mk True {} Map.empty (wA (Register) True None) (wB (Start) False None)) (mk True {u ''test-'' @ u ''a''} Map.empty (wA (Launch) True None) (wB (Start) False None))"
    using step.register [of "(mk True {} Map.empty (wA (Register) True None) (wB (Start) False None))" 0 "wA (Register) True None"] by (simp add: run_simps)
  have r3: "reach (mk True {u ''test-'' @ u ''a''} Map.empty (wA (Launch) True None) (wB (Start) False None))" by (rule reach.advance [OF r2 t3])
  have t4: "step (mk True {u ''test-'' @ u ''a''} Map.empty (wA (Launch) True None) (wB (Start) False None)) (mk True {u ''test-'' @ u ''a''} (Map.empty(8888 \<mapsto> Running)) (wA (Publish) True (Some 8888)) (wB (Start) False None))"
    using step.launch [of "(mk True {u ''test-'' @ u ''a''} Map.empty (wA (Launch) True None) (wB (Start) False None))" 0 "wA (Launch) True None" le_up 8888 "vnu_url PROTO HOST 8888" "up_args"] by (simp add: run_simps)
  have r4: "reach (mk True {u ''test-'' @ u ''a''} (Map.empty(8888 \<mapsto> Running)) (wA (Publish) True (Some 8888)) (wB (Start) False None))" by (rule reach.advance [OF r3 t4])
  have t5: "step (mk True {u ''test-'' @ u ''a''} (Map.empty(8888 \<mapsto> Running)) (wA (Publish) True (Some 8888)) (wB (Start) False None)) (mk True {port_record 8888, u ''test-'' @ u ''a''} (Map.empty(8888 \<mapsto> Running)) (wA (InUse) True (Some 8888)) (wB (Start) False None))"
    using step.publish [of "(mk True {u ''test-'' @ u ''a''} (Map.empty(8888 \<mapsto> Running)) (wA (Publish) True (Some 8888)) (wB (Start) False None))" 0 "wA (Publish) True (Some 8888)" 8888] by (simp add: run_simps)
  have r5: "reach (mk True {port_record 8888, u ''test-'' @ u ''a''} (Map.empty(8888 \<mapsto> Running)) (wA (InUse) True (Some 8888)) (wB (Start) False None))" by (rule reach.advance [OF r4 t5])
  have t6: "step (mk True {port_record 8888, u ''test-'' @ u ''a''} (Map.empty(8888 \<mapsto> Running)) (wA (InUse) True (Some 8888)) (wB (Start) False None)) (mk True {port_record 8888, u ''test-'' @ u ''a''} (Map.empty(8888 \<mapsto> Running)) (wA (ReleaseCheck) True (Some 8888)) (wB (Start) False None))"
    using step.tests_done [of "(mk True {port_record 8888, u ''test-'' @ u ''a''} (Map.empty(8888 \<mapsto> Running)) (wA (InUse) True (Some 8888)) (wB (Start) False None))" 0 "wA (InUse) True (Some 8888)"] by (simp add: run_simps)
  have r6: "reach (mk True {port_record 8888, u ''test-'' @ u ''a''} (Map.empty(8888 \<mapsto> Running)) (wA (ReleaseCheck) True (Some 8888)) (wB (Start) False None))" by (rule reach.advance [OF r5 t6])
  have t7: "step (mk True {port_record 8888, u ''test-'' @ u ''a''} (Map.empty(8888 \<mapsto> Running)) (wA (ReleaseCheck) True (Some 8888)) (wB (Start) False None)) (mk True {port_record 8888, u ''test-'' @ u ''a''} (Map.empty(8888 \<mapsto> Running)) (wA (ReleaseRm) True (Some 8888)) (wB (Start) False None))"
    using step.release_check [of "(mk True {port_record 8888, u ''test-'' @ u ''a''} (Map.empty(8888 \<mapsto> Running)) (wA (ReleaseCheck) True (Some 8888)) (wB (Start) False None))" 0 "wA (ReleaseCheck) True (Some 8888)"] by (simp add: run_simps)
  have r7: "reach (mk True {port_record 8888, u ''test-'' @ u ''a''} (Map.empty(8888 \<mapsto> Running)) (wA (ReleaseRm) True (Some 8888)) (wB (Start) False None))" by (rule reach.advance [OF r6 t7])
  have t8: "step (mk True {port_record 8888, u ''test-'' @ u ''a''} (Map.empty(8888 \<mapsto> Running)) (wA (ReleaseRm) True (Some 8888)) (wB (Start) False None)) (mk True {port_record 8888} (Map.empty(8888 \<mapsto> Running)) (wA (Wait) True (Some 8888)) (wB (Start) False None))"
    using step.release_rm [of "(mk True {port_record 8888, u ''test-'' @ u ''a''} (Map.empty(8888 \<mapsto> Running)) (wA (ReleaseRm) True (Some 8888)) (wB (Start) False None))" 0 "wA (ReleaseRm) True (Some 8888)"] by (simp add: run_simps)
  have r8: "reach (mk True {port_record 8888} (Map.empty(8888 \<mapsto> Running)) (wA (Wait) True (Some 8888)) (wB (Start) False None))" by (rule reach.advance [OF r7 t8])
  have t9: "step (mk True {port_record 8888} (Map.empty(8888 \<mapsto> Running)) (wA (Wait) True (Some 8888)) (wB (Start) False None)) (mk True {port_record 8888} (Map.empty(8888 \<mapsto> Running)) (wA (Terminate) True (Some 8888)) (wB (Start) False None))"
    using step.wait_clear [of "(mk True {port_record 8888} (Map.empty(8888 \<mapsto> Running)) (wA (Wait) True (Some 8888)) (wB (Start) False None))" 0 "wA (Wait) True (Some 8888)"] by (simp add: run_simps)
  have r9: "reach (mk True {port_record 8888} (Map.empty(8888 \<mapsto> Running)) (wA (Terminate) True (Some 8888)) (wB (Start) False None))" by (rule reach.advance [OF r8 t9])
  have t10: "step (mk True {port_record 8888} (Map.empty(8888 \<mapsto> Running)) (wA (Terminate) True (Some 8888)) (wB (Start) False None)) (mk True {port_record 8888} (Map.empty(8888 \<mapsto> Running)) (wA (Terminate) True (Some 8888)) (wB (Claim) False None))"
    using step.xdist_begin [of "(mk True {port_record 8888} (Map.empty(8888 \<mapsto> Running)) (wA (Terminate) True (Some 8888)) (wB (Start) False None))" 1 "wB (Start) False None"] by (simp add: run_simps)
  have r10: "reach (mk True {port_record 8888} (Map.empty(8888 \<mapsto> Running)) (wA (Terminate) True (Some 8888)) (wB (Claim) False None))" by (rule reach.advance [OF r9 t10])
  have t11: "step (mk True {port_record 8888} (Map.empty(8888 \<mapsto> Running)) (wA (Terminate) True (Some 8888)) (wB (Claim) False None)) (mk True {port_record 8888} (Map.empty(8888 \<mapsto> Running)) (wA (Terminate) True (Some 8888)) (wB (Register) False None))"
    using step.claim [of "(mk True {port_record 8888} (Map.empty(8888 \<mapsto> Running)) (wA (Terminate) True (Some 8888)) (wB (Claim) False None))" 1 "wB (Claim) False None"] by (simp add: run_simps)
  have r11: "reach (mk True {port_record 8888} (Map.empty(8888 \<mapsto> Running)) (wA (Terminate) True (Some 8888)) (wB (Register) False None))" by (rule reach.advance [OF r10 t11])
  have t12: "step (mk True {port_record 8888} (Map.empty(8888 \<mapsto> Running)) (wA (Terminate) True (Some 8888)) (wB (Register) False None)) (mk True {u ''test-'' @ u ''b'', port_record 8888} (Map.empty(8888 \<mapsto> Running)) (wA (Terminate) True (Some 8888)) (wB (Poll 10) False None))"
    using step.register [of "(mk True {port_record 8888} (Map.empty(8888 \<mapsto> Running)) (wA (Terminate) True (Some 8888)) (wB (Register) False None))" 1 "wB (Register) False None"] by (simp add: run_simps)
  have r12: "reach (mk True {u ''test-'' @ u ''b'', port_record 8888} (Map.empty(8888 \<mapsto> Running)) (wA (Terminate) True (Some 8888)) (wB (Poll 10) False None))" by (rule reach.advance [OF r11 t12])
  have t13: "step (mk True {u ''test-'' @ u ''b'', port_record 8888} (Map.empty(8888 \<mapsto> Running)) (wA (Terminate) True (Some 8888)) (wB (Poll 10) False None)) (mk True {u ''test-'' @ u ''b'', port_record 8888} (Map.empty(8888 \<mapsto> Running)) (wA (Terminate) True (Some 8888)) (wB (Poll 9) False (Some 8888)))"
    using step.poll_read [of "(mk True {u ''test-'' @ u ''b'', port_record 8888} (Map.empty(8888 \<mapsto> Running)) (wA (Terminate) True (Some 8888)) (wB (Poll 10) False None))" 1 "wB (Poll 10) False None" 9 "port_record 8888" 8888] by (simp add: run_simps)
  have r13: "reach (mk True {u ''test-'' @ u ''b'', port_record 8888} (Map.empty(8888 \<mapsto> Running)) (wA (Terminate) True (Some 8888)) (wB (Poll 9) False (Some 8888)))" by (rule reach.advance [OF r12 t13])
  then show ?thesis by (simp add: pub_cfg_def)
qed

lemma reach_term_cfg: "reach term_cfg"
proof -
  have s0: "reach (mk True {u ''test-'' @ u ''b'', port_record 8888} (Map.empty(8888 \<mapsto> Running)) (wA (Terminate) True (Some 8888)) (wB (Poll 9) False (Some 8888)))" using reach_pub_cfg by (simp add: pub_cfg_def)
  have t1: "step (mk True {u ''test-'' @ u ''b'', port_record 8888} (Map.empty(8888 \<mapsto> Running)) (wA (Terminate) True (Some 8888)) (wB (Poll 9) False (Some 8888))) (mk True {u ''test-'' @ u ''b'', port_record 8888} (Map.empty(8888 \<mapsto> Terminated)) (wA (Destroy) True (Some 8888)) (wB (Poll 9) False (Some 8888)))"
    using step.terminate [of "(mk True {u ''test-'' @ u ''b'', port_record 8888} (Map.empty(8888 \<mapsto> Running)) (wA (Terminate) True (Some 8888)) (wB (Poll 9) False (Some 8888)))" 0 "wA (Terminate) True (Some 8888)" 8888] by (simp add: run_simps)
  have r1: "reach (mk True {u ''test-'' @ u ''b'', port_record 8888} (Map.empty(8888 \<mapsto> Terminated)) (wA (Destroy) True (Some 8888)) (wB (Poll 9) False (Some 8888)))" by (rule reach.advance [OF s0 t1])
  then show ?thesis by (simp add: term_cfg_def)
qed

lemma step_destroy_cfg: "step term_cfg destroyed_cfg"
  using step.destroy [of "(mk True {u ''test-'' @ u ''b'', port_record 8888} (Map.empty(8888 \<mapsto> Terminated)) (wA (Destroy) True (Some 8888)) (wB (Poll 9) False (Some 8888)))" 0 "wA (Destroy) True (Some 8888)"] by (simp add: run_simps term_cfg_def destroyed_cfg_def)

lemma reach_race_cfg: "reach race_cfg"
proof -
  have s0: "reach (mk False {} (Map.empty(8888 \<mapsto> Terminated)) (wA (Done) True (Some 8888)) (wB (Poll 9) False (Some 8888)))" using reach.advance [OF reach_term_cfg step_destroy_cfg] by (simp add: destroyed_cfg_def)
  have t1: "step (mk False {} (Map.empty(8888 \<mapsto> Terminated)) (wA (Done) True (Some 8888)) (wB (Poll 9) False (Some 8888))) (mk False {} (Map.empty(8888 \<mapsto> Terminated)) (wA (Done) True (Some 8888)) (wB (Poll 8) False (Some 8888)))"
    using step.poll_empty [of "(mk False {} (Map.empty(8888 \<mapsto> Terminated)) (wA (Done) True (Some 8888)) (wB (Poll 9) False (Some 8888)))" 1 "wB (Poll 9) False (Some 8888)" 8] by (simp add: run_simps)
  have r1: "reach (mk False {} (Map.empty(8888 \<mapsto> Terminated)) (wA (Done) True (Some 8888)) (wB (Poll 8) False (Some 8888)))" by (rule reach.advance [OF s0 t1])
  have t2: "step (mk False {} (Map.empty(8888 \<mapsto> Terminated)) (wA (Done) True (Some 8888)) (wB (Poll 8) False (Some 8888))) (mk False {} (Map.empty(8888 \<mapsto> Terminated)) (wA (Done) True (Some 8888)) (wB (Poll 7) False (Some 8888)))"
    using step.poll_empty [of "(mk False {} (Map.empty(8888 \<mapsto> Terminated)) (wA (Done) True (Some 8888)) (wB (Poll 8) False (Some 8888)))" 1 "wB (Poll 8) False (Some 8888)" 7] by (simp add: run_simps)
  have r2: "reach (mk False {} (Map.empty(8888 \<mapsto> Terminated)) (wA (Done) True (Some 8888)) (wB (Poll 7) False (Some 8888)))" by (rule reach.advance [OF r1 t2])
  have t3: "step (mk False {} (Map.empty(8888 \<mapsto> Terminated)) (wA (Done) True (Some 8888)) (wB (Poll 7) False (Some 8888))) (mk False {} (Map.empty(8888 \<mapsto> Terminated)) (wA (Done) True (Some 8888)) (wB (Poll 6) False (Some 8888)))"
    using step.poll_empty [of "(mk False {} (Map.empty(8888 \<mapsto> Terminated)) (wA (Done) True (Some 8888)) (wB (Poll 7) False (Some 8888)))" 1 "wB (Poll 7) False (Some 8888)" 6] by (simp add: run_simps)
  have r3: "reach (mk False {} (Map.empty(8888 \<mapsto> Terminated)) (wA (Done) True (Some 8888)) (wB (Poll 6) False (Some 8888)))" by (rule reach.advance [OF r2 t3])
  have t4: "step (mk False {} (Map.empty(8888 \<mapsto> Terminated)) (wA (Done) True (Some 8888)) (wB (Poll 6) False (Some 8888))) (mk False {} (Map.empty(8888 \<mapsto> Terminated)) (wA (Done) True (Some 8888)) (wB (Poll 5) False (Some 8888)))"
    using step.poll_empty [of "(mk False {} (Map.empty(8888 \<mapsto> Terminated)) (wA (Done) True (Some 8888)) (wB (Poll 6) False (Some 8888)))" 1 "wB (Poll 6) False (Some 8888)" 5] by (simp add: run_simps)
  have r4: "reach (mk False {} (Map.empty(8888 \<mapsto> Terminated)) (wA (Done) True (Some 8888)) (wB (Poll 5) False (Some 8888)))" by (rule reach.advance [OF r3 t4])
  have t5: "step (mk False {} (Map.empty(8888 \<mapsto> Terminated)) (wA (Done) True (Some 8888)) (wB (Poll 5) False (Some 8888))) (mk False {} (Map.empty(8888 \<mapsto> Terminated)) (wA (Done) True (Some 8888)) (wB (Poll 4) False (Some 8888)))"
    using step.poll_empty [of "(mk False {} (Map.empty(8888 \<mapsto> Terminated)) (wA (Done) True (Some 8888)) (wB (Poll 5) False (Some 8888)))" 1 "wB (Poll 5) False (Some 8888)" 4] by (simp add: run_simps)
  have r5: "reach (mk False {} (Map.empty(8888 \<mapsto> Terminated)) (wA (Done) True (Some 8888)) (wB (Poll 4) False (Some 8888)))" by (rule reach.advance [OF r4 t5])
  have t6: "step (mk False {} (Map.empty(8888 \<mapsto> Terminated)) (wA (Done) True (Some 8888)) (wB (Poll 4) False (Some 8888))) (mk False {} (Map.empty(8888 \<mapsto> Terminated)) (wA (Done) True (Some 8888)) (wB (Poll 3) False (Some 8888)))"
    using step.poll_empty [of "(mk False {} (Map.empty(8888 \<mapsto> Terminated)) (wA (Done) True (Some 8888)) (wB (Poll 4) False (Some 8888)))" 1 "wB (Poll 4) False (Some 8888)" 3] by (simp add: run_simps)
  have r6: "reach (mk False {} (Map.empty(8888 \<mapsto> Terminated)) (wA (Done) True (Some 8888)) (wB (Poll 3) False (Some 8888)))" by (rule reach.advance [OF r5 t6])
  have t7: "step (mk False {} (Map.empty(8888 \<mapsto> Terminated)) (wA (Done) True (Some 8888)) (wB (Poll 3) False (Some 8888))) (mk False {} (Map.empty(8888 \<mapsto> Terminated)) (wA (Done) True (Some 8888)) (wB (Poll 2) False (Some 8888)))"
    using step.poll_empty [of "(mk False {} (Map.empty(8888 \<mapsto> Terminated)) (wA (Done) True (Some 8888)) (wB (Poll 3) False (Some 8888)))" 1 "wB (Poll 3) False (Some 8888)" 2] by (simp add: run_simps)
  have r7: "reach (mk False {} (Map.empty(8888 \<mapsto> Terminated)) (wA (Done) True (Some 8888)) (wB (Poll 2) False (Some 8888)))" by (rule reach.advance [OF r6 t7])
  have t8: "step (mk False {} (Map.empty(8888 \<mapsto> Terminated)) (wA (Done) True (Some 8888)) (wB (Poll 2) False (Some 8888))) (mk False {} (Map.empty(8888 \<mapsto> Terminated)) (wA (Done) True (Some 8888)) (wB (Poll 1) False (Some 8888)))"
    using step.poll_empty [of "(mk False {} (Map.empty(8888 \<mapsto> Terminated)) (wA (Done) True (Some 8888)) (wB (Poll 2) False (Some 8888)))" 1 "wB (Poll 2) False (Some 8888)" 1] by (simp add: run_simps)
  have r8: "reach (mk False {} (Map.empty(8888 \<mapsto> Terminated)) (wA (Done) True (Some 8888)) (wB (Poll 1) False (Some 8888)))" by (rule reach.advance [OF r7 t8])
  have t9: "step (mk False {} (Map.empty(8888 \<mapsto> Terminated)) (wA (Done) True (Some 8888)) (wB (Poll 1) False (Some 8888))) (mk False {} (Map.empty(8888 \<mapsto> Terminated)) (wA (Done) True (Some 8888)) (wB (Poll 0) False (Some 8888)))"
    using step.poll_empty [of "(mk False {} (Map.empty(8888 \<mapsto> Terminated)) (wA (Done) True (Some 8888)) (wB (Poll 1) False (Some 8888)))" 1 "wB (Poll 1) False (Some 8888)" 0] by (simp add: run_simps)
  have r9: "reach (mk False {} (Map.empty(8888 \<mapsto> Terminated)) (wA (Done) True (Some 8888)) (wB (Poll 0) False (Some 8888)))" by (rule reach.advance [OF r8 t9])
  have t10: "step (mk False {} (Map.empty(8888 \<mapsto> Terminated)) (wA (Done) True (Some 8888)) (wB (Poll 0) False (Some 8888))) (mk False {} (Map.empty(8888 \<mapsto> Terminated)) (wA (Done) True (Some 8888)) (wB (InUse) False (Some 8888)))"
    using step.poll_done [of "(mk False {} (Map.empty(8888 \<mapsto> Terminated)) (wA (Done) True (Some 8888)) (wB (Poll 0) False (Some 8888)))" 1 "wB (Poll 0) False (Some 8888)"] by (simp add: run_simps)
  have r10: "reach (mk False {} (Map.empty(8888 \<mapsto> Terminated)) (wA (Done) True (Some 8888)) (wB (InUse) False (Some 8888)))" by (rule reach.advance [OF r9 t10])
  then show ?thesis by (simp add: race_cfg_def)
qed

lemma reach_two_leaders_cfg: "reach two_leaders_cfg"
proof -
  have t1: "step (mk False {} Map.empty (wA (Start) False None) (wB (Start) False None)) (mk False {} Map.empty (wA (Claim) False None) (wB (Start) False None))"
    using step.xdist_begin [of "(mk False {} Map.empty (wA (Start) False None) (wB (Start) False None))" 0 "wA (Start) False None"] by (simp add: run_simps)
  have r1: "reach (mk False {} Map.empty (wA (Claim) False None) (wB (Start) False None))" by (rule reach.advance [OF reach_init_mk t1])
  have t2: "step (mk False {} Map.empty (wA (Claim) False None) (wB (Start) False None)) (mk True {} Map.empty (wA (Register) True None) (wB (Start) False None))"
    using step.claim [of "(mk False {} Map.empty (wA (Claim) False None) (wB (Start) False None))" 0 "wA (Claim) False None"] by (simp add: run_simps)
  have r2: "reach (mk True {} Map.empty (wA (Register) True None) (wB (Start) False None))" by (rule reach.advance [OF r1 t2])
  have t3: "step (mk True {} Map.empty (wA (Register) True None) (wB (Start) False None)) (mk True {u ''test-'' @ u ''a''} Map.empty (wA (Launch) True None) (wB (Start) False None))"
    using step.register [of "(mk True {} Map.empty (wA (Register) True None) (wB (Start) False None))" 0 "wA (Register) True None"] by (simp add: run_simps)
  have r3: "reach (mk True {u ''test-'' @ u ''a''} Map.empty (wA (Launch) True None) (wB (Start) False None))" by (rule reach.advance [OF r2 t3])
  have t4: "step (mk True {u ''test-'' @ u ''a''} Map.empty (wA (Launch) True None) (wB (Start) False None)) (mk True {u ''test-'' @ u ''a''} (Map.empty(8888 \<mapsto> Running)) (wA (Publish) True (Some 8888)) (wB (Start) False None))"
    using step.launch [of "(mk True {u ''test-'' @ u ''a''} Map.empty (wA (Launch) True None) (wB (Start) False None))" 0 "wA (Launch) True None" le_up 8888 "vnu_url PROTO HOST 8888" "up_args"] by (simp add: run_simps)
  have r4: "reach (mk True {u ''test-'' @ u ''a''} (Map.empty(8888 \<mapsto> Running)) (wA (Publish) True (Some 8888)) (wB (Start) False None))" by (rule reach.advance [OF r3 t4])
  have t5: "step (mk True {u ''test-'' @ u ''a''} (Map.empty(8888 \<mapsto> Running)) (wA (Publish) True (Some 8888)) (wB (Start) False None)) (mk True {port_record 8888, u ''test-'' @ u ''a''} (Map.empty(8888 \<mapsto> Running)) (wA (InUse) True (Some 8888)) (wB (Start) False None))"
    using step.publish [of "(mk True {u ''test-'' @ u ''a''} (Map.empty(8888 \<mapsto> Running)) (wA (Publish) True (Some 8888)) (wB (Start) False None))" 0 "wA (Publish) True (Some 8888)" 8888] by (simp add: run_simps)
  have r5: "reach (mk True {port_record 8888, u ''test-'' @ u ''a''} (Map.empty(8888 \<mapsto> Running)) (wA (InUse) True (Some 8888)) (wB (Start) False None))" by (rule reach.advance [OF r4 t5])
  have t6: "step (mk True {port_record 8888, u ''test-'' @ u ''a''} (Map.empty(8888 \<mapsto> Running)) (wA (InUse) True (Some 8888)) (wB (Start) False None)) (mk True {port_record 8888, u ''test-'' @ u ''a''} (Map.empty(8888 \<mapsto> Running)) (wA (ReleaseCheck) True (Some 8888)) (wB (Start) False None))"
    using step.tests_done [of "(mk True {port_record 8888, u ''test-'' @ u ''a''} (Map.empty(8888 \<mapsto> Running)) (wA (InUse) True (Some 8888)) (wB (Start) False None))" 0 "wA (InUse) True (Some 8888)"] by (simp add: run_simps)
  have r6: "reach (mk True {port_record 8888, u ''test-'' @ u ''a''} (Map.empty(8888 \<mapsto> Running)) (wA (ReleaseCheck) True (Some 8888)) (wB (Start) False None))" by (rule reach.advance [OF r5 t6])
  have t7: "step (mk True {port_record 8888, u ''test-'' @ u ''a''} (Map.empty(8888 \<mapsto> Running)) (wA (ReleaseCheck) True (Some 8888)) (wB (Start) False None)) (mk True {port_record 8888, u ''test-'' @ u ''a''} (Map.empty(8888 \<mapsto> Running)) (wA (ReleaseRm) True (Some 8888)) (wB (Start) False None))"
    using step.release_check [of "(mk True {port_record 8888, u ''test-'' @ u ''a''} (Map.empty(8888 \<mapsto> Running)) (wA (ReleaseCheck) True (Some 8888)) (wB (Start) False None))" 0 "wA (ReleaseCheck) True (Some 8888)"] by (simp add: run_simps)
  have r7: "reach (mk True {port_record 8888, u ''test-'' @ u ''a''} (Map.empty(8888 \<mapsto> Running)) (wA (ReleaseRm) True (Some 8888)) (wB (Start) False None))" by (rule reach.advance [OF r6 t7])
  have t8: "step (mk True {port_record 8888, u ''test-'' @ u ''a''} (Map.empty(8888 \<mapsto> Running)) (wA (ReleaseRm) True (Some 8888)) (wB (Start) False None)) (mk True {port_record 8888} (Map.empty(8888 \<mapsto> Running)) (wA (Wait) True (Some 8888)) (wB (Start) False None))"
    using step.release_rm [of "(mk True {port_record 8888, u ''test-'' @ u ''a''} (Map.empty(8888 \<mapsto> Running)) (wA (ReleaseRm) True (Some 8888)) (wB (Start) False None))" 0 "wA (ReleaseRm) True (Some 8888)"] by (simp add: run_simps)
  have r8: "reach (mk True {port_record 8888} (Map.empty(8888 \<mapsto> Running)) (wA (Wait) True (Some 8888)) (wB (Start) False None))" by (rule reach.advance [OF r7 t8])
  have t9: "step (mk True {port_record 8888} (Map.empty(8888 \<mapsto> Running)) (wA (Wait) True (Some 8888)) (wB (Start) False None)) (mk True {port_record 8888} (Map.empty(8888 \<mapsto> Running)) (wA (Terminate) True (Some 8888)) (wB (Start) False None))"
    using step.wait_clear [of "(mk True {port_record 8888} (Map.empty(8888 \<mapsto> Running)) (wA (Wait) True (Some 8888)) (wB (Start) False None))" 0 "wA (Wait) True (Some 8888)"] by (simp add: run_simps)
  have r9: "reach (mk True {port_record 8888} (Map.empty(8888 \<mapsto> Running)) (wA (Terminate) True (Some 8888)) (wB (Start) False None))" by (rule reach.advance [OF r8 t9])
  have t10: "step (mk True {port_record 8888} (Map.empty(8888 \<mapsto> Running)) (wA (Terminate) True (Some 8888)) (wB (Start) False None)) (mk True {port_record 8888} (Map.empty(8888 \<mapsto> Terminated)) (wA (Destroy) True (Some 8888)) (wB (Start) False None))"
    using step.terminate [of "(mk True {port_record 8888} (Map.empty(8888 \<mapsto> Running)) (wA (Terminate) True (Some 8888)) (wB (Start) False None))" 0 "wA (Terminate) True (Some 8888)" 8888] by (simp add: run_simps)
  have r10: "reach (mk True {port_record 8888} (Map.empty(8888 \<mapsto> Terminated)) (wA (Destroy) True (Some 8888)) (wB (Start) False None))" by (rule reach.advance [OF r9 t10])
  have t11: "step (mk True {port_record 8888} (Map.empty(8888 \<mapsto> Terminated)) (wA (Destroy) True (Some 8888)) (wB (Start) False None)) (mk False {} (Map.empty(8888 \<mapsto> Terminated)) (wA (Done) True (Some 8888)) (wB (Start) False None))"
    using step.destroy [of "(mk True {port_record 8888} (Map.empty(8888 \<mapsto> Terminated)) (wA (Destroy) True (Some 8888)) (wB (Start) False None))" 0 "wA (Destroy) True (Some 8888)"] by (simp add: run_simps)
  have r11: "reach (mk False {} (Map.empty(8888 \<mapsto> Terminated)) (wA (Done) True (Some 8888)) (wB (Start) False None))" by (rule reach.advance [OF r10 t11])
  have t12: "step (mk False {} (Map.empty(8888 \<mapsto> Terminated)) (wA (Done) True (Some 8888)) (wB (Start) False None)) (mk False {} (Map.empty(8888 \<mapsto> Terminated)) (wA (Done) True (Some 8888)) (wB (Claim) False None))"
    using step.xdist_begin [of "(mk False {} (Map.empty(8888 \<mapsto> Terminated)) (wA (Done) True (Some 8888)) (wB (Start) False None))" 1 "wB (Start) False None"] by (simp add: run_simps)
  have r12: "reach (mk False {} (Map.empty(8888 \<mapsto> Terminated)) (wA (Done) True (Some 8888)) (wB (Claim) False None))" by (rule reach.advance [OF r11 t12])
  have t13: "step (mk False {} (Map.empty(8888 \<mapsto> Terminated)) (wA (Done) True (Some 8888)) (wB (Claim) False None)) (mk True {} (Map.empty(8888 \<mapsto> Terminated)) (wA (Done) True (Some 8888)) (wB (Register) True None))"
    using step.claim [of "(mk False {} (Map.empty(8888 \<mapsto> Terminated)) (wA (Done) True (Some 8888)) (wB (Claim) False None))" 1 "wB (Claim) False None"] by (simp add: run_simps)
  have r13: "reach (mk True {} (Map.empty(8888 \<mapsto> Terminated)) (wA (Done) True (Some 8888)) (wB (Register) True None))" by (rule reach.advance [OF r12 t13])
  then show ?thesis by (simp add: two_leaders_cfg_def)
qed

lemma reach_deadlock_cfg: "reach deadlock_cfg"
proof -
  have t1: "step (mk False {} Map.empty (wA (Start) False None) (wB (Start) False None)) (mk False {} Map.empty (wA (Claim) False None) (wB (Start) False None))"
    using step.xdist_begin [of "(mk False {} Map.empty (wA (Start) False None) (wB (Start) False None))" 0 "wA (Start) False None"] by (simp add: run_simps)
  have r1: "reach (mk False {} Map.empty (wA (Claim) False None) (wB (Start) False None))" by (rule reach.advance [OF reach_init_mk t1])
  have t2: "step (mk False {} Map.empty (wA (Claim) False None) (wB (Start) False None)) (mk True {} Map.empty (wA (Register) True None) (wB (Start) False None))"
    using step.claim [of "(mk False {} Map.empty (wA (Claim) False None) (wB (Start) False None))" 0 "wA (Claim) False None"] by (simp add: run_simps)
  have r2: "reach (mk True {} Map.empty (wA (Register) True None) (wB (Start) False None))" by (rule reach.advance [OF r1 t2])
  have t3: "step (mk True {} Map.empty (wA (Register) True None) (wB (Start) False None)) (mk True {u ''test-'' @ u ''a''} Map.empty (wA (Launch) True None) (wB (Start) False None))"
    using step.register [of "(mk True {} Map.empty (wA (Register) True None) (wB (Start) False None))" 0 "wA (Register) True None"] by (simp add: run_simps)
  have r3: "reach (mk True {u ''test-'' @ u ''a''} Map.empty (wA (Launch) True None) (wB (Start) False None))" by (rule reach.advance [OF r2 t3])
  have t4: "step (mk True {u ''test-'' @ u ''a''} Map.empty (wA (Launch) True None) (wB (Start) False None)) (mk True {u ''test-'' @ u ''a''} Map.empty (wA (Launch) True None) (wB (Claim) False None))"
    using step.xdist_begin [of "(mk True {u ''test-'' @ u ''a''} Map.empty (wA (Launch) True None) (wB (Start) False None))" 1 "wB (Start) False None"] by (simp add: run_simps)
  have r4: "reach (mk True {u ''test-'' @ u ''a''} Map.empty (wA (Launch) True None) (wB (Claim) False None))" by (rule reach.advance [OF r3 t4])
  have t5: "step (mk True {u ''test-'' @ u ''a''} Map.empty (wA (Launch) True None) (wB (Claim) False None)) (mk True {u ''test-'' @ u ''a''} Map.empty (wA (Launch) True None) (wB (Register) False None))"
    using step.claim [of "(mk True {u ''test-'' @ u ''a''} Map.empty (wA (Launch) True None) (wB (Claim) False None))" 1 "wB (Claim) False None"] by (simp add: run_simps)
  have r5: "reach (mk True {u ''test-'' @ u ''a''} Map.empty (wA (Launch) True None) (wB (Register) False None))" by (rule reach.advance [OF r4 t5])
  have t6: "step (mk True {u ''test-'' @ u ''a''} Map.empty (wA (Launch) True None) (wB (Register) False None)) (mk True {u ''test-'' @ u ''b'', u ''test-'' @ u ''a''} Map.empty (wA (Launch) True None) (wB (Poll 10) False None))"
    using step.register [of "(mk True {u ''test-'' @ u ''a''} Map.empty (wA (Launch) True None) (wB (Register) False None))" 1 "wB (Register) False None"] by (simp add: run_simps)
  have r6: "reach (mk True {u ''test-'' @ u ''b'', u ''test-'' @ u ''a''} Map.empty (wA (Launch) True None) (wB (Poll 10) False None))" by (rule reach.advance [OF r5 t6])
  have t7: "step (mk True {u ''test-'' @ u ''b'', u ''test-'' @ u ''a''} Map.empty (wA (Launch) True None) (wB (Poll 10) False None)) (mk True {u ''test-'' @ u ''b'', u ''test-'' @ u ''a''} Map.empty (wA (Launch) True None) (wB (Poll 9) False None))"
    using step.poll_empty [of "(mk True {u ''test-'' @ u ''b'', u ''test-'' @ u ''a''} Map.empty (wA (Launch) True None) (wB (Poll 10) False None))" 1 "wB (Poll 10) False None" 9] by (simp add: run_simps)
  have r7: "reach (mk True {u ''test-'' @ u ''b'', u ''test-'' @ u ''a''} Map.empty (wA (Launch) True None) (wB (Poll 9) False None))" by (rule reach.advance [OF r6 t7])
  have t8: "step (mk True {u ''test-'' @ u ''b'', u ''test-'' @ u ''a''} Map.empty (wA (Launch) True None) (wB (Poll 9) False None)) (mk True {u ''test-'' @ u ''b'', u ''test-'' @ u ''a''} Map.empty (wA (Launch) True None) (wB (Poll 8) False None))"
    using step.poll_empty [of "(mk True {u ''test-'' @ u ''b'', u ''test-'' @ u ''a''} Map.empty (wA (Launch) True None) (wB (Poll 9) False None))" 1 "wB (Poll 9) False None" 8] by (simp add: run_simps)
  have r8: "reach (mk True {u ''test-'' @ u ''b'', u ''test-'' @ u ''a''} Map.empty (wA (Launch) True None) (wB (Poll 8) False None))" by (rule reach.advance [OF r7 t8])
  have t9: "step (mk True {u ''test-'' @ u ''b'', u ''test-'' @ u ''a''} Map.empty (wA (Launch) True None) (wB (Poll 8) False None)) (mk True {u ''test-'' @ u ''b'', u ''test-'' @ u ''a''} Map.empty (wA (Launch) True None) (wB (Poll 7) False None))"
    using step.poll_empty [of "(mk True {u ''test-'' @ u ''b'', u ''test-'' @ u ''a''} Map.empty (wA (Launch) True None) (wB (Poll 8) False None))" 1 "wB (Poll 8) False None" 7] by (simp add: run_simps)
  have r9: "reach (mk True {u ''test-'' @ u ''b'', u ''test-'' @ u ''a''} Map.empty (wA (Launch) True None) (wB (Poll 7) False None))" by (rule reach.advance [OF r8 t9])
  have t10: "step (mk True {u ''test-'' @ u ''b'', u ''test-'' @ u ''a''} Map.empty (wA (Launch) True None) (wB (Poll 7) False None)) (mk True {u ''test-'' @ u ''b'', u ''test-'' @ u ''a''} Map.empty (wA (Launch) True None) (wB (Poll 6) False None))"
    using step.poll_empty [of "(mk True {u ''test-'' @ u ''b'', u ''test-'' @ u ''a''} Map.empty (wA (Launch) True None) (wB (Poll 7) False None))" 1 "wB (Poll 7) False None" 6] by (simp add: run_simps)
  have r10: "reach (mk True {u ''test-'' @ u ''b'', u ''test-'' @ u ''a''} Map.empty (wA (Launch) True None) (wB (Poll 6) False None))" by (rule reach.advance [OF r9 t10])
  have t11: "step (mk True {u ''test-'' @ u ''b'', u ''test-'' @ u ''a''} Map.empty (wA (Launch) True None) (wB (Poll 6) False None)) (mk True {u ''test-'' @ u ''b'', u ''test-'' @ u ''a''} Map.empty (wA (Launch) True None) (wB (Poll 5) False None))"
    using step.poll_empty [of "(mk True {u ''test-'' @ u ''b'', u ''test-'' @ u ''a''} Map.empty (wA (Launch) True None) (wB (Poll 6) False None))" 1 "wB (Poll 6) False None" 5] by (simp add: run_simps)
  have r11: "reach (mk True {u ''test-'' @ u ''b'', u ''test-'' @ u ''a''} Map.empty (wA (Launch) True None) (wB (Poll 5) False None))" by (rule reach.advance [OF r10 t11])
  have t12: "step (mk True {u ''test-'' @ u ''b'', u ''test-'' @ u ''a''} Map.empty (wA (Launch) True None) (wB (Poll 5) False None)) (mk True {u ''test-'' @ u ''b'', u ''test-'' @ u ''a''} Map.empty (wA (Launch) True None) (wB (Poll 4) False None))"
    using step.poll_empty [of "(mk True {u ''test-'' @ u ''b'', u ''test-'' @ u ''a''} Map.empty (wA (Launch) True None) (wB (Poll 5) False None))" 1 "wB (Poll 5) False None" 4] by (simp add: run_simps)
  have r12: "reach (mk True {u ''test-'' @ u ''b'', u ''test-'' @ u ''a''} Map.empty (wA (Launch) True None) (wB (Poll 4) False None))" by (rule reach.advance [OF r11 t12])
  have t13: "step (mk True {u ''test-'' @ u ''b'', u ''test-'' @ u ''a''} Map.empty (wA (Launch) True None) (wB (Poll 4) False None)) (mk True {u ''test-'' @ u ''b'', u ''test-'' @ u ''a''} Map.empty (wA (Launch) True None) (wB (Poll 3) False None))"
    using step.poll_empty [of "(mk True {u ''test-'' @ u ''b'', u ''test-'' @ u ''a''} Map.empty (wA (Launch) True None) (wB (Poll 4) False None))" 1 "wB (Poll 4) False None" 3] by (simp add: run_simps)
  have r13: "reach (mk True {u ''test-'' @ u ''b'', u ''test-'' @ u ''a''} Map.empty (wA (Launch) True None) (wB (Poll 3) False None))" by (rule reach.advance [OF r12 t13])
  have t14: "step (mk True {u ''test-'' @ u ''b'', u ''test-'' @ u ''a''} Map.empty (wA (Launch) True None) (wB (Poll 3) False None)) (mk True {u ''test-'' @ u ''b'', u ''test-'' @ u ''a''} Map.empty (wA (Launch) True None) (wB (Poll 2) False None))"
    using step.poll_empty [of "(mk True {u ''test-'' @ u ''b'', u ''test-'' @ u ''a''} Map.empty (wA (Launch) True None) (wB (Poll 3) False None))" 1 "wB (Poll 3) False None" 2] by (simp add: run_simps)
  have r14: "reach (mk True {u ''test-'' @ u ''b'', u ''test-'' @ u ''a''} Map.empty (wA (Launch) True None) (wB (Poll 2) False None))" by (rule reach.advance [OF r13 t14])
  have t15: "step (mk True {u ''test-'' @ u ''b'', u ''test-'' @ u ''a''} Map.empty (wA (Launch) True None) (wB (Poll 2) False None)) (mk True {u ''test-'' @ u ''b'', u ''test-'' @ u ''a''} Map.empty (wA (Launch) True None) (wB (Poll 1) False None))"
    using step.poll_empty [of "(mk True {u ''test-'' @ u ''b'', u ''test-'' @ u ''a''} Map.empty (wA (Launch) True None) (wB (Poll 2) False None))" 1 "wB (Poll 2) False None" 1] by (simp add: run_simps)
  have r15: "reach (mk True {u ''test-'' @ u ''b'', u ''test-'' @ u ''a''} Map.empty (wA (Launch) True None) (wB (Poll 1) False None))" by (rule reach.advance [OF r14 t15])
  have t16: "step (mk True {u ''test-'' @ u ''b'', u ''test-'' @ u ''a''} Map.empty (wA (Launch) True None) (wB (Poll 1) False None)) (mk True {u ''test-'' @ u ''b'', u ''test-'' @ u ''a''} Map.empty (wA (Launch) True None) (wB (Poll 0) False None))"
    using step.poll_empty [of "(mk True {u ''test-'' @ u ''b'', u ''test-'' @ u ''a''} Map.empty (wA (Launch) True None) (wB (Poll 1) False None))" 1 "wB (Poll 1) False None" 0] by (simp add: run_simps)
  have r16: "reach (mk True {u ''test-'' @ u ''b'', u ''test-'' @ u ''a''} Map.empty (wA (Launch) True None) (wB (Poll 0) False None))" by (rule reach.advance [OF r15 t16])
  have t17: "step (mk True {u ''test-'' @ u ''b'', u ''test-'' @ u ''a''} Map.empty (wA (Launch) True None) (wB (Poll 0) False None)) (mk True {u ''test-'' @ u ''b'', u ''test-'' @ u ''a''} Map.empty (wA (Launch) True None) (wB (Failed NeverStarted) False None))"
    using step.poll_timeout [of "(mk True {u ''test-'' @ u ''b'', u ''test-'' @ u ''a''} Map.empty (wA (Launch) True None) (wB (Poll 0) False None))" 1 "wB (Poll 0) False None"] by (simp add: run_simps)
  have r17: "reach (mk True {u ''test-'' @ u ''b'', u ''test-'' @ u ''a''} Map.empty (wA (Launch) True None) (wB (Failed NeverStarted) False None))" by (rule reach.advance [OF r16 t17])
  have t18: "step (mk True {u ''test-'' @ u ''b'', u ''test-'' @ u ''a''} Map.empty (wA (Launch) True None) (wB (Failed NeverStarted) False None)) (mk True {u ''test-'' @ u ''b'', u ''test-'' @ u ''a''} (Map.empty(8888 \<mapsto> Running)) (wA (Publish) True (Some 8888)) (wB (Failed NeverStarted) False None))"
    using step.launch [of "(mk True {u ''test-'' @ u ''b'', u ''test-'' @ u ''a''} Map.empty (wA (Launch) True None) (wB (Failed NeverStarted) False None))" 0 "wA (Launch) True None" le_up 8888 "vnu_url PROTO HOST 8888" "up_args"] by (simp add: run_simps)
  have r18: "reach (mk True {u ''test-'' @ u ''b'', u ''test-'' @ u ''a''} (Map.empty(8888 \<mapsto> Running)) (wA (Publish) True (Some 8888)) (wB (Failed NeverStarted) False None))" by (rule reach.advance [OF r17 t18])
  have t19: "step (mk True {u ''test-'' @ u ''b'', u ''test-'' @ u ''a''} (Map.empty(8888 \<mapsto> Running)) (wA (Publish) True (Some 8888)) (wB (Failed NeverStarted) False None)) (mk True {port_record 8888, u ''test-'' @ u ''b'', u ''test-'' @ u ''a''} (Map.empty(8888 \<mapsto> Running)) (wA (InUse) True (Some 8888)) (wB (Failed NeverStarted) False None))"
    using step.publish [of "(mk True {u ''test-'' @ u ''b'', u ''test-'' @ u ''a''} (Map.empty(8888 \<mapsto> Running)) (wA (Publish) True (Some 8888)) (wB (Failed NeverStarted) False None))" 0 "wA (Publish) True (Some 8888)" 8888] by (simp add: run_simps)
  have r19: "reach (mk True {port_record 8888, u ''test-'' @ u ''b'', u ''test-'' @ u ''a''} (Map.empty(8888 \<mapsto> Running)) (wA (InUse) True (Some 8888)) (wB (Failed NeverStarted) False None))" by (rule reach.advance [OF r18 t19])
  have t20: "step (mk True {port_record 8888, u ''test-'' @ u ''b'', u ''test-'' @ u ''a''} (Map.empty(8888 \<mapsto> Running)) (wA (InUse) True (Some 8888)) (wB (Failed NeverStarted) False None)) (mk True {port_record 8888, u ''test-'' @ u ''b'', u ''test-'' @ u ''a''} (Map.empty(8888 \<mapsto> Running)) (wA (ReleaseCheck) True (Some 8888)) (wB (Failed NeverStarted) False None))"
    using step.tests_done [of "(mk True {port_record 8888, u ''test-'' @ u ''b'', u ''test-'' @ u ''a''} (Map.empty(8888 \<mapsto> Running)) (wA (InUse) True (Some 8888)) (wB (Failed NeverStarted) False None))" 0 "wA (InUse) True (Some 8888)"] by (simp add: run_simps)
  have r20: "reach (mk True {port_record 8888, u ''test-'' @ u ''b'', u ''test-'' @ u ''a''} (Map.empty(8888 \<mapsto> Running)) (wA (ReleaseCheck) True (Some 8888)) (wB (Failed NeverStarted) False None))" by (rule reach.advance [OF r19 t20])
  have t21: "step (mk True {port_record 8888, u ''test-'' @ u ''b'', u ''test-'' @ u ''a''} (Map.empty(8888 \<mapsto> Running)) (wA (ReleaseCheck) True (Some 8888)) (wB (Failed NeverStarted) False None)) (mk True {port_record 8888, u ''test-'' @ u ''b'', u ''test-'' @ u ''a''} (Map.empty(8888 \<mapsto> Running)) (wA (ReleaseRm) True (Some 8888)) (wB (Failed NeverStarted) False None))"
    using step.release_check [of "(mk True {port_record 8888, u ''test-'' @ u ''b'', u ''test-'' @ u ''a''} (Map.empty(8888 \<mapsto> Running)) (wA (ReleaseCheck) True (Some 8888)) (wB (Failed NeverStarted) False None))" 0 "wA (ReleaseCheck) True (Some 8888)"] by (simp add: run_simps)
  have r21: "reach (mk True {port_record 8888, u ''test-'' @ u ''b'', u ''test-'' @ u ''a''} (Map.empty(8888 \<mapsto> Running)) (wA (ReleaseRm) True (Some 8888)) (wB (Failed NeverStarted) False None))" by (rule reach.advance [OF r20 t21])
  have t22: "step (mk True {port_record 8888, u ''test-'' @ u ''b'', u ''test-'' @ u ''a''} (Map.empty(8888 \<mapsto> Running)) (wA (ReleaseRm) True (Some 8888)) (wB (Failed NeverStarted) False None)) (mk True {port_record 8888, u ''test-'' @ u ''b''} (Map.empty(8888 \<mapsto> Running)) (wA (Wait) True (Some 8888)) (wB (Failed NeverStarted) False None))"
    using step.release_rm [of "(mk True {port_record 8888, u ''test-'' @ u ''b'', u ''test-'' @ u ''a''} (Map.empty(8888 \<mapsto> Running)) (wA (ReleaseRm) True (Some 8888)) (wB (Failed NeverStarted) False None))" 0 "wA (ReleaseRm) True (Some 8888)"] by (simp add: run_simps)
  have r22: "reach (mk True {port_record 8888, u ''test-'' @ u ''b''} (Map.empty(8888 \<mapsto> Running)) (wA (Wait) True (Some 8888)) (wB (Failed NeverStarted) False None))" by (rule reach.advance [OF r21 t22])
  then show ?thesis by (simp add: deadlock_cfg_def)
qed

lemma reach_env_cfg: "reach env_cfg"
proof (rule reach.init)
  show "initial env_cfg"
    unfolding initial_def by (auto simp: env_cfg_def mk_def absent_worker_def MASTER_def u_def)
qed

lemma holder_pub_cfg: "holder pub_cfg 0"
  by (simp add: holder_def pub_cfg_def)

lemma reach_master_cfg: "reach master_cfg"
proof -
  have t1: "step (mk False {} Map.empty (wM (Start) False None) (absent_worker)) (mk False {} Map.empty (wM (MasterLaunch) False None) (absent_worker))"
    using step.master_begin [of "(mk False {} Map.empty (wM (Start) False None) (absent_worker))" 0 "wM (Start) False None"] by (simp add: run_simps)
  have r1: "reach (mk False {} Map.empty (wM (MasterLaunch) False None) (absent_worker))" by (rule reach.advance [OF reach_init_master t1])
  have t2: "step (mk False {} Map.empty (wM (MasterLaunch) False None) (absent_worker)) (mk False {} (Map.empty(8888 \<mapsto> Running)) (wM (InUse) True (Some 8888)) (absent_worker))"
    using step.master_launch [of "(mk False {} Map.empty (wM (MasterLaunch) False None) (absent_worker))" 0 "wM (MasterLaunch) False None" le_up 8888 "vnu_url PROTO HOST 8888" "up_args"] by (simp add: run_simps)
  have r2: "reach (mk False {} (Map.empty(8888 \<mapsto> Running)) (wM (InUse) True (Some 8888)) (absent_worker))" by (rule reach.advance [OF r1 t2])
  then show ?thesis by (simp add: master_cfg_def)
qed

lemma reach_leader_failed_cfg: "reach leader_failed_cfg"
proof -
  have t1: "step (mk False {} Map.empty (wA (Start) False None) (wB (Start) False None)) (mk False {} Map.empty (wA (Claim) False None) (wB (Start) False None))"
    using step.xdist_begin [of "(mk False {} Map.empty (wA (Start) False None) (wB (Start) False None))" 0 "wA (Start) False None"] by (simp add: run_simps)
  have r1: "reach (mk False {} Map.empty (wA (Claim) False None) (wB (Start) False None))" by (rule reach.advance [OF reach_init_mk t1])
  have t2: "step (mk False {} Map.empty (wA (Claim) False None) (wB (Start) False None)) (mk True {} Map.empty (wA (Register) True None) (wB (Start) False None))"
    using step.claim [of "(mk False {} Map.empty (wA (Claim) False None) (wB (Start) False None))" 0 "wA (Claim) False None"] by (simp add: run_simps)
  have r2: "reach (mk True {} Map.empty (wA (Register) True None) (wB (Start) False None))" by (rule reach.advance [OF r1 t2])
  have t3: "step (mk True {} Map.empty (wA (Register) True None) (wB (Start) False None)) (mk True {u ''test-'' @ u ''a''} Map.empty (wA (Launch) True None) (wB (Start) False None))"
    using step.register [of "(mk True {} Map.empty (wA (Register) True None) (wB (Start) False None))" 0 "wA (Register) True None"] by (simp add: run_simps)
  have r3: "reach (mk True {u ''test-'' @ u ''a''} Map.empty (wA (Launch) True None) (wB (Start) False None))" by (rule reach.advance [OF r2 t3])
  have t4: "step (mk True {u ''test-'' @ u ''a''} Map.empty (wA (Launch) True None) (wB (Start) False None)) (mk True {u ''test-'' @ u ''a''} Map.empty (wA (Launch) True None) (wB (Claim) False None))"
    using step.xdist_begin [of "(mk True {u ''test-'' @ u ''a''} Map.empty (wA (Launch) True None) (wB (Start) False None))" 1 "wB (Start) False None"] by (simp add: run_simps)
  have r4: "reach (mk True {u ''test-'' @ u ''a''} Map.empty (wA (Launch) True None) (wB (Claim) False None))" by (rule reach.advance [OF r3 t4])
  have t5: "step (mk True {u ''test-'' @ u ''a''} Map.empty (wA (Launch) True None) (wB (Claim) False None)) (mk True {u ''test-'' @ u ''a''} Map.empty (wA (Launch) True None) (wB (Register) False None))"
    using step.claim [of "(mk True {u ''test-'' @ u ''a''} Map.empty (wA (Launch) True None) (wB (Claim) False None))" 1 "wB (Claim) False None"] by (simp add: run_simps)
  have r5: "reach (mk True {u ''test-'' @ u ''a''} Map.empty (wA (Launch) True None) (wB (Register) False None))" by (rule reach.advance [OF r4 t5])
  have t6: "step (mk True {u ''test-'' @ u ''a''} Map.empty (wA (Launch) True None) (wB (Register) False None)) (mk True {u ''test-'' @ u ''b'', u ''test-'' @ u ''a''} Map.empty (wA (Launch) True None) (wB (Poll 10) False None))"
    using step.register [of "(mk True {u ''test-'' @ u ''a''} Map.empty (wA (Launch) True None) (wB (Register) False None))" 1 "wB (Register) False None"] by (simp add: run_simps)
  have r6: "reach (mk True {u ''test-'' @ u ''b'', u ''test-'' @ u ''a''} Map.empty (wA (Launch) True None) (wB (Poll 10) False None))" by (rule reach.advance [OF r5 t6])
  have t7: "step (mk True {u ''test-'' @ u ''b'', u ''test-'' @ u ''a''} Map.empty (wA (Launch) True None) (wB (Poll 10) False None)) (mk True {u ''test-'' @ u ''b'', u ''test-'' @ u ''a''} Map.empty (wA (Launch) True None) (wB (Poll 9) False None))"
    using step.poll_empty [of "(mk True {u ''test-'' @ u ''b'', u ''test-'' @ u ''a''} Map.empty (wA (Launch) True None) (wB (Poll 10) False None))" 1 "wB (Poll 10) False None" 9] by (simp add: run_simps)
  have r7: "reach (mk True {u ''test-'' @ u ''b'', u ''test-'' @ u ''a''} Map.empty (wA (Launch) True None) (wB (Poll 9) False None))" by (rule reach.advance [OF r6 t7])
  have t8: "step (mk True {u ''test-'' @ u ''b'', u ''test-'' @ u ''a''} Map.empty (wA (Launch) True None) (wB (Poll 9) False None)) (mk True {u ''test-'' @ u ''b'', u ''test-'' @ u ''a''} Map.empty (wA (Launch) True None) (wB (Poll 8) False None))"
    using step.poll_empty [of "(mk True {u ''test-'' @ u ''b'', u ''test-'' @ u ''a''} Map.empty (wA (Launch) True None) (wB (Poll 9) False None))" 1 "wB (Poll 9) False None" 8] by (simp add: run_simps)
  have r8: "reach (mk True {u ''test-'' @ u ''b'', u ''test-'' @ u ''a''} Map.empty (wA (Launch) True None) (wB (Poll 8) False None))" by (rule reach.advance [OF r7 t8])
  have t9: "step (mk True {u ''test-'' @ u ''b'', u ''test-'' @ u ''a''} Map.empty (wA (Launch) True None) (wB (Poll 8) False None)) (mk True {u ''test-'' @ u ''b'', u ''test-'' @ u ''a''} Map.empty (wA (Launch) True None) (wB (Poll 7) False None))"
    using step.poll_empty [of "(mk True {u ''test-'' @ u ''b'', u ''test-'' @ u ''a''} Map.empty (wA (Launch) True None) (wB (Poll 8) False None))" 1 "wB (Poll 8) False None" 7] by (simp add: run_simps)
  have r9: "reach (mk True {u ''test-'' @ u ''b'', u ''test-'' @ u ''a''} Map.empty (wA (Launch) True None) (wB (Poll 7) False None))" by (rule reach.advance [OF r8 t9])
  have t10: "step (mk True {u ''test-'' @ u ''b'', u ''test-'' @ u ''a''} Map.empty (wA (Launch) True None) (wB (Poll 7) False None)) (mk True {u ''test-'' @ u ''b'', u ''test-'' @ u ''a''} Map.empty (wA (Launch) True None) (wB (Poll 6) False None))"
    using step.poll_empty [of "(mk True {u ''test-'' @ u ''b'', u ''test-'' @ u ''a''} Map.empty (wA (Launch) True None) (wB (Poll 7) False None))" 1 "wB (Poll 7) False None" 6] by (simp add: run_simps)
  have r10: "reach (mk True {u ''test-'' @ u ''b'', u ''test-'' @ u ''a''} Map.empty (wA (Launch) True None) (wB (Poll 6) False None))" by (rule reach.advance [OF r9 t10])
  have t11: "step (mk True {u ''test-'' @ u ''b'', u ''test-'' @ u ''a''} Map.empty (wA (Launch) True None) (wB (Poll 6) False None)) (mk True {u ''test-'' @ u ''b'', u ''test-'' @ u ''a''} Map.empty (wA (Launch) True None) (wB (Poll 5) False None))"
    using step.poll_empty [of "(mk True {u ''test-'' @ u ''b'', u ''test-'' @ u ''a''} Map.empty (wA (Launch) True None) (wB (Poll 6) False None))" 1 "wB (Poll 6) False None" 5] by (simp add: run_simps)
  have r11: "reach (mk True {u ''test-'' @ u ''b'', u ''test-'' @ u ''a''} Map.empty (wA (Launch) True None) (wB (Poll 5) False None))" by (rule reach.advance [OF r10 t11])
  have t12: "step (mk True {u ''test-'' @ u ''b'', u ''test-'' @ u ''a''} Map.empty (wA (Launch) True None) (wB (Poll 5) False None)) (mk True {u ''test-'' @ u ''b'', u ''test-'' @ u ''a''} Map.empty (wA (Launch) True None) (wB (Poll 4) False None))"
    using step.poll_empty [of "(mk True {u ''test-'' @ u ''b'', u ''test-'' @ u ''a''} Map.empty (wA (Launch) True None) (wB (Poll 5) False None))" 1 "wB (Poll 5) False None" 4] by (simp add: run_simps)
  have r12: "reach (mk True {u ''test-'' @ u ''b'', u ''test-'' @ u ''a''} Map.empty (wA (Launch) True None) (wB (Poll 4) False None))" by (rule reach.advance [OF r11 t12])
  have t13: "step (mk True {u ''test-'' @ u ''b'', u ''test-'' @ u ''a''} Map.empty (wA (Launch) True None) (wB (Poll 4) False None)) (mk True {u ''test-'' @ u ''b'', u ''test-'' @ u ''a''} Map.empty (wA (Launch) True None) (wB (Poll 3) False None))"
    using step.poll_empty [of "(mk True {u ''test-'' @ u ''b'', u ''test-'' @ u ''a''} Map.empty (wA (Launch) True None) (wB (Poll 4) False None))" 1 "wB (Poll 4) False None" 3] by (simp add: run_simps)
  have r13: "reach (mk True {u ''test-'' @ u ''b'', u ''test-'' @ u ''a''} Map.empty (wA (Launch) True None) (wB (Poll 3) False None))" by (rule reach.advance [OF r12 t13])
  have t14: "step (mk True {u ''test-'' @ u ''b'', u ''test-'' @ u ''a''} Map.empty (wA (Launch) True None) (wB (Poll 3) False None)) (mk True {u ''test-'' @ u ''b'', u ''test-'' @ u ''a''} Map.empty (wA (Launch) True None) (wB (Poll 2) False None))"
    using step.poll_empty [of "(mk True {u ''test-'' @ u ''b'', u ''test-'' @ u ''a''} Map.empty (wA (Launch) True None) (wB (Poll 3) False None))" 1 "wB (Poll 3) False None" 2] by (simp add: run_simps)
  have r14: "reach (mk True {u ''test-'' @ u ''b'', u ''test-'' @ u ''a''} Map.empty (wA (Launch) True None) (wB (Poll 2) False None))" by (rule reach.advance [OF r13 t14])
  have t15: "step (mk True {u ''test-'' @ u ''b'', u ''test-'' @ u ''a''} Map.empty (wA (Launch) True None) (wB (Poll 2) False None)) (mk True {u ''test-'' @ u ''b'', u ''test-'' @ u ''a''} Map.empty (wA (Launch) True None) (wB (Poll 1) False None))"
    using step.poll_empty [of "(mk True {u ''test-'' @ u ''b'', u ''test-'' @ u ''a''} Map.empty (wA (Launch) True None) (wB (Poll 2) False None))" 1 "wB (Poll 2) False None" 1] by (simp add: run_simps)
  have r15: "reach (mk True {u ''test-'' @ u ''b'', u ''test-'' @ u ''a''} Map.empty (wA (Launch) True None) (wB (Poll 1) False None))" by (rule reach.advance [OF r14 t15])
  have t16: "step (mk True {u ''test-'' @ u ''b'', u ''test-'' @ u ''a''} Map.empty (wA (Launch) True None) (wB (Poll 1) False None)) (mk True {u ''test-'' @ u ''b'', u ''test-'' @ u ''a''} Map.empty (wA (Launch) True None) (wB (Poll 0) False None))"
    using step.poll_empty [of "(mk True {u ''test-'' @ u ''b'', u ''test-'' @ u ''a''} Map.empty (wA (Launch) True None) (wB (Poll 1) False None))" 1 "wB (Poll 1) False None" 0] by (simp add: run_simps)
  have r16: "reach (mk True {u ''test-'' @ u ''b'', u ''test-'' @ u ''a''} Map.empty (wA (Launch) True None) (wB (Poll 0) False None))" by (rule reach.advance [OF r15 t16])
  have t17: "step (mk True {u ''test-'' @ u ''b'', u ''test-'' @ u ''a''} Map.empty (wA (Launch) True None) (wB (Poll 0) False None)) (mk True {u ''test-'' @ u ''b'', u ''test-'' @ u ''a''} Map.empty (wA (Launch) True None) (wB (Failed NeverStarted) False None))"
    using step.poll_timeout [of "(mk True {u ''test-'' @ u ''b'', u ''test-'' @ u ''a''} Map.empty (wA (Launch) True None) (wB (Poll 0) False None))" 1 "wB (Poll 0) False None"] by (simp add: run_simps)
  have r17: "reach (mk True {u ''test-'' @ u ''b'', u ''test-'' @ u ''a''} Map.empty (wA (Launch) True None) (wB (Failed NeverStarted) False None))" by (rule reach.advance [OF r16 t17])
  have t18: "step (mk True {u ''test-'' @ u ''b'', u ''test-'' @ u ''a''} Map.empty (wA (Launch) True None) (wB (Failed NeverStarted) False None)) (mk True {u ''test-'' @ u ''b'', u ''test-'' @ u ''a''} Map.empty (wA (Failed (LaunchFailed PortError)) True None) (wB (Failed NeverStarted) False None))"
    using step.launch_failed [of "(mk True {u ''test-'' @ u ''b'', u ''test-'' @ u ''a''} Map.empty (wA (Launch) True None) (wB (Failed NeverStarted) False None))" 0 "wA (Launch) True None" le_down PortError] by (simp add: run_simps)
  have r18: "reach (mk True {u ''test-'' @ u ''b'', u ''test-'' @ u ''a''} Map.empty (wA (Failed (LaunchFailed PortError)) True None) (wB (Failed NeverStarted) False None))" by (rule reach.advance [OF r17 t18])
  then show ?thesis by (simp add: leader_failed_cfg_def)
qed

subsection \<open>Witnesses of the coordinator invariants\<close>

theorem leader_mutual_exclusion_witness: "holder pub_cfg 0 \<and> \<not> holder pub_cfg 1"
  using leader_mutual_exclusion [OF reach_pub_cfg holder_pub_cfg, of 1] holder_pub_cfg by auto

theorem lock_dir_held_witness: "lock_dir pub_cfg \<and> holder pub_cfg 0"
  using lock_dir_held [OF reach_pub_cfg] holder_pub_cfg by blast

theorem publication_safety_witness:
  "servers pub_cfg 8888 = Some Running \<and> url (workers pub_cfg 1) = Some (vnu_url PROTO HOST 8888)"
  using publication_safety [OF reach_pub_cfg, of 1 8888] by (simp add: pub_cfg_def)

theorem env_override_never_yields_witness:
  "env_url env_cfg = Some (u ''http://127.0.0.1:8888'') \<and> url (workers env_cfg 0) = None"
  using env_override_never_yields [OF reach_env_cfg, of "u ''http://127.0.0.1:8888''" 0]
  by (simp add: env_cfg_def)

theorem failed_token_blocks_owner_witness:
  "pc (workers deadlock_cfg 0) = Wait \<and> blocked deadlock_cfg 1"
proof -
  have b: "blocked deadlock_cfg 1"
    unfolding blocked_def by (auto simp: deadlock_cfg_def mk_def absent_worker_def needs_lock_def)
  have w: "pc (workers deadlock_cfg 0) = Wait" by (simp add: deadlock_cfg_def)
  show ?thesis using failed_token_blocks_owner [OF reach_deadlock_cfg b w rtranclp.rtrancl_refl] .
qed

subsection \<open>Races of the fixture\<close>

text \<open>C4: the owner removes the lock directory while another worker's usage token is in it:
  a worker that registers after the owner saw no token is not waited for.\<close>

theorem teardown_destroys_live_token:
  "reach term_cfg \<and> step term_cfg destroyed_cfg \<and>
   needs_lock (workers term_cfg 1) \<in> entries term_cfg \<and>
   \<not> lock_dir destroyed_cfg \<and> needs_lock (workers term_cfg 1) \<notin> entries destroyed_cfg"
  using reach_term_cfg step_destroy_cfg
  by (simp add: term_cfg_def destroyed_cfg_def needs_lock_def)

text \<open>C5: a follower can yield the URL of a server its leader has already terminated.\<close>

theorem follower_yields_terminated_server:
  "reach race_cfg \<and> pc (workers race_cfg 1) = InUse \<and>
   url (workers race_cfg 1) = Some (vnu_url PROTO HOST 8888) \<and> servers race_cfg 8888 = Some Terminated"
  using reach_race_cfg by (simp add: race_cfg_def)

text \<open>C6: two workers of one session each create the lock directory and become the owner: a
  worker whose fixture starts after the first owner's teardown starts a second server.\<close>

theorem second_leader:
  "reach two_leaders_cfg \<and> owns_lock (workers two_leaders_cfg 0) \<and> owns_lock (workers two_leaders_cfg 1) \<and>
   pc (workers two_leaders_cfg 0) = Done \<and> pc (workers two_leaders_cfg 1) = Register"
  using reach_two_leaders_cfg by (simp add: two_leaders_cfg_def)

theorem leader_failure_not_surfaced_witness:
  "pc (workers leader_failed_cfg 0) = Failed (LaunchFailed PortError) \<and>
   (owns_lock (workers leader_failed_cfg 0) \<or> worker_id (workers leader_failed_cfg 0) = MASTER)"
  using leader_failure_not_surfaced [OF reach_leader_failed_cfg, of 0 PortError]
  by (simp add: leader_failed_cfg_def)

theorem master_teardown_completes_witness:
  "\<exists>c'. step\<^sup>*\<^sup>* master_cfg c' \<and> pc (workers c' 0) = Done \<and> servers c' 8888 = Some Terminated \<and> \<not> lock_dir c'"
  using master_teardown_completes [OF reach_master_cfg, of 0 "wM InUse True (Some 8888)"]
  by (simp add: master_cfg_def)

end
