(* ===== verification/Classifier.thy ===== *)
theory Classifier
  imports Prelude
begin

text \<open>
  The classifier of \<open>utils.py\<close>: \<open>organize_validator_results\<close> groups the Nu checker's
  messages by type and message text, and \<open>raise_if_errors\<close> turns the error groups whose
  text the \<open>EXCLUDE\<close> pattern does not match into one exception group.
\<close>

subsection \<open>Messages and exceptions\<close>

text \<open>One entry of \<open>results["messages"]\<close>: the keys the code reads (\<open>subType\<close> may be absent).\<close>

record vmsg =
  vtype :: pystr
  vmessage :: pystr
  vextract :: pystr
  vsubType :: "pystr option"

text \<open>The exceptions the code raises: \<open>Exception(text)\<close>,
  \<open>exceptiongroup.ExceptionGroup(text, exceptions)\<close> and the \<open>ValidatorViolation(**message)\<close>
  of \<open>validator.py\<close>.\<close>

text \<open>An \<open>ExceptionGroup\<close> must be given a non-empty sequence (the constructor raises
  \<open>ValueError\<close> otherwise).\<close>

datatype exc = PyException pystr | ExceptionGroup pystr "exc list" | ValidatorViolation vmsg

fun exc_wf :: "exc \<Rightarrow> bool" where
  "exc_wf (PyException _) = True"
| "exc_wf (ExceptionGroup _ es) = (es \<noteq> [] \<and> list_all exc_wf es)"
| "exc_wf (ValidatorViolation _) = True"

subsection \<open>\<open>itertools.groupby\<close>\<close>

fun groupby :: "('a \<Rightarrow> 'k) \<Rightarrow> 'a list \<Rightarrow> ('k \<times> 'a list) list" where
  "groupby f [] = []"
| "groupby f (x # xs) =
     (case groupby f xs of
        [] \<Rightarrow> [(f x, [x])]
      | (k, g) # rest \<Rightarrow> if f x = k then (k, x # g) # rest else (f x, [x]) # (k, g) # rest)"

subsection \<open>\<open>organize_validator_results\<close>\<close>

text \<open>\<open>collect\<close> is a defaultdict of defaultdicts of lists; \<open>collect[error][msg].append(item)\<close>
  updates the inner dictionary of \<open>error\<close>, appending to the list of \<open>msg\<close>.\<close>

definition collect_item :: "pystr \<Rightarrow> pystr \<Rightarrow> vmsg \<Rightarrow>
    (pystr \<times> (pystr \<times> vmsg list) list) list \<Rightarrow> (pystr \<times> (pystr \<times> vmsg list) list) list" where
  "collect_item error msg item collect = dd_upd error (dd_upd msg (\<lambda>l. l @ [item]) []) [] collect"

definition organize_validator_results :: "vmsg list \<Rightarrow> (pystr \<times> (pystr \<times> vmsg list) list) list" where
  "organize_validator_results messages =
     foldl (\<lambda>collect ((error, msg), group). foldl (\<lambda>collect item. collect_item error msg item collect) collect group)
       [] (groupby (\<lambda>m. (vtype m, vmessage m)) messages)"

subsection \<open>The \<open>EXCLUDE\<close> pattern\<close>

text \<open>The literal text of \<open>EXCLUDE\<close> before its final \<open>.$\<close>; the quotes are U+201C and U+201D.\<close>

definition EXCLUDE_TEXT :: pystr where
  "EXCLUDE_TEXT = u ''or with a '' @ [8220] @ u ''role'' @ [8221] @ u '' attribute whose value is '' @
     [8220] @ u ''table'' @ [8221] @ u '', '' @ [8220] @ u ''grid'' @ [8221] @ u '', or '' @
     [8220] @ u ''treegrid'' @ [8221]"

text \<open>\<open>EXCLUDE.search(s)\<close>: the text, then \<open>.\<close> (any character but a newline), then \<open>$\<close>
  (the end of the string, or a newline that ends it). The pattern has no other
  metacharacter, so a match can only sit at the end.\<close>

definition exclude_search :: "pystr \<Rightarrow> bool" where
  "exclude_search s =
     (let n = length EXCLUDE_TEXT; l = length s in
       (n + 1 \<le> l \<and> take n (drop (l - (n + 1)) s) = EXCLUDE_TEXT \<and> s ! (l - 1) \<noteq> 10) \<or>
       (n + 2 \<le> l \<and> s ! (l - 1) = 10 \<and> take n (drop (l - (n + 2)) s) = EXCLUDE_TEXT \<and> s ! (l - 2) \<noteq> 10))"

text \<open>\<open>re.compile(p).search\<close> for a pattern \<open>p\<close> without metacharacters.\<close>

definition literal_search :: "pystr \<Rightarrow> pystr \<Rightarrow> bool" where
  "literal_search p s = (py_find p s \<noteq> None)"

subsection \<open>\<open>raise_if_errors\<close>\<close>

text \<open>\<open>exclude\<close> is the compiled pattern (\<open>Some\<close> its \<open>search\<close>) or a false value (\<open>None\<close>).
  The result is the raised exception, or \<open>None\<close> when the function returns.\<close>

definition raise_if_errors :: "vmsg list \<Rightarrow> (pystr \<Rightarrow> bool) option \<Rightarrow> exc option" where
  "raise_if_errors messages exclude =
     (let collect = organize_validator_results messages;
          errors = dd_get (u ''error'') [] collect;
          exceptions = map (\<lambda>(msg, items). ExceptionGroup msg (map (\<lambda>x. PyException (vextract x)) items))
            (filter (\<lambda>(msg, items). case exclude of None \<Rightarrow> True | Some search \<Rightarrow> \<not> search msg) errors)
      in if exceptions = [] then None else Some (ExceptionGroup (u ''nu validator errors'') exceptions))"

definition raise_if_errors_default :: "vmsg list \<Rightarrow> exc option" where
  "raise_if_errors_default messages = raise_if_errors messages (Some exclude_search)"

subsection \<open>Specifications\<close>

text \<open>What the grouping promises: for each type in first-seen order, for each message text of
  that type in first-seen order, all the messages with that type and text, in input order.\<close>

definition collect_spec :: "vmsg list \<Rightarrow> (pystr \<times> (pystr \<times> vmsg list) list) list" where
  "collect_spec ms =
     map (\<lambda>t. (t, map (\<lambda>m. (m, filter (\<lambda>x. vtype x = t \<and> vmessage x = m) ms))
                     (first_seen (map vmessage (filter (\<lambda>x. vtype x = t) ms)))))
       (first_seen (map vtype ms))"

definition kept :: "(pystr \<Rightarrow> bool) option \<Rightarrow> pystr \<Rightarrow> bool" where
  "kept exclude msg = (case exclude of None \<Rightarrow> True | Some search \<Rightarrow> \<not> search msg)"

definition errors_of :: "vmsg list \<Rightarrow> vmsg list" where
  "errors_of ms = filter (\<lambda>x. vtype x = u ''error'') ms"

definition raise_spec :: "vmsg list \<Rightarrow> (pystr \<Rightarrow> bool) option \<Rightarrow> exc option" where
  "raise_spec ms exclude =
     (let keys = filter (kept exclude) (first_seen (map vmessage (errors_of ms))) in
      if keys = [] then None
      else Some (ExceptionGroup (u ''nu validator errors'')
             (map (\<lambda>m. ExceptionGroup m (map (\<lambda>x. PyException (vextract x))
                        (filter (\<lambda>x. vmessage x = m) (errors_of ms)))) keys)))"

subsection \<open>The example of the specification\<close>

definition example_messages :: "vmsg list" where
  "example_messages =
     [\<lparr>vtype = u ''error'', vmessage = u ''Foo'', vextract = u ''a'', vsubType = None\<rparr>,
      \<lparr>vtype = u ''error'', vmessage = u ''Foo'', vextract = u ''b'', vsubType = None\<rparr>,
      \<lparr>vtype = u ''warning'', vmessage = u ''Bar'', vextract = u ''c'', vsubType = None\<rparr>]"

section \<open>Lemmas\<close>

lemma concat_groupby: "concat (map snd (groupby f xs)) = xs"
  by (induction f xs rule: groupby.induct) (auto split: list.splits if_splits)

lemma groupby_keys: "(k, g) \<in> set (groupby f xs) \<Longrightarrow> x \<in> set g \<Longrightarrow> f x = k"
proof (induction xs arbitrary: k g)
  case (Cons y xs)
  note IH = Cons.IH and prems = Cons.prems
  show ?case
  proof (cases "groupby f xs")
    case Nil
    then show ?thesis using prems by simp
  next
    case (Cons kg rest)
    obtain k' g' where kg: "kg = (k', g')" by fastforce
    show ?thesis
    proof (cases "f y = k'")
      case True
      then show ?thesis using prems Cons kg IH by (auto split: if_splits) blast
    next
      case False
      then show ?thesis using prems Cons kg IH by (auto split: if_splits)
    qed
  qed
qed simp

lemma foldl_groups:
  assumes "\<And>k g x. (k, g) \<in> set gs \<Longrightarrow> x \<in> set g \<Longrightarrow> f x = k"
  shows "foldl (\<lambda>acc (k, g). foldl (\<lambda>acc x. F k x acc) acc g) a gs =
         foldl (\<lambda>acc x. F (f x) x acc) a (concat (map snd gs))"
  using assms
proof (induction gs arbitrary: a)
  case (Cons kg gs)
  obtain k g where kg: "kg = (k, g)" by fastforce
  have "foldl (\<lambda>acc x. F k x acc) a g = foldl (\<lambda>acc x. F (f x) x acc) a g"
    using Cons.prems kg by (intro foldl_cong) auto
  moreover have "\<And>b. foldl (\<lambda>acc (k, g). foldl (\<lambda>acc x. F k x acc) acc g) b gs =
      foldl (\<lambda>acc x. F (f x) x acc) b (concat (map snd gs))"
    by (rule Cons.IH) (auto intro: Cons.prems)
  ultimately show ?case using kg by simp
qed simp

lemma foldl_snoc_id: "foldl (\<lambda>v x. v @ [x]) ys xs = ys @ xs"
  by (induction xs arbitrary: ys) auto

lemma filter_filter_conj: "filter P (filter Q xs) = filter (\<lambda>x. Q x \<and> P x) xs"
  by (induction xs) auto

lemma organize_flat:
  "organize_validator_results ms = foldl (\<lambda>c x. collect_item (vtype x) (vmessage x) x c) [] ms"
proof -
  have "organize_validator_results ms =
      foldl (\<lambda>acc (k, g). foldl (\<lambda>acc x. (case k of (e, m) \<Rightarrow> collect_item e m x acc)) acc g) []
        (groupby (\<lambda>m. (vtype m, vmessage m)) ms)"
    unfolding organize_validator_results_def by (simp add: split_def)
  also have "\<dots> = foldl (\<lambda>acc x. (case (vtype x, vmessage x) of (e, m) \<Rightarrow> collect_item e m x acc)) []
        (concat (map snd (groupby (\<lambda>m. (vtype m, vmessage m)) ms)))"
    by (rule foldl_groups) (rule groupby_keys)
  finally show ?thesis by (simp add: concat_groupby)
qed

lemma inner_collect:
  "foldl (\<lambda>v x. dd_upd (vmessage x) (\<lambda>l. l @ [x]) [] v) [] ys =
   map (\<lambda>m. (m, filter (\<lambda>x. vmessage x = m) ys)) (first_seen (map vmessage ys))"
  using dd_upd_fold [where key = vmessage and g = "\<lambda>x l. l @ [x]" and d = "[]" and xs = ys]
  by (simp add: foldl_snoc_id)

lemma organize_collect:
  "organize_validator_results ms = collect_spec ms"
proof -
  have "organize_validator_results ms =
      foldl (\<lambda>c x. dd_upd (vtype x) (\<lambda>v. dd_upd (vmessage x) (\<lambda>l. l @ [x]) [] v) [] c) [] ms"
    by (simp add: organize_flat collect_item_def)
  also have "\<dots> = collect_spec ms"
    using dd_upd_fold [where key = vtype and g = "\<lambda>x v. dd_upd (vmessage x) (\<lambda>l. l @ [x]) [] v" and d = "[]" and xs = ms]
    by (simp add: collect_spec_def inner_collect filter_filter_conj)
  finally show ?thesis .
qed

lemma dd_get_collect_spec:
  "dd_get t [] (collect_spec ms) =
   map (\<lambda>m. (m, filter (\<lambda>x. vtype x = t \<and> vmessage x = m) ms))
     (first_seen (map vmessage (filter (\<lambda>x. vtype x = t) ms)))"
proof (cases "t \<in> vtype ` set ms")
  case False
  then have "filter (\<lambda>x. vtype x = t) ms = []" by (auto simp: filter_empty_conv)
  with False show ?thesis by (simp add: dd_get_def collect_spec_def al_lookup_map first_seen_def)
qed (simp add: dd_get_def collect_spec_def al_lookup_map)

lemma filter_pairs:
  "filter (\<lambda>(m, items). P m) (map (\<lambda>m. (m, F m)) ks) = map (\<lambda>m. (m, F m)) (filter P ks)"
  by (induction ks) auto

lemma raise_if_errors_keys:
  "raise_if_errors ms exclude = raise_spec ms exclude"
proof -
  have k: "(\<lambda>(msg, items). case exclude of None \<Rightarrow> True | Some search \<Rightarrow> \<not> search msg) =
      (\<lambda>(msg, items :: vmsg list). kept exclude msg)"
    by (simp add: kept_def)
  show ?thesis
    unfolding raise_if_errors_def raise_spec_def Let_def organize_collect
      dd_get_collect_spec k filter_pairs
    by (simp add: errors_of_def filter_filter_conj comp_def)
qed

lemma ends_with_iff:
  "(\<exists>pre. s = pre @ ys) \<longleftrightarrow> length ys \<le> length s \<and> drop (length s - length ys) s = ys"
proof
  assume "length ys \<le> length s \<and> drop (length s - length ys) s = ys"
  then show "\<exists>pre. s = pre @ ys" by (metis append_take_drop_id)
qed auto

lemma snoc_iff_take_nth:
  "length D = Suc (length T) \<Longrightarrow> D = T @ [c] \<longleftrightarrow> take (length T) D = T \<and> D ! length T = c"
  by (metis append_butlast_last_id butlast_conv_take diff_Suc_1 last_conv_nth length_greater_0_conv
        zero_less_Suc nth_append_length take_append take_all order_refl append_Nil2 diff_self_eq_0 take0)

lemma search_end1:
  "(\<exists>pre c. c \<noteq> 10 \<and> s = pre @ T @ [c]) \<longleftrightarrow>
   length T + 1 \<le> length s \<and> take (length T) (drop (length s - (length T + 1)) s) = T \<and> s ! (length s - 1) \<noteq> (10::nat)"
proof -
  have e: "\<And>c. (\<exists>pre. s = pre @ T @ [c]) \<longleftrightarrow>
      length T + 1 \<le> length s \<and> drop (length s - (length T + 1)) s = T @ [c]"
    by (subst ends_with_iff) simp
  have "(\<exists>pre c. c \<noteq> 10 \<and> s = pre @ T @ [c]) \<longleftrightarrow>
      (\<exists>c. c \<noteq> 10 \<and> length T + 1 \<le> length s \<and> drop (length s - (length T + 1)) s = T @ [c])"
    using e by blast
  also have "\<dots> \<longleftrightarrow> length T + 1 \<le> length s \<and> take (length T) (drop (length s - (length T + 1)) s) = T
      \<and> s ! (length s - 1) \<noteq> 10"
    using snoc_iff_take_nth [of "drop (length s - (length T + 1)) s" T] by auto
  finally show ?thesis .
qed

lemma search_end2:
  "(\<exists>pre c. c \<noteq> 10 \<and> s = pre @ T @ [c, 10]) \<longleftrightarrow>
   length T + 2 \<le> length s \<and> s ! (length s - 1) = (10::nat) \<and>
   take (length T) (drop (length s - (length T + 2)) s) = T \<and> s ! (length s - 2) \<noteq> 10"
proof -
  have "(\<exists>pre c. c \<noteq> 10 \<and> s = pre @ T @ [c, 10]) \<longleftrightarrow>
      s \<noteq> [] \<and> last s = 10 \<and> (\<exists>pre c. c \<noteq> 10 \<and> butlast s = pre @ T @ [c])"
  proof
    assume "s \<noteq> [] \<and> last s = 10 \<and> (\<exists>pre c. c \<noteq> 10 \<and> butlast s = pre @ T @ [c])"
    then obtain pre c where "c \<noteq> 10" "s = butlast s @ [10]" "butlast s = pre @ T @ [c]"
      by (metis append_butlast_last_id)
    then show "\<exists>pre c. c \<noteq> 10 \<and> s = pre @ T @ [c, 10]" by auto
  qed (auto simp: butlast_append)
  also have "\<dots> \<longleftrightarrow> length T + 2 \<le> length s \<and> s ! (length s - 1) = 10 \<and>
      take (length T) (drop (length s - (length T + 2)) s) = T \<and> s ! (length s - 2) \<noteq> 10"
    by (cases "s = []")
       (auto simp: search_end1 last_conv_nth nth_butlast butlast_conv_take drop_take min_def numeral_2_eq_2)
  finally show ?thesis .
qed

lemma first_seen_msg_witness:
  "m \<in> set (first_seen (map vmessage xs)) \<Longrightarrow> filter (\<lambda>x. vmessage x = m) xs \<noteq> []"
  by (auto simp: filter_empty_conv)

lemma errors_of_idem [simp]: "errors_of (errors_of ms) = errors_of ms"
  by (simp add: errors_of_def)

text \<open>C19: the nested defaultdict that \<open>organize_validator_results\<close> fills while walking the
  \<open>groupby\<close> runs is the grouping specification: types in first-seen order, for each type its
  message texts in first-seen order, for each text all its messages in input order (the runs
  of equal keys that \<open>groupby\<close> splits are merged again).\<close>

theorem organize_validator_results_eq_spec:
  "organize_validator_results ms = collect_spec ms"
  by (rule organize_collect)

text \<open>C20: \<open>raise_if_errors\<close> refines its specification: it raises one group per non-excluded
  error message, in first-seen order, holding the extracts of all messages with that text,
  and returns normally when no such message exists.\<close>

theorem raise_if_errors_refines_spec:
  "raise_if_errors ms exclude = raise_spec ms exclude"
  by (rule raise_if_errors_keys)

text \<open>C23: the default exclusion pattern matches exactly the messages that end with its text,
  one more character other than a newline, and optionally a final newline (the semantics of
  \<open>re.search\<close> with an unescaped \<open>.\<close> and \<open>$\<close>).\<close>

theorem exclude_search_iff:
  "exclude_search s \<longleftrightarrow>
   (\<exists>pre c. c \<noteq> 10 \<and> (s = pre @ EXCLUDE_TEXT @ [c] \<or> s = pre @ EXCLUDE_TEXT @ [c, 10]))"
  unfolding exclude_search_def Let_def ex_disj_distrib conj_disj_distribL search_end1 search_end2
  by simp

text \<open>C22: every exception group \<open>raise_if_errors\<close> raises is well formed: the outer group and
  each message group are non-empty, so \<open>ExceptionGroup\<close> never rejects its arguments.\<close>

theorem raise_if_errors_wf:
  "raise_if_errors ms exclude = Some e \<Longrightarrow> exc_wf e"
  by (auto simp: raise_if_errors_keys raise_spec_def Let_def list_all_iff first_seen_msg_witness
      split: if_splits)

text \<open>C21: \<open>raise_if_errors\<close> returns without raising exactly when every error-type message is
  matched by the exclusion pattern; warnings and informational messages never raise.\<close>

theorem raise_if_errors_None_iff:
  "raise_if_errors ms exclude = None \<longleftrightarrow>
   (\<forall>x \<in> set ms. vtype x = u ''error'' \<longrightarrow> \<not> kept exclude (vmessage x))"
  by (auto simp: raise_if_errors_keys raise_spec_def Let_def errors_of_def filter_empty_conv)

text \<open>C24: messages that are not errors have no effect on what \<open>raise_if_errors\<close> raises.\<close>

theorem raise_if_errors_errors_only:
  "raise_if_errors (filter (\<lambda>x. vtype x = u ''error'') ms) exclude = raise_if_errors ms exclude"
proof -
  have "filter (\<lambda>x. vtype x = u ''error'') ms = errors_of ms" by (simp add: errors_of_def)
  then show ?thesis by (simp only: raise_if_errors_keys raise_spec_def errors_of_idem)
qed

theorem raise_if_errors_wf_witness:
  "raise_if_errors example_messages None =
     Some (ExceptionGroup (u ''nu validator errors'') [ExceptionGroup (u ''Foo'') [PyException (u ''a''), PyException (u ''b'')]]) \<and>
   exc_wf (ExceptionGroup (u ''nu validator errors'') [ExceptionGroup (u ''Foo'') [PyException (u ''a''), PyException (u ''b'')]])"
  using raise_if_errors_wf [of example_messages None]
  by (simp add: raise_if_errors_def example_messages_def organize_validator_results_def collect_item_def raise_if_errors_def
      dd_get_def u_def)

theorem raise_if_errors_None_iff_witness:
  "raise_if_errors example_messages (Some (literal_search (u ''Foo''))) = None"
  using raise_if_errors_None_iff [of example_messages "Some (literal_search (u ''Foo''))"]
  by (simp add: example_messages_def kept_def literal_search_def u_def)

end
