(* ===== verification/Transport.thy ===== *)
theory Transport
  imports Launcher Classifier
begin

text \<open>
  The transport layer of \<open>utils.py\<close> (\<open>get_vnu_path\<close>, \<open>validate_url\<close>,
  \<open>validate_path\<close>) and the document fixtures of \<open>pytest_plugin.py\<close>
  (\<open>validate_html_file\<close>): how the command line of the \<open>vnu\<close> executable and the HTTP
  request to the server are built from their arguments. The effects (\<open>shutil.which\<close>,
  \<open>Path.read_bytes\<close>, \<open>subprocess.check_output\<close> followed by \<open>json.loads\<close>, and
  \<open>requests.post\<close> followed by \<open>.json()\<close>) are the fields of \<open>transport_env\<close>; the JSON
  answer is represented by its \<open>messages\<close>.
\<close>

subsection \<open>Documents, requests and errors\<close>

text \<open>The document a test passes: a \<open>pathlib.Path\<close> or a \<open>str\<close>.\<close>

datatype doc = DocPath path | DocStr pystr

record http_request =
  req_url :: pystr
  req_body :: pystr
  req_headers :: "(pystr \<times> pystr) list"

record transport_env =
  which_t :: "pystr \<Rightarrow> pystr option"
  read_bytes :: "path \<Rightarrow> pystr"
  check_output :: "pystr list \<Rightarrow> vmsg list"
  http_post :: "http_request \<Rightarrow> vmsg list"

text \<open>The Python exceptions of the front end: \<open>AttributeError\<close> (a \<open>str\<close> has no
  \<open>read_bytes\<close>; \<open>None\<close> has no \<open>exception\<close>), \<open>TypeError\<close> (\<open>None\<close> in the argument list of
  \<open>check_output\<close>), and an exception raised on purpose.\<close>

datatype py_error = AttributeError | TypeError | Raised exc

subsection \<open>Operations\<close>

text \<open>\<open>shutil.which("vnu") or shutil.which("vnu.cmd")\<close>: an empty path is false.\<close>

definition get_vnu_path :: "transport_env \<Rightarrow> pystr option" where
  "get_vnu_path te =
     (case which_t te (u ''vnu'') of
        Some p \<Rightarrow> if p \<noteq> [] then Some p else which_t te (u ''vnu.cmd'')
      | None \<Rightarrow> which_t te (u ''vnu.cmd''))"

text \<open>\<open>os.fspath\<close> of the document as \<open>check_output\<close> passes it.\<close>

definition doc_fspath :: "doc \<Rightarrow> pystr" where
  "doc_fspath d = (case d of DocPath p \<Rightarrow> path_str p | DocStr s \<Rightarrow> s)"

definition vnu_command :: "pystr \<Rightarrow> doc \<Rightarrow> pystr list" where
  "vnu_command exe url =
     [exe, u ''--stdout'', u ''--format'', u ''json'', u ''--exit-zero-always'', doc_fspath url]"

definition validate_url :: "transport_env \<Rightarrow> doc \<Rightarrow> py_error + vmsg list" where
  "validate_url te url =
     (case get_vnu_path te of
        None \<Rightarrow> Inl TypeError
      | Some exe \<Rightarrow> Inr (check_output te (vnu_command exe url)))"

text \<open>The request of \<open>validate_path\<close>: \<open>f"{a_vnu_server_url}?out=json"\<close>, the bytes of the
  document and the content type.\<close>

definition vnu_request :: "pystr \<Rightarrow> pystr \<Rightarrow> http_request" where
  "vnu_request server data =
     \<lparr>req_url = server @ u ''?out=json'', req_body = data, req_headers = [(u ''Content-Type'', u ''text/html'')]\<rparr>"

definition validate_path :: "transport_env \<Rightarrow> pystr \<Rightarrow> doc \<Rightarrow> py_error + vmsg list" where
  "validate_path te a_vnu_server_url path =
     (case path of
        DocStr _ \<Rightarrow> Inl AttributeError
      | DocPath p \<Rightarrow> Inr (http_post te (vnu_request a_vnu_server_url (read_bytes te p))))"

text \<open>\<open>post\<close>, the function the session fixture \<open>validate_html_file\<close> returns: a second copy
  of the body of \<open>validate_path\<close>, annotated \<open>path: Path | str\<close>.\<close>

definition validate_html_file :: "transport_env \<Rightarrow> pystr \<Rightarrow> doc \<Rightarrow> py_error + vmsg list" where
  "validate_html_file te a_vnu_server_url path =
     (let url = a_vnu_server_url @ u ''?out=json'' in
      case path of
        DocStr _ \<Rightarrow> Inl AttributeError
      | DocPath p \<Rightarrow> Inr (http_post te \<lparr>req_url = url, req_body = read_bytes te p,
                                        req_headers = [(u ''Content-Type'', u ''text/html'')]\<rparr>))"

section \<open>Lemmas\<close>

text \<open>C13: \<open>validate_url\<close> fails with \<open>TypeError\<close> exactly when neither \<open>vnu\<close> nor
  \<open>vnu.cmd\<close> is on the \<open>PATH\<close>; otherwise it runs \<open>vnu\<close> on the document with JSON output
  and \<open>--exit-zero-always\<close>, the document last.\<close>

theorem validate_url_result:
  "validate_url te url =
     (if (which_t te (u ''vnu'') = None \<or> which_t te (u ''vnu'') = Some []) \<and> which_t te (u ''vnu.cmd'') = None
      then Inl TypeError
      else Inr (check_output te (the (get_vnu_path te) # u ''--stdout'' # u ''--format'' # u ''json'' #
                                 u ''--exit-zero-always'' # [doc_fspath url])))"
  by (auto simp: validate_url_def get_vnu_path_def vnu_command_def split: option.splits)

text \<open>C14: the session fixture \<open>validate_html_file\<close> sends the same request as \<open>validate_path\<close>;
  although its parameter is annotated \<open>Path | str\<close>, a \<open>str\<close> fails with \<open>AttributeError\<close>.\<close>

theorem validate_html_file_eq_validate_path:
  "validate_html_file te s d = validate_path te s d \<and> validate_html_file te s (DocStr t) = Inl AttributeError"
  by (simp add: validate_html_file_def validate_path_def vnu_request_def split: doc.split)

end
