(* ===== verification/Violation.thy ===== *)
theory Violation
  imports Transport
begin

text \<open>
  \<open>validator.py\<close>: \<open>ValidatorViolation.cast\<close>, which derives a classification key from a
  message and keeps one class per key in the class attribute \<open>map\<close>;
  \<open>ValidatorViolation.from_violations\<close> and \<open>ValidatorResults.exception\<close>, which turn the
  checker's answer into one exception group; and the front end \<open>Validator.run\<close> with the
  \<open>Collector.exception\<close>/\<open>Collector.raises\<close> methods of \<open>utils.py\<close> it inherits.
  \<open>ValidatorViolation[key]\<close> (a class subscript of the external \<open>Violation\<close> base) is
  represented by its key.
\<close>

subsection \<open>The \<open>CSS_START\<close> pattern\<close>

text \<open>\<open>CSS_START.match(s)\<close>: an opening quote U+201C, one or more
  non-space characters, a closing quote U+201D and a colon. \<open>css_tail cs seen\<close> scans the
  characters after the opening quote; \<open>seen\<close> records that \<open>\S+\<close> has consumed one.\<close>

fun css_tail :: "pystr \<Rightarrow> bool \<Rightarrow> bool" where
  "css_tail [] seen = False"
| "css_tail (c # cs) seen = ((seen \<and> c = 8221 \<and> take 1 cs = [58]) \<or> (\<not> py_isspace c \<and> css_tail cs True))"

definition css_start :: "pystr \<Rightarrow> bool" where
  "css_start s = (case s of [] \<Rightarrow> False | c # cs \<Rightarrow> c = 8220 \<and> css_tail cs False)"

subsection \<open>\<open>ValidatorViolation.cast\<close>\<close>

text \<open>A class created by \<open>type(id, t, {})\<close>: its name and the keys of its bases.\<close>

record vclass =
  cname :: pystr
  cbases :: "pystr list"

type_synonym class_map = "(pystr \<times> vclass) list"

text \<open>\<open>prop[1:-1]\<close>.\<close>

definition strip_quotes :: "pystr \<Rightarrow> pystr" where
  "strip_quotes p = butlast (tl p)"

text \<open>The key \<open>id\<close> and the bases \<open>t\<close> that \<open>cast\<close> computes, branch by branch.\<close>

definition cast_parts :: "vmsg \<Rightarrow> pystr \<times> pystr list" where
  "cast_parts message =
     (let t = [vtype message] @
              (case vsubType message of None \<Rightarrow> [] | Some st \<Rightarrow> if st \<noteq> [] then [st] else []);
          msg = vmessage message in
      if py_startswith msg (u ''CSS:'') then
        (let msg = drop 5 msg; t = t @ [u ''css''] in
         if css_start msg then
           (case py_partition msg (u '': '') of (prop, _, _) \<Rightarrow>
              (vtype message @ u ''-'' @ strip_quotes prop, t @ [strip_quotes prop]))
         else (vtype message @ u ''-'' @ py_strip msg, t))
      else (vtype message @ u ''-'' @ py_strip msg, t))"

text \<open>\<open>dict.setdefault\<close> on an insertion-ordered dictionary.\<close>

definition setdefault :: "'k \<Rightarrow> 'v \<Rightarrow> ('k \<times> 'v) list \<Rightarrow> 'v \<times> ('k \<times> 'v) list" where
  "setdefault k v d = (case map_of d k of Some x \<Rightarrow> (x, d) | None \<Rightarrow> (v, d @ [(k, v)]))"

definition cast :: "vmsg \<Rightarrow> class_map \<Rightarrow> vclass \<times> class_map" where
  "cast message cmap = (case cast_parts message of (key, t) \<Rightarrow> setdefault key \<lparr>cname = key, cbases = t\<rparr> cmap)"

text \<open>Every entry of the class map is the class named by its key, and keys are unique.\<close>

definition class_map_ok :: "class_map \<Rightarrow> bool" where
  "class_map_ok cmap = (distinct (map fst cmap) \<and> list_all (\<lambda>(k, c). cname c = k) cmap)"

subsection \<open>Results and the front end\<close>

definition from_violations :: "vmsg list \<Rightarrow> exc" where
  "from_violations messages =
     ExceptionGroup (str_nat (length messages) @ u '' html violations'') (map ValidatorViolation messages)"

text \<open>\<open>ValidatorResults.exception\<close>: \<open>None\<close> is Python's implicit \<open>return None\<close>.\<close>

definition validator_results_exception :: "vmsg list \<Rightarrow> exc option" where
  "validator_results_exception messages =
     (if messages \<noteq> [] then Some (from_violations messages) else None)"

text \<open>A \<open>Validator\<close>: the document (\<open>url\<close>), the server URL (\<open>None\<close> by default) and the
  \<open>ValidatorResults\<close> once \<open>run\<close> has stored them (represented by their messages).\<close>

record validator =
  vurl :: doc
  server_url :: "pystr option"
  results :: "vmsg list option"

text \<open>\<open>Validator.run\<close>: through the server when \<open>server_url\<close> is true, else through the
  \<open>vnu\<close> command line; an exception of the transport propagates.\<close>

definition validator_run :: "transport_env \<Rightarrow> validator \<Rightarrow> py_error + validator" where
  "validator_run te v =
     (let r = (case server_url v of
                 Some s \<Rightarrow> if s \<noteq> [] then validate_path te s (vurl v) else validate_url te (vurl v)
               | None \<Rightarrow> validate_url te (vurl v))
      in case r of Inl e \<Rightarrow> Inl e | Inr data \<Rightarrow> Inr (v\<lparr>results := Some data\<rparr>))"

text \<open>\<open>go\<close> of the fixtures \<open>validate_html_url\<close> and \<open>validate_html_path\<close>.\<close>

definition validate_html_url_go :: "doc \<Rightarrow> validator" where
  "validate_html_url_go url = \<lparr>vurl = url, server_url = None, results = None\<rparr>"

definition validate_html_path_go :: "pystr \<Rightarrow> doc \<Rightarrow> validator" where
  "validate_html_path_go a_vnu_server_url url = \<lparr>vurl = url, server_url = Some a_vnu_server_url, results = None\<rparr>"

text \<open>\<open>Collector.exception\<close>: \<open>self.results.exception()\<close> fails on \<open>results = None\<close>.\<close>

definition collector_exception :: "validator \<Rightarrow> py_error + exc option" where
  "collector_exception v =
     (case results v of None \<Rightarrow> Inl AttributeError | Some d \<Rightarrow> Inr (validator_results_exception d))"

text \<open>\<open>Collector.raises\<close>: an exception object is true, so it is raised when there is one.\<close>

text \<open>\<open>Results.raises\<close> on \<open>ValidatorResults\<close>.\<close>

definition results_raises :: "vmsg list \<Rightarrow> py_error + unit" where
  "results_raises data =
     (case validator_results_exception data of None \<Rightarrow> Inr () | Some exc \<Rightarrow> Inl (Raised exc))"

definition collector_raises :: "validator \<Rightarrow> py_error + unit" where
  "collector_raises v =
     (case collector_exception v of
        Inl e \<Rightarrow> Inl e
      | Inr None \<Rightarrow> Inr ()
      | Inr (Some exc) \<Rightarrow> Inl (Raised exc))"

subsection \<open>Examples\<close>

text \<open>A style message without the space the code expects after \<open>CSS:\<close>.\<close>

definition css_no_space :: vmsg where
  "css_no_space = \<lparr>vtype = u ''error'', vmessage = u ''CSS:'' @ [8220] @ u ''color'' @ [8221] @ u '': red'',
     vextract = u ''p'', vsubType = None\<rparr>"

definition css_message :: vmsg where
  "css_message = \<lparr>vtype = u ''error'', vmessage = u ''CSS: '' @ [8220] @ u ''color'' @ [8221] @ u '': red'',
     vextract = u ''p'', vsubType = None\<rparr>"

text \<open>The same style message reported with a sub-type.\<close>

definition css_message_fatal :: vmsg where
  "css_message_fatal = css_message\<lparr>vsubType := Some (u ''fatal'')\<rparr>"

section \<open>Lemmas\<close>

lemma css_tail_iff:
  "css_tail cs seen \<longleftrightarrow>
   (\<exists>w rest. (seen \<or> w \<noteq> []) \<and> list_all (\<lambda>c. \<not> py_isspace c) w \<and> cs = w @ 8221 # 58 # rest)"
proof (induction cs arbitrary: seen)
  case (Cons c cs)
  show ?case
  proof
    assume "css_tail (c # cs) seen"
    then consider "seen" "c = 8221" "take 1 cs = [58]" | "\<not> py_isspace c" "css_tail cs True"
      by auto
    then show "\<exists>w rest. (seen \<or> w \<noteq> []) \<and> list_all (\<lambda>c. \<not> py_isspace c) w \<and> c # cs = w @ 8221 # 58 # rest"
    proof cases
      case 1
      then show ?thesis by (intro exI [of _ "[]"] exI [of _ "tl cs"]) (cases cs, auto)
    next
      case 2
      then obtain w rest where "list_all (\<lambda>c. \<not> py_isspace c) w" "cs = w @ 8221 # 58 # rest"
        using Cons.IH by blast
      with 2 show ?thesis by (intro exI [of _ "c # w"] exI [of _ rest]) simp
    qed
  next
    assume "\<exists>w rest. (seen \<or> w \<noteq> []) \<and> list_all (\<lambda>c. \<not> py_isspace c) w \<and> c # cs = w @ 8221 # 58 # rest"
    then obtain w rest where w: "seen \<or> w \<noteq> []" "list_all (\<lambda>c. \<not> py_isspace c) w"
        "c # cs = w @ 8221 # 58 # rest" by blast
    show "css_tail (c # cs) seen"
    proof (cases w)
      case Nil
      with w show ?thesis by simp
    next
      case (Cons c' w')
      with w Cons.IH [of True] show ?thesis by auto
    qed
  qed
qed simp

lemma cast_parts_setdefault:
  "cast m cmap = setdefault (fst (cast_parts m)) \<lparr>cname = fst (cast_parts m), cbases = snd (cast_parts m)\<rparr> cmap"
  by (simp add: cast_def split: prod.split)

lemma map_of_ok: "class_map_ok cmap \<Longrightarrow> map_of cmap k = Some c \<Longrightarrow> cname c = k"
  by (induction cmap) (auto simp: class_map_ok_def split: if_splits)

lemma setdefault_ok:
  assumes "class_map_ok cmap" "cname c = k"
  shows "class_map_ok (snd (setdefault k c cmap)) \<and> cname (fst (setdefault k c cmap)) = k"
proof (cases "map_of cmap k")
  case None
  then have "k \<notin> fst ` set cmap" by (simp add: map_of_eq_None_iff)
  with None assms show ?thesis by (simp add: setdefault_def class_map_ok_def)
next
  case (Some x)
  with assms show ?thesis by (simp add: setdefault_def map_of_ok)
qed

lemma py_find_colon_space:
  "32 \<notin> set xs \<Longrightarrow> py_find [58, 32] (xs @ 58 # 32 # ys) = Some (length xs)"
proof (induction xs)
  case (Cons x xs)
  have "take 2 (x # xs @ 58 # 32 # ys) \<noteq> [58, 32]"
    using Cons.prems by (cases xs) auto
  with Cons show ?case by simp
qed simp

lemma not_space_32: "list_all (\<lambda>c. \<not> py_isspace c) p \<Longrightarrow> 32 \<notin> set p"
proof -
  have "py_isspace 32" by (simp add: py_isspace_def)
  then show "list_all (\<lambda>c. \<not> py_isspace c) p \<Longrightarrow> 32 \<notin> set p" by (auto simp: list_all_iff)
qed

lemma cast_parts_css:
  assumes "vmessage m = u ''CSS: '' @ 8220 # p @ 8221 # 58 # 32 # rest" "p \<noteq> []"
    "list_all (\<lambda>c. \<not> py_isspace c) p"
  shows "fst (cast_parts m) = vtype m @ u ''-'' @ p"
proof -
  have start: "py_startswith (vmessage m) (u ''CSS:'')" and
    drop5: "drop 5 (vmessage m) = 8220 # p @ 8221 # 58 # 32 # rest"
    using assms(1) by (simp_all add: py_startswith_def u_def)
  have css: "css_start (8220 # p @ 8221 # 58 # 32 # rest)"
    using assms(2,3) by (auto simp: css_start_def css_tail_iff)
  have "32 \<notin> set (8220 # p @ [8221])" using not_space_32 [OF assms(3)] by simp
  then have "py_find (u '': '') (8220 # p @ 8221 # 58 # 32 # rest) = Some (length p + 2)"
    using py_find_colon_space [of "8220 # p @ [8221]" rest] by (simp add: u_def)
  then show ?thesis
    using start drop5 css by (simp add: cast_parts_def Let_def py_partition_def strip_quotes_def)
qed

text \<open>C25: \<open>css_start\<close> is the regular expression \<open>CSS_START\<close>: an opening quote, a non-empty
  run of non-space characters, a closing quote and a colon, at the start of the text.\<close>

theorem css_start_iff:
  "css_start s \<longleftrightarrow>
   (\<exists>w rest. w \<noteq> [] \<and> list_all (\<lambda>c. \<not> py_isspace c) w \<and> s = 8220 # w @ 8221 # 58 # rest)"
  by (cases s) (auto simp: css_start_def css_tail_iff)

text \<open>C26: \<open>cast\<close> never replaces a class: when the class map already holds a class for the
  message's key, \<open>cast\<close> returns that class and leaves the map as it is, whatever bases the
  message itself would give (so a later message that differs only in its \<open>subType\<close> gets the
  class of the first one, without that sub-type among its bases).\<close>

theorem cast_keeps_first_class:
  "map_of cmap (fst (cast_parts m)) = Some c \<Longrightarrow> cast m cmap = (c, cmap)"
  by (simp add: cast_parts_setdefault setdefault_def)

theorem cast_keeps_first_class_witness:
  "map_of (snd (cast css_message [])) (fst (cast_parts css_message_fatal)) =
     Some \<lparr>cname = u ''error-color'', cbases = [u ''error'', u ''css'', u ''color'']\<rparr> \<and>
   cast css_message_fatal (snd (cast css_message [])) =
     (\<lparr>cname = u ''error-color'', cbases = [u ''error'', u ''css'', u ''color'']\<rparr>, snd (cast css_message []))"
proof -
  have parts: "cast_parts css_message = (u ''error-color'', [u ''error'', u ''css'', u ''color''])"
    "fst (cast_parts css_message_fatal) = u ''error-color''"
    by (simp_all add: cast_parts_def css_message_fatal_def css_message_def py_startswith_def css_start_def
        py_partition_def strip_quotes_def py_isspace_def u_def)
  then have "map_of (snd (cast css_message [])) (fst (cast_parts css_message_fatal)) =
     Some \<lparr>cname = u ''error-color'', cbases = [u ''error'', u ''css'', u ''color'']\<rparr>"
    by (simp add: cast_def setdefault_def)
  then show ?thesis using cast_keeps_first_class by blast
qed

text \<open>C27: a style message \<open>CSS: \<open>prop\<close>: text\<close> is keyed by its type and the property name
  alone, so all messages about one property share a class whatever the rest of the text.\<close>

theorem cast_css_property:
  assumes "class_map_ok cmap" "vmessage m = u ''CSS: '' @ 8220 # p @ 8221 # 58 # 32 # rest"
    "p \<noteq> []" "list_all (\<lambda>c. \<not> py_isspace c) p"
  shows "cname (fst (cast m cmap)) = vtype m @ u ''-'' @ p"
  using cast_parts_css [OF assms(2-4)]
    setdefault_ok [OF assms(1), of "\<lparr>cname = vtype m @ u ''-'' @ p, cbases = snd (cast_parts m)\<rparr>"]
  by (simp add: cast_parts_setdefault)

theorem cast_css_property_witness:
  "cname (fst (cast css_message [])) = u ''error-color''"
  using cast_css_property [of "[]" css_message "u ''color''" "u ''red''"]
  by (simp add: class_map_ok_def css_message_def u_def py_isspace_def)

text \<open>C28: \<open>cast\<close> tests for the four characters \<open>CSS:\<close> but cuts five, so a style message
  with the opening quote right after the colon loses that quote: \<open>CSS_START\<close> no longer
  matches, the key is the type and the whole remaining text, and the property name is
  not among the bases (the last base is \<open>css\<close>).\<close>

theorem cast_css_without_space:
  assumes "vmessage m = u ''CSS:'' @ 8220 # r" "take 1 r \<noteq> [8220]"
  shows "fst (cast_parts m) = vtype m @ u ''-'' @ py_strip r \<and> last (snd (cast_parts m)) = u ''css''"
proof -
  have start: "py_startswith (vmessage m) (u ''CSS:'')" and drop5: "drop 5 (vmessage m) = r"
    using assms(1) by (simp_all add: py_startswith_def u_def)
  have "\<not> css_start r" using assms(2) by (cases r) (simp_all add: css_start_def)
  then show ?thesis using start drop5 by (simp add: cast_parts_def Let_def)
qed

theorem cast_css_without_space_witness:
  "vmessage css_no_space = u ''CSS:'' @ 8220 # u ''color'' @ [8221] @ u '': red'' \<and>
   fst (cast_parts css_no_space) = u ''error-'' @ py_strip (u ''color'' @ [8221] @ u '': red'')"
  using cast_css_without_space [of css_no_space "u ''color'' @ [8221] @ u '': red''"]
  by (simp add: css_no_space_def u_def)

text \<open>C29: the exception group of \<open>ValidatorResults.exception\<close> is well formed: it is built only
  when there is at least one message.\<close>

theorem validator_results_exception_wf:
  "validator_results_exception messages = Some e \<Longrightarrow> exc_wf e"
  by (auto simp: validator_results_exception_def from_violations_def list_all_iff split: if_splits)

theorem validator_results_exception_wf_witness:
  "validator_results_exception [css_message] = Some (from_violations [css_message]) \<and>
   exc_wf (from_violations [css_message])"
  using validator_results_exception_wf [of "[css_message]"]
  by (simp add: validator_results_exception_def)

text \<open>C30: after \<open>run\<close> with a server URL, \<open>raises\<close> raises the group of all the server's
  messages when there is any, and returns otherwise.\<close>

theorem validator_run_raises:
  "server_url v = Some s \<Longrightarrow> s \<noteq> [] \<Longrightarrow> vurl v = DocPath p \<Longrightarrow>
   (case validator_run te v of Inl e \<Rightarrow> Inl e | Inr v' \<Rightarrow> collector_raises v') =
     (let ms = http_post te (vnu_request s (read_bytes te p)) in
      if ms = [] then Inr () else Inl (Raised (from_violations ms)))"
  by (simp add: collector_raises_def collector_exception_def validator_run_def validate_path_def
      validator_results_exception_def Let_def)

theorem validator_run_raises_witness:
  "(case validator_run \<lparr>which_t = (\<lambda>_. None), read_bytes = (\<lambda>_. u ''<p>''), check_output = (\<lambda>_. []),
       http_post = (\<lambda>_. [css_message])\<rparr>
       (validate_html_path_go (u ''http://127.0.0.1:8888'') (DocPath (path_of (u ''page.html'')))) of
     Inl e \<Rightarrow> Inl e | Inr v' \<Rightarrow> collector_raises v') =
   Inl (Raised (from_violations [css_message]))"
  using validator_run_raises [of "validate_html_path_go (u ''http://127.0.0.1:8888'') (DocPath (path_of (u ''page.html'')))"
      "u ''http://127.0.0.1:8888''" "path_of (u ''page.html'')"
      "\<lparr>which_t = (\<lambda>_. None), read_bytes = (\<lambda>_. u ''<p>''), check_output = (\<lambda>_. []),
       http_post = (\<lambda>_. [css_message])\<rparr>"]
  by (simp add: validate_html_path_go_def u_def)

end
