(* ===== verification/Dataclass.thy ===== *)
theory Dataclass
  imports Violation
begin

text \<open>The dataclass plumbing of \<open>utils.py\<close>: \<open>Base.dict\<close> (\<open>dataclasses.asdict\<close> with the \<open>None\<close>
  fields dropped), \<open>Base.dump\<close> (\<open>json.dumps\<close> of that dict), the fields that
  \<open>Base.__init_subclass__\<close> turns into dataclass fields (\<open>Collector.url\<close>, \<open>Collector.results\<close>,
  \<open>Results.data\<close>, \<open>Validator.server_url\<close>, parents' fields first) and the fluent
  \<open>Collector.configure\<close>. A value of a dataclass field is a \<open>py_val\<close>; \<open>asdict\<close> turns a nested
  dataclass (the \<open>ValidatorResults\<close> in \<open>results\<close>) into a dict of its own fields. \<open>json.dumps\<close>
  is modelled by what decides its outcome: it raises \<open>TypeError\<close> on a value that is not JSON
  serialisable (a \<open>pathlib.Path\<close>), and otherwise encodes the dict, which stands for the text.\<close>

datatype py_val = PyDoc doc | PyStr pystr | PyMessages "vmsg list" | PyDict "(pystr \<times> py_val) list"

fun json_ok :: "py_val \<Rightarrow> bool" where
  "json_ok (PyDoc (DocPath _)) = False"
| "json_ok (PyDoc (DocStr _)) = True"
| "json_ok (PyStr _) = True"
| "json_ok (PyMessages _) = True"
| "json_ok (PyDict kvs) = (\<forall>kv \<in> set kvs. json_ok (snd kv))"

text \<open>\<open>Base.dict\<close>: \<open>{k: v for k, v in dataclasses.asdict(self).items() if v is not None}\<close>,
  over the fields in declaration order, \<open>None\<close> written as the option's \<open>None\<close>.\<close>

definition base_dict :: "(pystr \<times> py_val option) list \<Rightarrow> (pystr \<times> py_val) list" where
  "base_dict fs = [(k, v). (k, Some v) \<leftarrow> fs]"

text \<open>\<open>Base.dump\<close>: \<open>json.dumps(self.dict())\<close>.\<close>

definition base_dump :: "(pystr \<times> py_val option) list \<Rightarrow> py_error + (pystr \<times> py_val) list" where
  "base_dump fs = (let d = base_dict fs in if json_ok (PyDict d) then Inr d else Inl TypeError)"

text \<open>\<open>asdict\<close> of the \<open>ValidatorResults(data)\<close> held in \<open>results\<close>: its one field \<open>data\<close>.\<close>

definition results_asdict :: "vmsg list \<Rightarrow> py_val" where
  "results_asdict data = PyDict [(u ''data'', PyMessages data)]"

text \<open>The fields \<open>Collector\<close> declares, \<open>url\<close> and \<open>results\<close>, both defaulting to \<open>None\<close>.\<close>

definition collector_fields :: "validator \<Rightarrow> (pystr \<times> py_val option) list" where
  "collector_fields v = [(u ''url'', Some (PyDoc (vurl v))), (u ''results'', map_option results_asdict (results v))]"

text \<open>\<open>Validator(Collector)\<close> adds \<open>server_url\<close> after the inherited fields.\<close>

definition validator_fields :: "validator \<Rightarrow> (pystr \<times> py_val option) list" where
  "validator_fields v = collector_fields v @ [(u ''server_url'', map_option PyStr (server_url v))]"

text \<open>\<open>Collector.configure\<close>: the fluent API returns the collector unchanged.\<close>

definition configure :: "validator \<Rightarrow> validator" where
  "configure v = v"

lemma base_dict_Nil [simp]: "base_dict [] = []"
  by (simp add: base_dict_def)

lemma base_dict_Cons [simp]:
  "base_dict ((k, x) # fs) = (case x of None \<Rightarrow> base_dict fs | Some v \<Rightarrow> (k, v) # base_dict fs)"
  by (cases x) (simp_all add: base_dict_def)

lemma base_dict_append [simp]: "base_dict (fs @ gs) = base_dict fs @ base_dict gs"
  by (simp add: base_dict_def)

lemma base_dict_keys: "fst ` set (base_dict fs) \<subseteq> fst ` set fs"
proof (induction fs)
  case (Cons f fs)
  then show ?case by (cases f; cases "snd f") auto
qed simp

text \<open>Looking a key up in the dict gives the field's value when it is not \<open>None\<close>, and nothing
  when it is \<open>None\<close> or not a field: the dict keeps exactly the set fields.\<close>

lemma map_of_base_dict:
  "distinct (map fst fs) \<Longrightarrow> map_of (base_dict fs) k = Option.bind (map_of fs k) id"
proof (induction fs)
  case Nil
  then show ?case by simp
next
  case (Cons f fs)
  obtain k' x where f: "f = (k', x)" by fastforce
  have "k' \<notin> fst ` set fs" using Cons.prems f by simp
  then have "map_of (base_dict fs) k' = None"
    using base_dict_keys [of fs] by (auto simp: map_of_eq_None_iff)
  then show ?case using Cons f by (cases x) auto
qed

lemma base_dump_eq:
  "base_dump fs = (if json_ok (PyDict (base_dict fs)) then Inr (base_dict fs) else Inl TypeError)"
  by (simp add: base_dump_def Let_def)

lemma json_ok_dict_Cons [simp]:
  "json_ok (PyDict ((k, v) # kvs)) \<longleftrightarrow> json_ok v \<and> json_ok (PyDict kvs)"
  by simp

lemma json_ok_doc [simp]: "json_ok (PyDoc d) \<longleftrightarrow> (\<forall>p. d \<noteq> DocPath p)"
  by (cases d) simp_all

text \<open>C31: \<open>Validator.dict()\<close> lists \<open>url\<close>, then \<open>results\<close> as the dict \<open>{"data": ...}\<close> when the
  validator has run, then \<open>server_url\<close> when it is set (so \<open>validate_html_url\<close>'s validator has only
  \<open>url\<close>); and \<open>Validator.dump()\<close> raises \<open>TypeError\<close> exactly when the document is a
  \<open>pathlib.Path\<close>, which is how \<open>validate_html_path\<close> is documented to be called.\<close>

theorem validator_dict_dump:
  "base_dict (validator_fields v) =
     (u ''url'', PyDoc (vurl v)) #
     (case results v of None \<Rightarrow> [] | Some r \<Rightarrow> [(u ''results'', PyDict [(u ''data'', PyMessages r)])]) @
     (case server_url v of None \<Rightarrow> [] | Some s \<Rightarrow> [(u ''server_url'', PyStr s)]) \<and>
   (base_dump (validator_fields v) = Inl TypeError \<longleftrightarrow> (\<exists>p. vurl v = DocPath p))"
proof -
  have d: "base_dict (validator_fields v) =
     (u ''url'', PyDoc (vurl v)) #
     (case results v of None \<Rightarrow> [] | Some r \<Rightarrow> [(u ''results'', PyDict [(u ''data'', PyMessages r)])]) @
     (case server_url v of None \<Rightarrow> [] | Some s \<Rightarrow> [(u ''server_url'', PyStr s)])"
    by (simp add: validator_fields_def collector_fields_def results_asdict_def
        split: option.split)
  moreover have "json_ok (PyDict (base_dict (validator_fields v))) \<longleftrightarrow> (\<forall>p. vurl v \<noteq> DocPath p)"
    unfolding d by (cases "results v"; cases "server_url v") simp_all
  ultimately show ?thesis by (auto simp: base_dump_eq)
qed

end
