(* ===== verification/Spec2Isabelle.thy ===== *)
theory Spec2Isabelle
  imports Coordinator_Runs Dataclass
begin

text \<open>
  A verification development of pytest-html-validator (\<open>src/pytest_html_validator\<close>):
  a pytest plugin that starts one shared Nu HTML Checker (vnu) server for all test
  workers, hands its URL to every worker and turns the checker's messages into grouped
  exceptions. The parts interact as follows: the session fixture \<open>a_vnu_server_url\<close>
  (\<open>pytest_plugin.py\<close>) elects a leader through a shared lock directory; the leader
  launches the server with \<open>_start_vnu_server\<close> (\<open>utils.py\<close>) and publishes its port;
  tests call \<open>Validator.run\<close> (\<open>validator.py\<close>), whose results are classified either
  by \<open>ValidatorResults.exception\<close> or by \<open>raise_if_errors\<close> (\<open>utils.py\<close>).

  \<^bold>\<open>Theories.\<close>
  \<^item> \<open>Prelude\<close>: Python \<open>str\<close> as a list of code points (\<open>pystr\<close>, literals \<open>u ''...''\<close>)
    and the built-ins the code calls (\<open>strip\<close>, \<open>startswith\<close>, \<open>find\<close>,
    \<open>partition\<close>, \<open>split('-')[-1]\<close>, \<open>str(int)\<close>, \<open>int(str)\<close>, with
    \<open>int(str(n)) = n\<close>); insertion-ordered dictionaries as association lists
    (\<open>dd_upd\<close> is a \<open>defaultdict\<close> update) with the lemma \<open>dd_upd_fold\<close> that a loop of
    updates groups by key in first-seen order.
  \<^item> \<open>Launcher\<close> (\<open>utils.py\<close>: \<open>get_an_unused_port\<close>, \<open>get_vnu_args\<close>,
    \<open>wait_for_vnu_to_start\<close>, \<open>_start_vnu_server\<close>): the operating system is the
    record \<open>launch_env\<close> (bound port as a 16-bit word, environment variables,
    \<open>shutil.which\<close>, \<open>Path.exists\<close>, whether \<open>Popen\<close> raises, the answer of each
    \<open>urlopen\<close> probe); errors are values of \<open>launch_error\<close>; paths follow
    \<open>PurePosixPath\<close> (also when \<open>os.name\<close> is \<open>nt\<close>). The readiness loop is a
    \<open>partial_function (option)\<close> because \<open>while retries:\<close> does not stop for a negative
    count; the lemmas show it returns for every non-negative count, characterise its
    result, and show the divergence.
  \<^item> \<open>Coordinator\<close> (\<open>pytest_plugin.py\<close>, \<open>a_vnu_server_url\<close>): one copy of the fixture
    body per worker, with a program counter \<open>pc\<close> per source statement and the locals in a
    \<open>worker\<close> record; the shared state \<open>cfg\<close> is the lock directory (whether it exists,
    the names in it), the server processes by port and the override variable. The
    inductive relation \<open>step\<close> has one rule per atomic filesystem or process operation,
    any worker may move next, and \<open>reach\<close> closes the initial configurations under it.
    A launch is the whole \<open>_start_vnu_server\<close> of \<open>Launcher\<close> for an arbitrary
    environment; the follower's loop makes all ten iterations, as the code has no
    \<open>break\<close>; \<open>time.sleep\<close> is a no-op step.
  \<^item> \<open>Coordinator_Inv\<close>: invariants by rule induction over \<open>step\<close>: mutual exclusion of
    lock holders, the lock directory exists exactly while held, publication safety (a
    known port is a launched server and the URL is built from it), the override makes
    every worker fail with pytest's did-not-yield error, and a failed worker's token
    blocks the owner's teardown forever (over all further runs, \<open>step\<^sup>*\<^sup>*\<close>), while
    without xdist the master's teardown can always complete; a launch error is only ever
    the failure of the worker that launched, never of a follower.
  \<^item> \<open>Coordinator_Runs\<close>: concrete interleavings of two workers, each proved reachable
    step by step; they witness the invariants and exhibit the races: the teardown removes
    a live token, a follower yields the URL of a terminated server, a late worker becomes
    a second leader, and the deadlock state.
  \<^item> \<open>Classifier\<close> (\<open>utils.py\<close>: \<open>organize_validator_results\<close>, \<open>EXCLUDE\<close>,
    \<open>raise_if_errors\<close>): \<open>itertools.groupby\<close> and the nested \<open>defaultdict\<close> are
    modelled as written and proved equal to a filter specification (types and texts in
    first-seen order); \<open>raise_if_errors\<close> refines \<open>raise_spec\<close>; the
    \<open>EXCLUDE.search\<close> decision procedure is proved equal to the regular-expression
    semantics; exception groups are well formed.
  \<^item> \<open>Transport\<close> (\<open>utils.py\<close>: \<open>get_vnu_path\<close>, \<open>validate_url\<close>,
    \<open>validate_path\<close>; \<open>pytest_plugin.py\<close>: \<open>validate_html_file\<close>): the \<open>vnu\<close> command
    line and the HTTP request as the code builds them; \<open>shutil.which\<close>,
    \<open>Path.read_bytes\<close>, \<open>check_output\<close> with \<open>json.loads\<close> and \<open>requests.post\<close> with
    \<open>.json()\<close> are the fields of \<open>transport_env\<close>; a document is a \<open>Path\<close> or a
    \<open>str\<close> (\<open>doc\<close>); Python exceptions are \<open>py_error\<close>.
  \<^item> \<open>Violation\<close> (\<open>validator.py\<close>: \<open>ValidatorViolation.cast\<close>,
    \<open>from_violations\<close>, \<open>ValidatorResults.exception\<close>, \<open>Validator.run\<close>, and the
    \<open>Collector\<close> methods of \<open>utils.py\<close>): the class attribute \<open>map\<close> is explicit state
    (an insertion-ordered dictionary) threaded through \<open>cast\<close>, which never replaces the
    class of a key; classes are values (name and bases), not objects with an identity;
    \<open>CSS_START\<close> is a
    scanner proved equal to the pattern; \<open>run\<close> calls the transports of \<open>Transport\<close>, and the
    fixtures \<open>validate_html_url\<close> and \<open>validate_html_path\<close> build the validator.
  \<^item> \<open>Dataclass\<close> (\<open>utils.py\<close>: \<open>Base.dict\<close>, \<open>Base.dump\<close>, the fields of \<open>Collector\<close> and
    \<open>Results\<close>, \<open>Collector.configure\<close>; \<open>validator.py\<close>: the field \<open>Validator.server_url\<close>):
    the dataclass fields in declaration order, parents first, as an association list of
    optional values (\<open>py_val\<close>); \<open>dict\<close> drops the \<open>None\<close> fields (a lookup in it gives a
    field's value exactly when it is set) and \<open>dump\<close> raises \<open>TypeError\<close> on a value
    \<open>json.dumps\<close> cannot encode, which is the case of a validator built on a \<open>Path\<close>.
  \<^item> This theory: properties across components: that the validator a test obtains from
    \<open>validate_html_path\<close> with the URL \<open>a_vnu_server_url\<close> yielded posts to a launched server,
    and that every port record in the lock directory reads back, through
    \<open>int(name.split("-")[-1])\<close>, to the port the leader bound (whose range, 0 to 65535,
    comes from the 16-bit word the operating system answers).

  \<^bold>\<open>Bounds and fuel.\<close> No fuel is used: the readiness loop is a partial function whose
  termination for non-negative counts is proved; the follower's loop is bounded by its
  counter (\<open>Poll n\<close>); the owner's wait is unbounded in the code and is a step that may
  repeat forever, which is how the deadlock is stated.

  \<^bold>\<open>Not modelled.\<close> The effects behind the transports (the \<open>vnu\<close> process, the HTTP
  server, JSON decoding) are oracles in \<open>transport_env\<close>; \<open>json.dumps\<close> is modelled by its
  outcome (the dict it encodes, or \<open>TypeError\<close>), not by the text it produces; \<open>Base.__init_subclass__\<close>
  is the field lists of \<open>Dataclass\<close>. \<open>ValidatorViolation[key]\<close> of the external \<open>Violation\<close>
  class is represented by its key, so a \<open>TypeError\<close> from duplicate bases in
  \<open>type(id, t, {})\<close> is not modelled; neither is the keyword check of
  \<open>ValidatorViolation(**message)\<close>, whose field list depends on that external base class.
  The copy of \<open>EXCLUDE\<close> in \<open>validator.py\<close> is never used. The model assumes that \<open>ENV_JAVA_PATH\<close> resolves
  in \<open>utils.py\<close> to the value \<open>pytest_plugin.py\<close> defines (as written, the name is
  undefined there, so that every call of \<open>get_vnu_args\<close> raises \<open>NameError\<close> before its
  dependency check; the coordinator therefore treats a launch as one that may succeed or
  fail), that the lock directory's parent exists, and that the operating
  system never reports a port whose server is still running.
\<close>

section \<open>Properties across components\<close>

lemma in_use_port:
  "reach c \<Longrightarrow> pc (workers c w) = InUse \<Longrightarrow>
   \<exists>q. port (workers c w) = Some q \<and> servers c q \<noteq> None \<and> url (workers c w) = Some (vnu_url PROTO HOST q)"
  using reach_inv [of c] unfolding inv_pc_def wk_ok_def inv_pub_def by (metis option.exhaust)

text \<open>C11: composition of the fixtures: a worker that uses the URL \<open>a_vnu_server_url\<close> yields
  hands it to \<open>validate_html_path\<close>; the resulting validator's \<open>run\<close> posts the document to
  \<open>http://127.0.0.1:q?out=json\<close> for a port \<open>q\<close> on which a vnu server was launched.\<close>

theorem validate_html_path_posts_to_launched_server:
  assumes "reach c" "pc (workers c w) = InUse"
  shows "\<exists>q v. url (workers c w) = Some v \<and> servers c q \<noteq> None \<and> v = vnu_url PROTO HOST q \<and>
    validator_run te (validate_html_path_go v (DocPath p)) =
      Inr ((validate_html_path_go v (DocPath p))\<lparr>results := Some (http_post te
        \<lparr>req_url = vnu_url PROTO HOST q @ u ''?out=json'', req_body = read_bytes te p,
         req_headers = [(u ''Content-Type'', u ''text/html'')]\<rparr>)\<rparr>)"
proof -
  obtain q where q: "port (workers c w) = Some q" "servers c q \<noteq> None"
    "url (workers c w) = Some (vnu_url PROTO HOST q)"
    using in_use_port [OF assms] by blast
  have "vnu_url PROTO HOST q \<noteq> []" by (simp add: vnu_url_def PROTO_def u_def)
  then show ?thesis using q
    by (auto simp: validator_run_def validate_html_path_go_def validate_path_def vnu_request_def)
qed

theorem validate_html_path_posts_to_launched_server_witness:
  "url (workers race_cfg 1) = Some (vnu_url PROTO HOST 8888) \<and> servers race_cfg 8888 \<noteq> None"
  using validate_html_path_posts_to_launched_server [OF reach_race_cfg, of 1]
  by (simp add: race_cfg_def)


text \<open>C12: composition of the port allocator and the coordinator: in every reachable configuration
  each port a worker holds, whether it launched the server itself (\<open>get_an_unused_port\<close>, the
  16-bit port the OS bound) or read it from a port record of the lock directory, is a TCP port
  \<open>0 \<le> q < 65536\<close>, and every port record in the directory names such a port and reads back
  to it with \<open>read_port\<close>.\<close>

theorem ports_are_tcp_ports:
  assumes "reach c"
  shows "(\<forall>w q. port (workers c w) = Some q \<longrightarrow> 0 \<le> q \<and> q < 65536) \<and>
    (\<forall>n \<in> glob (u ''port-'') (entries c).
       \<exists>p. n = port_record p \<and> 0 \<le> p \<and> p < 65536 \<and> read_port n = Some p)"
proof -
  have pub: "inv_pub c" using reach_inv [OF assms] by blast
  have "0 \<le> q \<and> q < 65536" if "port (workers c w) = Some q" for w q
    using inv_pub_port [OF pub that] by (simp add: tcp_port_def)
  moreover have "\<exists>p. n = port_record p \<and> 0 \<le> p \<and> p < 65536 \<and> read_port n = Some p"
    if "n \<in> glob (u ''port-'') (entries c)" for n
    using inv_pub_record [OF pub that] by (auto simp: tcp_port_def read_port_port_record)
  ultimately show ?thesis by blast
qed

theorem ports_are_tcp_ports_witness:
  "port (workers pub_cfg 1) = Some 8888 \<and> port_record 8888 \<in> glob (u ''port-'') (entries pub_cfg) \<and>
   read_port (port_record 8888) = Some 8888"
proof -
  have in_glob: "port_record 8888 \<in> glob (u ''port-'') (entries pub_cfg)"
    by (simp add: pub_cfg_def mk_def glob_def port_record_def py_startswith_def)
  obtain p where "port_record 8888 = port_record p" "read_port (port_record 8888) = Some p" "0 \<le> p"
    using ports_are_tcp_ports [OF reach_pub_cfg] in_glob by blast
  moreover have "port (workers pub_cfg 1) = Some 8888" by (simp add: pub_cfg_def mk_def)
  ultimately show ?thesis using in_glob port_record_inj [of 8888] by simp
qed

end
